theory Spec2Isabelle
  imports Complex_Main
begin

section \<open>Geometric primitives\<close>

text \<open>
  A JavaScript \<open>number\<close> is modelled as a mathematical real. Rounding is therefore not
  part of the model; the places where the source can divide by zero are modelled
  explicitly (see \<open>number\<close> below). No code of the repository assigns to the
  coordinates of a \<open>Vector\<close> after construction, so a \<open>Vector\<close> is a value.
\<close>

record Vector =
  vx :: real
  vy :: real

datatype error = Error string | Rethrown string error

definition Vec :: "real \<Rightarrow> real \<Rightarrow> Vector" where
  "Vec a b = \<lparr>vx = a, vy = b\<rparr>"

definition plus_v :: "Vector \<Rightarrow> Vector \<Rightarrow> Vector" where
  "plus_v a b = Vec (vx a + vx b) (vy a + vy b)"

definition minus_v :: "Vector \<Rightarrow> Vector \<Rightarrow> Vector" where
  "minus_v a b = Vec (vx a - vx b) (vy a - vy b)"

definition length_v :: "Vector \<Rightarrow> real" where
  "length_v a = sqrt (vx a * vx a + vy a * vy a)"

definition normalize_v :: "Vector \<Rightarrow> error + Vector" where
  "normalize_v a =
     (let len = length_v a in
      if len = 0 then Inl (Error ''Cannot normalize zero vector'')
      else Inr (Vec (vx a / len) (vy a / len)))"

definition scale :: "Vector \<Rightarrow> real \<Rightarrow> Vector" where
  "scale a factor = Vec (vx a * factor) (vy a * factor)"

definition dot :: "Vector \<Rightarrow> Vector \<Rightarrow> real" where
  "dot a b = vx a * vx b + vy a * vy b"

definition cross :: "Vector \<Rightarrow> Vector \<Rightarrow> real" where
  "cross a b = vx a * vy b - vy a * vx b"

section \<open>Topology: vertices, edges and polygons as objects of a store\<close>

text \<open>
  \<open>Vertex\<close>, \<open>Edge\<close> and \<open>Polygon\<close> objects are compared by identity
  (\<open>===\<close>, \<open>includes\<close>, \<open>indexOf\<close>) and mutated in place, so they live in a
  store: a reference is the number under which the object was allocated, and \<open>new\<close>
  takes the next free number. The arrays \<open>vertices\<close> and \<open>edges\<close> of a polygon are
  held by that polygon alone and are modelled as lists in its record.
\<close>

type_synonym vref = nat
type_synonym eref = nat
type_synonym pref = nat

record Vertex =
  position :: Vector
  prev :: "vref option"
  nxt :: "vref option"
  bisector :: Vector

record Edge =
  v1 :: vref
  v2 :: vref

record Polygon =
  vertices :: "vref list"
  edges :: "eref list"

record heap =
  vertex_store :: "vref \<Rightarrow> Vertex"
  vertex_count :: nat
  edge_store :: "eref \<Rightarrow> Edge"
  edge_count :: nat
  polygon_store :: "pref \<Rightarrow> Polygon"
  polygon_count :: nat

definition empty_heap :: heap where
  "empty_heap =
     \<lparr>vertex_store = (\<lambda>_. \<lparr>position = Vec 0 0, prev = None, nxt = None, bisector = Vec 0 0\<rparr>),
      vertex_count = 0,
      edge_store = (\<lambda>_. \<lparr>v1 = 0, v2 = 0\<rparr>),
      edge_count = 0,
      polygon_store = (\<lambda>_. \<lparr>vertices = [], edges = []\<rparr>),
      polygon_count = 0\<rparr>"

definition upd_vertex :: "vref \<Rightarrow> (Vertex \<Rightarrow> Vertex) \<Rightarrow> heap \<Rightarrow> heap" where
  "upd_vertex v f h = h\<lparr>vertex_store := (vertex_store h)(v := f (vertex_store h v))\<rparr>"

definition upd_polygon :: "pref \<Rightarrow> (Polygon \<Rightarrow> Polygon) \<Rightarrow> heap \<Rightarrow> heap" where
  "upd_polygon p f h = h\<lparr>polygon_store := (polygon_store h)(p := f (polygon_store h p))\<rparr>"

text \<open>\<open>new Vertex(position)\<close>: unlinked, with the zero vector as bisector.\<close>

definition new_Vertex :: "Vector \<Rightarrow> heap \<Rightarrow> vref \<times> heap" where
  "new_Vertex pos h =
     (vertex_count h,
      h\<lparr>vertex_store := (vertex_store h)(vertex_count h :=
            \<lparr>position = pos, prev = None, nxt = None, bisector = Vec 0 0\<rparr>),
        vertex_count := Suc (vertex_count h)\<rparr>)"

text \<open>\<open>new Edge(v1, v2)\<close>. The constructor's test for a missing vertex cannot fire on
  references to existing objects, which is all the callers in the repository pass.\<close>

definition new_Edge :: "vref \<Rightarrow> vref \<Rightarrow> heap \<Rightarrow> eref \<times> heap" where
  "new_Edge a b h =
     (edge_count h,
      h\<lparr>edge_store := (edge_store h)(edge_count h := \<lparr>v1 = a, v2 = b\<rparr>),
        edge_count := Suc (edge_count h)\<rparr>)"

definition pos_of :: "heap \<Rightarrow> vref \<Rightarrow> Vector" where
  "pos_of h v = position (vertex_store h v)"

text \<open>\<open>Vertex.isReflex\<close>.\<close>

definition isReflex :: "heap \<Rightarrow> vref \<Rightarrow> error + bool" where
  "isReflex h v =
     (case (prev (vertex_store h v), nxt (vertex_store h v)) of
        (Some a, Some b) \<Rightarrow>
          (let toPrev = Vec (vx (pos_of h a) - vx (pos_of h v)) (vy (pos_of h a) - vy (pos_of h v));
               toNext = Vec (vx (pos_of h b) - vx (pos_of h v)) (vy (pos_of h b) - vy (pos_of h v))
           in Inr (cross toPrev toNext < 0))
      | _ \<Rightarrow> Inl (Error ''Vertex is not properly linked''))"

text \<open>\<open>Edge.length\<close>, \<open>Edge.direction\<close>, \<open>Edge.hasReflexEndpoint\<close> (the \<open>||\<close>
  evaluates its second operand only when the first is false), \<open>Edge.isAdjacent\<close> and
  \<open>Edge.clone\<close>, which makes a new edge on the same two vertex objects.\<close>

definition edge_vector :: "heap \<Rightarrow> eref \<Rightarrow> Vector" where
  "edge_vector h e =
     Vec (vx (pos_of h (v2 (edge_store h e))) - vx (pos_of h (v1 (edge_store h e))))
         (vy (pos_of h (v2 (edge_store h e))) - vy (pos_of h (v1 (edge_store h e))))"

definition Edge_length :: "heap \<Rightarrow> eref \<Rightarrow> real" where
  "Edge_length h e = length_v (edge_vector h e)"

definition direction :: "heap \<Rightarrow> eref \<Rightarrow> error + Vector" where
  "direction h e = normalize_v (edge_vector h e)"

definition hasReflexEndpoint :: "heap \<Rightarrow> eref \<Rightarrow> error + bool" where
  "hasReflexEndpoint h e =
     (case isReflex h (v1 (edge_store h e)) of
        Inl err \<Rightarrow> Inl err
      | Inr True \<Rightarrow> Inr True
      | Inr False \<Rightarrow> isReflex h (v2 (edge_store h e)))"

definition isAdjacent :: "heap \<Rightarrow> eref \<Rightarrow> vref \<Rightarrow> bool" where
  "isAdjacent h e v =
     (v = v1 (edge_store h e) \<or>
      v = v2 (edge_store h e) \<or>
      Some v = nxt (vertex_store h (v1 (edge_store h e))) \<or>
      Some v = prev (vertex_store h (v1 (edge_store h e))) \<or>
      Some v = nxt (vertex_store h (v2 (edge_store h e))) \<or>
      Some v = prev (vertex_store h (v2 (edge_store h e))))"

definition Edge_clone :: "eref \<Rightarrow> heap \<Rightarrow> eref \<times> heap" where
  "Edge_clone e h = new_Edge (v1 (edge_store h e)) (v2 (edge_store h e)) h"

subsection \<open>\<open>Polygon.initialize\<close>\<close>

text \<open>
  The first loop links the vertices. The source computes \<open>(i - 1 + n) % n\<close> on integers;
  on naturals the same index is \<open>(i + n - 1) mod n\<close>.
\<close>

definition link_step :: "vref list \<Rightarrow> nat \<Rightarrow> heap \<Rightarrow> heap" where
  "link_step vs i h =
     (let n = length vs;
          h1 = upd_vertex (vs ! i) (\<lambda>x. x\<lparr>prev := Some (vs ! ((i + n - 1) mod n))\<rparr>) h
      in upd_vertex (vs ! i) (\<lambda>x. x\<lparr>nxt := Some (vs ! ((i + 1) mod n))\<rparr>) h1)"

definition link_loop :: "vref list \<Rightarrow> heap \<Rightarrow> heap" where
  "link_loop vs h = fold (link_step vs) [0..<length vs] h"

text \<open>The second loop allocates one new edge per vertex, in order; the list of the new
  references becomes the polygon's \<open>edges\<close>.\<close>

definition edge_step :: "vref list \<Rightarrow> nat \<Rightarrow> eref list \<times> heap \<Rightarrow> eref list \<times> heap" where
  "edge_step vs i acc =
     (case acc of (es, h) \<Rightarrow>
        (case new_Edge (vs ! i) (vs ! ((i + 1) mod length vs)) h of
           (e, h') \<Rightarrow> (es @ [e], h')))"

definition edge_loop :: "vref list \<Rightarrow> heap \<Rightarrow> eref list \<times> heap" where
  "edge_loop vs h = fold (edge_step vs) [0..<length vs] ([], h)"

text \<open>The third loop computes the bisector of every vertex of the list; the first
  failing \<open>normalize_v\<close> raises out of the loop and leaves the earlier writes in place.\<close>

definition compute_bisector :: "heap \<Rightarrow> vref \<Rightarrow> error + Vector" where
  "compute_bisector h v =
     (case (prev (vertex_store h v), nxt (vertex_store h v)) of
        (Some a, Some b) \<Rightarrow>
          (case normalize_v (Vec (vx (pos_of h a) - vx (pos_of h v))
                               (vy (pos_of h a) - vy (pos_of h v))) of
             Inl err \<Rightarrow> Inl err
           | Inr toPrev \<Rightarrow>
               (case normalize_v (Vec (vx (pos_of h b) - vx (pos_of h v))
                                    (vy (pos_of h b) - vy (pos_of h v))) of
                  Inl err \<Rightarrow> Inl err
                | Inr toNext \<Rightarrow> normalize_v (plus_v toPrev toNext)))
      | _ \<Rightarrow> Inl (Error ''TypeError: null link''))"

fun bisector_loop :: "vref list \<Rightarrow> heap \<Rightarrow> (error + unit) \<times> heap" where
  "bisector_loop [] h = (Inr (), h)"
| "bisector_loop (v # vs) h =
     (case compute_bisector h v of
        Inl err \<Rightarrow> (Inl err, h)
      | Inr b \<Rightarrow> bisector_loop vs (upd_vertex v (\<lambda>x. x\<lparr>bisector := b\<rparr>) h))"

definition Polygon_initialize :: "pref \<Rightarrow> heap \<Rightarrow> (error + unit) \<times> heap" where
  "Polygon_initialize p h =
     (let vs = vertices (polygon_store h p);
          h1 = link_loop vs h
      in case edge_loop vs h1 of
           (es, h2) \<Rightarrow> bisector_loop vs (upd_polygon p (\<lambda>x. x\<lparr>edges := es\<rparr>) h2))"

subsection \<open>\<open>Polygon\<close>: constructor, \<open>isSimple\<close>, \<open>clone\<close>\<close>

fun new_Vertices :: "Vector list \<Rightarrow> heap \<Rightarrow> vref list \<times> heap" where
  "new_Vertices [] h = ([], h)"
| "new_Vertices (pt # pts) h =
     (case new_Vertex pt h of
        (v, h') \<Rightarrow> (case new_Vertices pts h' of (vs, h'') \<Rightarrow> (v # vs, h'')))"

definition new_Polygon_object :: "vref list \<Rightarrow> heap \<Rightarrow> pref \<times> heap" where
  "new_Polygon_object vs h =
     (polygon_count h,
      h\<lparr>polygon_store := (polygon_store h)(polygon_count h := \<lparr>vertices = vs, edges = []\<rparr>),
        polygon_count := Suc (polygon_count h)\<rparr>)"

definition Polygon_new :: "Vector list \<Rightarrow> heap \<Rightarrow> (error + pref) \<times> heap" where
  "Polygon_new points h =
     (if length points < 3 then (Inl (Error ''Polygon must have at least 3 points''), h)
      else case new_Vertices points h of
        (vs, h1) \<Rightarrow>
          (case new_Polygon_object vs h1 of
             (p, h2) \<Rightarrow>
               (case Polygon_initialize p h2 of
                  (Inl err, h3) \<Rightarrow> (Inl err, h3)
                | (Inr u, h3) \<Rightarrow> (Inr p, h3))))"

definition sign :: "real \<Rightarrow> int" where
  "sign num = (if num < 0 then - 1 else if num > 0 then 1 else 0)"

definition edges_intersect :: "heap \<Rightarrow> eref \<Rightarrow> eref \<Rightarrow> bool" where
  "edges_intersect h edge1 edge2 =
     (let a = pos_of h (v1 (edge_store h edge1));
          b = pos_of h (v2 (edge_store h edge1));
          c = pos_of h (v1 (edge_store h edge2));
          d = pos_of h (v2 (edge_store h edge2));
          d1 = sign ((vx d - vx c) * (vy a - vy c) - (vy d - vy c) * (vx a - vx c));
          d2 = sign ((vx d - vx c) * (vy b - vy c) - (vy d - vy c) * (vx b - vx c));
          d3 = sign ((vx b - vx a) * (vy c - vy a) - (vy b - vy a) * (vx c - vx a));
          d4 = sign ((vx b - vx a) * (vy d - vy a) - (vy b - vy a) * (vx d - vx a))
      in d1 \<noteq> d2 \<and> d3 \<noteq> d4)"

definition isSimple :: "heap \<Rightarrow> pref \<Rightarrow> bool" where
  "isSimple h p =
     (let es = edges (polygon_store h p); n = length es
      in list_all (\<lambda>i. list_all (\<lambda>j. (i = 0 \<and> j = n - 1) \<or> \<not> edges_intersect h (es ! i) (es ! j))
                              [i + 2..<n])
                  [0..<n])"

definition Polygon_clone :: "pref \<Rightarrow> heap \<Rightarrow> (error + pref) \<times> heap" where
  "Polygon_clone p h = Polygon_new (map (pos_of h) (vertices (polygon_store h p))) h"

section \<open>Events and the event queue\<close>

text \<open>
  Events refer to the edge and vertex objects of a polygon by reference. The constructor
  of \<open>Event\<close> rejects negative and non-finite times, so the time of an event that
  exists is a finite real.
\<close>

datatype Event =
    EdgeEvent (time: real) (edge: eref)
  | SplitEvent (time: real) (vertex: vref) (edge: eref) (intersection: Vector)

text \<open>\<open>Array.prototype.findIndex\<close>: the first index whose element satisfies the
  predicate; \<open>None\<close> stands for the result \<open>-1\<close>.\<close>

fun findIndex :: "('a \<Rightarrow> bool) \<Rightarrow> 'a list \<Rightarrow> nat option" where
  "findIndex P [] = None"
| "findIndex P (a # as) =
     (if P a then Some 0
      else (case findIndex P as of None \<Rightarrow> None | Some i \<Rightarrow> Some (Suc i)))"

text \<open>\<open>EventQueue.add\<close>: insert before the first queued event with a strictly greater
  time, or push at the end.\<close>

definition add :: "Event \<Rightarrow> Event list \<Rightarrow> Event list" where
  "add event events =
     (case findIndex (\<lambda>e. time e > time event) events of
        None \<Rightarrow> events @ [event]
      | Some index \<Rightarrow> take index events @ [event] @ drop index events)"

text \<open>\<open>EventQueue.poll\<close> is \<open>shift()\<close>: the removed first element (\<open>None\<close> for
  \<open>undefined\<close>) and the remaining queue.\<close>

definition poll :: "Event list \<Rightarrow> Event option \<times> Event list" where
  "poll events = (case events of [] \<Rightarrow> (None, []) | e # es \<Rightarrow> (Some e, es))"

definition peek :: "Event list \<Rightarrow> Event option" where
  "peek events = (case events of [] \<Rightarrow> None | e # es \<Rightarrow> Some e)"

definition isEmpty :: "Event list \<Rightarrow> bool" where
  "isEmpty events = (length events = 0)"

text \<open>A sequence of \<open>add\<close> calls on a new queue, and \<open>k\<close> successive \<open>poll\<close> calls.\<close>

definition add_all :: "Event list \<Rightarrow> Event list" where
  "add_all es = foldl (\<lambda>q e. add e q) [] es"

fun polls :: "nat \<Rightarrow> Event list \<Rightarrow> Event option list \<times> Event list" where
  "polls 0 q = ([], q)"
| "polls (Suc k) q =
     (case poll q of (r, q') \<Rightarrow> (case polls k q' of (rs, q'') \<Rightarrow> (r # rs, q'')))"

text \<open>Predicates used to state what \<open>initialize\<close> establishes: a vertex is linked,
  and the vertex at index \<open>i\<close> of a list is linked to its cyclic neighbours in that list.\<close>

definition linked :: "heap \<Rightarrow> vref \<Rightarrow> bool" where
  "linked h v = (prev (vertex_store h v) \<noteq> None \<and> nxt (vertex_store h v) \<noteq> None)"

definition links_at :: "vref list \<Rightarrow> heap \<Rightarrow> nat \<Rightarrow> bool" where
  "links_at vs h i =
     (prev (vertex_store h (vs ! i)) = Some (vs ! ((i + length vs - 1) mod length vs)) \<and>
      nxt (vertex_store h (vs ! i)) = Some (vs ! ((i + 1) mod length vs)))"


text \<open>The bisector that \<open>initialize\<close> computes for the vertex at index \<open>i\<close>, as a
  function of the positions of the vertices in list order; used to state when
  \<open>initialize\<close> succeeds.\<close>

definition bisector_at :: "Vector list \<Rightarrow> nat \<Rightarrow> error + Vector" where
  "bisector_at pts i =
     (let n = length pts;
          c = pts ! i;
          a = pts ! ((i + n - 1) mod n);
          b = pts ! ((i + 1) mod n)
      in case normalize_v (Vec (vx a - vx c) (vy a - vy c)) of
           Inl err \<Rightarrow> Inl err
         | Inr toPrev \<Rightarrow>
             (case normalize_v (Vec (vx b - vx c) (vy b - vy c)) of
                Inl err \<Rightarrow> Inl err
              | Inr toNext \<Rightarrow> normalize_v (plus_v toPrev toNext)))"

definition bisectors_ok :: "Vector list \<Rightarrow> bool" where
  "bisectors_ok pts = list_all (\<lambda>i. \<exists>b. bisector_at pts i = Inr b) [0..<length pts]"

text \<open>Frame predicate: going from store \<open>h\<close> to store \<open>h'\<close>, every object that was
  allocated in store \<open>h0\<close> has the same state, and no allocation counter went down.\<close>

definition keeps :: "heap \<Rightarrow> heap \<Rightarrow> heap \<Rightarrow> bool" where
  "keeps h0 h h' =
     ((\<forall>v<vertex_count h0. vertex_store h' v = vertex_store h v) \<and>
      (\<forall>e<edge_count h0. edge_store h' e = edge_store h e) \<and>
      (\<forall>p<polygon_count h0. polygon_store h' p = polygon_store h p) \<and>
      vertex_count h \<le> vertex_count h' \<and>
      edge_count h \<le> edge_count h' \<and>
      polygon_count h \<le> polygon_count h')"

text \<open>No allocation counter of \<open>h\<close> is below that of \<open>h0\<close>; and the invariant of the
  event loops: the polygon is an allocated object created after \<open>h0\<close> and all vertices
  in its vertex list were created after \<open>h0\<close>.\<close>

definition above :: "heap \<Rightarrow> heap \<Rightarrow> bool" where
  "above h0 h =
     (vertex_count h0 \<le> vertex_count h \<and> edge_count h0 \<le> edge_count h \<and>
      polygon_count h0 \<le> polygon_count h)"

definition owned :: "heap \<Rightarrow> heap \<Rightarrow> pref \<Rightarrow> bool" where
  "owned h0 h p =
     (polygon_count h0 \<le> p \<and> p < polygon_count h \<and>
      list_all (\<lambda>v. vertex_count h0 \<le> v) (vertices (polygon_store h p)) \<and>
      above h0 h)"

section \<open>Numbers that may be infinite, and angles\<close>

text \<open>
  Coordinates are finite reals. A quotient whose divisor can be zero is an IEEE value
  that may be infinite or not a number; such results are kept in the type \<open>number\<close>
  until the source has tested them with \<open>isFinite\<close>. The sign of a zero is not modelled.
\<close>

datatype number = Finite real | PosInf | NegInf | NaN

definition js_div :: "real \<Rightarrow> real \<Rightarrow> number" where
  "js_div a b =
     (if b \<noteq> 0 then Finite (a / b)
      else if a > 0 then PosInf else if a < 0 then NegInf else NaN)"

fun num_add :: "number \<Rightarrow> number \<Rightarrow> number" where
  "num_add (Finite a) (Finite b) = Finite (a + b)"
| "num_add NaN _ = NaN"
| "num_add _ NaN = NaN"
| "num_add PosInf NegInf = NaN"
| "num_add NegInf PosInf = NaN"
| "num_add PosInf _ = PosInf"
| "num_add _ PosInf = PosInf"
| "num_add NegInf _ = NegInf"
| "num_add _ NegInf = NegInf"

fun div_by_num :: "real \<Rightarrow> number \<Rightarrow> number" where
  "div_by_num a (Finite b) = js_div a b"
| "div_by_num a PosInf = Finite 0"
| "div_by_num a NegInf = Finite 0"
| "div_by_num a NaN = NaN"

fun isFinite :: "number \<Rightarrow> bool" where
  "isFinite (Finite a) = True"
| "isFinite _ = False"

fun num_less :: "number \<Rightarrow> real \<Rightarrow> bool" where
  "num_less (Finite a) c = (a < c)"
| "num_less NegInf c = True"
| "num_less _ c = False"

fun num_greater :: "number \<Rightarrow> real \<Rightarrow> bool" where
  "num_greater (Finite a) c = (a > c)"
| "num_greater PosInf c = True"
| "num_greater _ c = False"

fun num_le :: "number \<Rightarrow> real \<Rightarrow> bool" where
  "num_le (Finite a) c = (a \<le> c)"
| "num_le NegInf c = True"
| "num_le _ c = False"

fun the_real :: "number \<Rightarrow> real" where
  "the_real (Finite a) = a"
| "the_real _ = 0"

text \<open>\<open>Math.atan2(y, x)\<close> on finite arguments, with values in \<open>(-\<pi>, \<pi>]\<close>.\<close>

definition atan2 :: "real \<Rightarrow> real \<Rightarrow> real" where
  "atan2 b a =
     (if a > 0 then arctan (b / a)
      else if a < 0 \<and> b \<ge> 0 then arctan (b / a) + pi
      else if a < 0 \<and> b < 0 then arctan (b / a) - pi
      else if b > 0 then pi / 2
      else if b < 0 then - (pi / 2)
      else 0)"

record Angle =
  radians :: real

definition between :: "Vector \<Rightarrow> Vector \<Rightarrow> Angle" where
  "between a b =
     \<lparr>radians = atan2 (vx a * vy b - vy a * vx b) (vx a * vx b + vy a * vy b)\<rparr>"

definition Angle_sin :: "Angle \<Rightarrow> real" where
  "Angle_sin a = sin (radians a)"

definition NUMERICAL_TOLERANCE :: real where
  "NUMERICAL_TOLERANCE = 1 / 10 ^ 10"

section \<open>Event constructors\<close>

text \<open>The constructor of the base class \<open>Event\<close>: the checks on the time.\<close>

definition Event_new :: "number \<Rightarrow> error + real" where
  "Event_new t =
     (if num_less t 0 then Inl (Error ''Event time cannot be negative'')
      else if \<not> isFinite t then Inl (Error ''Event time must be finite'')
      else Inr (the_real t))"

text \<open>The constructors of \<open>EdgeEvent\<close> and \<open>SplitEvent\<close>. Their tests for a missing
  argument cannot fire on references to existing objects.\<close>

definition EdgeEvent_new :: "heap \<Rightarrow> number \<Rightarrow> eref \<Rightarrow> error + Event" where
  "EdgeEvent_new h t e =
     (case Event_new t of
        Inl err \<Rightarrow> Inl err
      | Inr t' \<Rightarrow>
          (case hasReflexEndpoint h e of
             Inl err \<Rightarrow> Inl err
           | Inr True \<Rightarrow> Inl (Error ''Edge cannot have reflex vertices for edge event'')
           | Inr False \<Rightarrow> Inr (EdgeEvent t' e)))"

definition SplitEvent_new :: "heap \<Rightarrow> number \<Rightarrow> vref \<Rightarrow> eref \<Rightarrow> Vector \<Rightarrow> error + Event" where
  "SplitEvent_new h t v e x =
     (case Event_new t of
        Inl err \<Rightarrow> Inl err
      | Inr t' \<Rightarrow>
          (case isReflex h v of
             Inl err \<Rightarrow> Inl err
           | Inr False \<Rightarrow> Inl (Error ''Split events can only occur at reflex vertices'')
           | Inr True \<Rightarrow>
               if isAdjacent h e v
               then Inl (Error ''Split edge cannot be adjacent to splitting vertex'')
               else Inr (SplitEvent t' v e x)))"

section \<open>The wavefront (\<open>Wavefront.ts\<close>)\<close>

record Wavefront =
  polygons :: "pref list"
  times :: "real list"

definition Wavefront_new :: "pref \<Rightarrow> heap \<Rightarrow> (error + Wavefront) \<times> heap" where
  "Wavefront_new original h =
     (if \<not> isSimple h original
      then (Inl (Error ''Initial polygon must be simple (no self-intersections)''), h)
      else case Polygon_clone original h of
             (Inl err, h') \<Rightarrow> (Inl err, h')
           | (Inr c, h') \<Rightarrow> (Inr \<lparr>polygons = [c], times = [0]\<rparr>, h'))"

definition getCurrentPolygon :: "Wavefront \<Rightarrow> error + pref" where
  "getCurrentPolygon w =
     (if length (polygons w) = 0 then Inl (Error ''No polygon states exist'')
      else Inr (polygons w ! (length (polygons w) - 1)))"

text \<open>\<open>Array.prototype.splice(start, deleteCount)\<close> and
  \<open>splice(start, 0, item)\<close> for \<open>start\<close> within the array.\<close>

definition splice_delete :: "nat \<Rightarrow> nat \<Rightarrow> 'a list \<Rightarrow> 'a list" where
  "splice_delete start deleteCount xs = take start xs @ drop (start + deleteCount) xs"

definition splice_insert :: "nat \<Rightarrow> 'a \<Rightarrow> 'a list \<Rightarrow> 'a list" where
  "splice_insert start item xs = take start xs @ [item] @ drop start xs"

text \<open>\<open>Wavefront.handleEdgeEvent\<close>; its argument is \<open>event.edge\<close>, the only field of the
  event it reads.\<close>

definition handleEdgeEvent :: "Wavefront \<Rightarrow> eref \<Rightarrow> heap \<Rightarrow> (error + unit) \<times> heap" where
  "handleEdgeEvent w e h =
     (case getCurrentPolygon w of
        Inl err \<Rightarrow> (Inl err, h)
      | Inr cur \<Rightarrow>
          (case (findIndex (\<lambda>v. v = v1 (edge_store h e)) (vertices (polygon_store h cur)),
                 findIndex (\<lambda>x. x = e) (edges (polygon_store h cur))) of
             (Some vertexIndex, Some edgeIndex) \<Rightarrow>
               Polygon_initialize cur
                 (upd_polygon cur (\<lambda>x. x\<lparr>edges := splice_delete edgeIndex 1 (edges x)\<rparr>)
                   (upd_polygon cur (\<lambda>x. x\<lparr>vertices := splice_delete vertexIndex 2 (vertices x)\<rparr>) h))
           | _ \<Rightarrow> (Inl (Error ''Edge event references invalid geometry''), h)))"

text \<open>\<open>Wavefront.handleSplitEvent\<close>; its arguments are the vertex, the edge and the
  intersection of the event. The new vertex is allocated before the indices are
  looked up.\<close>

definition handleSplitEvent ::
  "Wavefront \<Rightarrow> vref \<Rightarrow> eref \<Rightarrow> Vector \<Rightarrow> heap \<Rightarrow> (error + unit) \<times> heap" where
  "handleSplitEvent w v e x h =
     (case getCurrentPolygon w of
        Inl err \<Rightarrow> (Inl err, h)
      | Inr cur \<Rightarrow>
          (case new_Vertex x h of
             (newVertex, h1) \<Rightarrow>
               (case (findIndex (\<lambda>y. y = e) (edges (polygon_store h1 cur)),
                      findIndex (\<lambda>y. y = v) (vertices (polygon_store h1 cur))) of
                  (Some edgeIndex, Some vertexIndex) \<Rightarrow>
                    (let h2 = upd_polygon cur
                           (\<lambda>y. y\<lparr>vertices := splice_insert (vertexIndex + 1) newVertex (vertices y)\<rparr>) h1
                     in case new_Edge v newVertex h2 of
                          (newEdge, h3) \<Rightarrow>
                            Polygon_initialize cur
                              (upd_polygon cur
                                 (\<lambda>y. y\<lparr>edges := splice_insert (edgeIndex + 1) newEdge (edges y)\<rparr>) h3))
                | _ \<Rightarrow> (Inl (Error ''Split event references invalid geometry''), h1))))"

text \<open>\<open>Wavefront.validateState\<close>. A bisector is always an object, so the test
  \<open>!vertex.bisector\<close> never holds.\<close>

definition validateState :: "heap \<Rightarrow> Wavefront \<Rightarrow> error + bool" where
  "validateState h w =
     (if length (polygons w) \<noteq> length (times w) then Inr False
      else if \<not> list_all (\<lambda>i. \<not> (times w ! i \<le> times w ! (i - 1))) [1..<length (times w)]
      then Inr False
      else case getCurrentPolygon w of
        Inl err \<Rightarrow> Inl err
      | Inr current \<Rightarrow>
          if \<not> list_all (\<lambda>v. prev (vertex_store h v) \<noteq> None \<and> nxt (vertex_store h v) \<noteq> None)
                 (vertices (polygon_store h current))
          then Inr False
          else if \<not> list_all (\<lambda>e. v1 (edge_store h e) \<in> set (vertices (polygon_store h current)) \<and>
                                   v2 (edge_store h e) \<in> set (vertices (polygon_store h current)))
                      (edges (polygon_store h current))
          then Inr False
          else Inr (isSimple h current))"

section \<open>Revalidation and processing of events (\<open>EdgeEvent.ts\<close>, \<open>SplitEvent.ts\<close>)\<close>

definition EdgeEvent_isStillValid :: "heap \<Rightarrow> Wavefront \<Rightarrow> eref \<Rightarrow> error + bool" where
  "EdgeEvent_isStillValid h w e =
     (case getCurrentPolygon w of
        Inl err \<Rightarrow> Inl err
      | Inr currentPolygon \<Rightarrow>
          if e \<notin> set (edges (polygon_store h currentPolygon)) then Inr False
          else if v1 (edge_store h e) \<notin> set (vertices (polygon_store h currentPolygon)) \<or>
                  v2 (edge_store h e) \<notin> set (vertices (polygon_store h currentPolygon))
          then Inr False
          else (case hasReflexEndpoint h e of
                  Inl err \<Rightarrow> Inl err
                | Inr True \<Rightarrow> Inr False
                | Inr False \<Rightarrow> Inr True))"

definition EdgeEvent_process :: "Wavefront \<Rightarrow> eref \<Rightarrow> heap \<Rightarrow> (error + unit) \<times> heap" where
  "EdgeEvent_process w e h =
     (case EdgeEvent_isStillValid h w e of
        Inl err \<Rightarrow> (Inl err, h)
      | Inr False \<Rightarrow> (Inr (), h)
      | Inr True \<Rightarrow> handleEdgeEvent w e h)"

text \<open>The intersection of the line through the edge with the line through the vertex
  along its bisector, as \<open>SplitEvent.calculateCurrentIntersection\<close> and
  \<open>Skeleton.calculateBisectorIntersection\<close> both compute it; \<open>None\<close> is \<open>null\<close>.\<close>

definition line_intersection :: "Vector \<Rightarrow> Vector \<Rightarrow> Vector \<Rightarrow> Vector \<Rightarrow> Vector option" where
  "line_intersection p1 p2 p3 p4 =
     (let denominator = (vx p1 - vx p2) * (vy p3 - vy p4) - (vy p1 - vy p2) * (vx p3 - vx p4)
      in if \<bar>denominator\<bar> < 1 / 10 ^ 10 then None
         else let t = ((vx p1 - vx p3) * (vy p3 - vy p4) - (vy p1 - vy p3) * (vx p3 - vx p4))
                        / denominator
              in if t < 0 \<or> t > 1 then None
                 else Some (Vec (vx p1 + t * (vx p2 - vx p1)) (vy p1 + t * (vy p2 - vy p1))))"

definition calculateCurrentIntersection :: "heap \<Rightarrow> vref \<Rightarrow> eref \<Rightarrow> Vector option" where
  "calculateCurrentIntersection h v e =
     line_intersection (pos_of h (v1 (edge_store h e))) (pos_of h (v2 (edge_store h e)))
       (pos_of h v) (plus_v (pos_of h v) (bisector (vertex_store h v)))"

definition SplitEvent_isStillValid ::
  "heap \<Rightarrow> Wavefront \<Rightarrow> vref \<Rightarrow> eref \<Rightarrow> Vector \<Rightarrow> error + bool" where
  "SplitEvent_isStillValid h w v e x =
     (case getCurrentPolygon w of
        Inl err \<Rightarrow> Inl err
      | Inr currentPolygon \<Rightarrow>
          if v \<notin> set (vertices (polygon_store h currentPolygon)) \<or>
             e \<notin> set (edges (polygon_store h currentPolygon))
          then Inr False
          else (case isReflex h v of
                  Inl err \<Rightarrow> Inl err
                | Inr False \<Rightarrow> Inr False
                | Inr True \<Rightarrow>
                    if isAdjacent h e v then Inr False
                    else (case calculateCurrentIntersection h v e of
                            None \<Rightarrow> Inr False
                          | Some newIntersection \<Rightarrow>
                              Inr (length_v (minus_v x newIntersection) < 1 / 10 ^ 10))))"

definition SplitEvent_process ::
  "Wavefront \<Rightarrow> vref \<Rightarrow> eref \<Rightarrow> Vector \<Rightarrow> heap \<Rightarrow> (error + unit) \<times> heap" where
  "SplitEvent_process w v e x h =
     (case SplitEvent_isStillValid h w v e x of
        Inl err \<Rightarrow> (Inl err, h)
      | Inr False \<Rightarrow> (Inr (), h)
      | Inr True \<Rightarrow> handleSplitEvent w v e x h)"

fun process :: "Wavefront \<Rightarrow> Event \<Rightarrow> heap \<Rightarrow> (error + unit) \<times> heap" where
  "process w (EdgeEvent t e) h = EdgeEvent_process w e h"
| "process w (SplitEvent t v e x) h = SplitEvent_process w v e x h"

section \<open>The skeleton driven by the wavefront (\<open>src/lib/skeleton/Skeleton.ts\<close>)\<close>

text \<open>
  The fields \<open>edges\<close> and \<open>events\<close> of this class are initialised to empty arrays and
  never written; \<open>getEdges\<close> returns the array \<open>edges\<close> itself.
\<close>

record Skeleton =
  wavefront :: Wavefront
  eventQueue :: "Event list"
  skeleton_edges :: "eref list"
  skeleton_events :: "Event list"

definition calculateEdgeCollapseTime :: "heap \<Rightarrow> eref \<Rightarrow> error + number" where
  "calculateEdgeCollapseTime h e =
     (case direction h e of
        Inl err \<Rightarrow> Inl err
      | Inr edgeDir \<Rightarrow>
          (let theta1 = between edgeDir (bisector (vertex_store h (v1 (edge_store h e))));
               theta2 = between edgeDir (bisector (vertex_store h (v2 (edge_store h e))));
               denominator = num_add (js_div 1 (Angle_sin theta1)) (js_div 1 (Angle_sin theta2))
           in Inr (div_by_num (Edge_length h e) denominator)))"

definition calculateBisectorIntersection :: "heap \<Rightarrow> vref \<Rightarrow> eref \<Rightarrow> Vector option" where
  "calculateBisectorIntersection h v e =
     line_intersection (pos_of h (v1 (edge_store h e))) (pos_of h (v2 (edge_store h e)))
       (pos_of h v) (plus_v (pos_of h v) (bisector (vertex_store h v)))"

definition calculateSplitTime :: "heap \<Rightarrow> vref \<Rightarrow> Vector \<Rightarrow> real" where
  "calculateSplitTime h v x = length_v (minus_v (pos_of h v) x)"

text \<open>The loop of \<open>findSplitEvents\<close> over the edges of the current polygon.\<close>

fun findSplitEvents_loop :: "heap \<Rightarrow> vref \<Rightarrow> eref list \<Rightarrow> Event list \<Rightarrow> error + Event list" where
  "findSplitEvents_loop h v [] q = Inr q"
| "findSplitEvents_loop h v (e # es) q =
     (if \<not> isAdjacent h e v then
        (case calculateBisectorIntersection h v e of
           None \<Rightarrow> findSplitEvents_loop h v es q
         | Some x \<Rightarrow>
             (let t = calculateSplitTime h v x
              in if t > 0 then
                   (case SplitEvent_new h (Finite t) v e x of
                      Inl err \<Rightarrow> Inl err
                    | Inr ev \<Rightarrow> findSplitEvents_loop h v es (add ev q))
                 else findSplitEvents_loop h v es q))
      else findSplitEvents_loop h v es q)"

definition findSplitEvents :: "heap \<Rightarrow> Wavefront \<Rightarrow> vref \<Rightarrow> Event list \<Rightarrow> error + Event list" where
  "findSplitEvents h w v q =
     (case getCurrentPolygon w of
        Inl err \<Rightarrow> Inl err
      | Inr polygon \<Rightarrow> findSplitEvents_loop h v (edges (polygon_store h polygon)) q)"

text \<open>The two loops of \<open>initializeEvents\<close>.\<close>

fun edge_events_loop :: "heap \<Rightarrow> eref list \<Rightarrow> Event list \<Rightarrow> error + Event list" where
  "edge_events_loop h [] q = Inr q"
| "edge_events_loop h (e # es) q =
     (case hasReflexEndpoint h e of
        Inl err \<Rightarrow> Inl err
      | Inr True \<Rightarrow> edge_events_loop h es q
      | Inr False \<Rightarrow>
          (case calculateEdgeCollapseTime h e of
             Inl err \<Rightarrow> Inl err
           | Inr t \<Rightarrow>
               if num_greater t 0 \<and> isFinite t then
                 (case EdgeEvent_new h t e of
                    Inl err \<Rightarrow> Inl err
                  | Inr ev \<Rightarrow> edge_events_loop h es (add ev q))
               else edge_events_loop h es q))"

fun split_events_loop :: "heap \<Rightarrow> Wavefront \<Rightarrow> vref list \<Rightarrow> Event list \<Rightarrow> error + Event list" where
  "split_events_loop h w [] q = Inr q"
| "split_events_loop h w (v # vs) q =
     (case isReflex h v of
        Inl err \<Rightarrow> Inl err
      | Inr True \<Rightarrow>
          (case findSplitEvents h w v q of
             Inl err \<Rightarrow> Inl err
           | Inr q' \<Rightarrow> split_events_loop h w vs q')
      | Inr False \<Rightarrow> split_events_loop h w vs q)"

definition initializeEvents :: "heap \<Rightarrow> Wavefront \<Rightarrow> Event list \<Rightarrow> error + Event list" where
  "initializeEvents h w q =
     (case getCurrentPolygon w of
        Inl err \<Rightarrow> Inl err
      | Inr polygon \<Rightarrow>
          (case edge_events_loop h (edges (polygon_store h polygon)) q of
             Inl err \<Rightarrow> Inl err
           | Inr q' \<Rightarrow> split_events_loop h w (vertices (polygon_store h polygon)) q'))"

definition Skeleton_new :: "pref \<Rightarrow> heap \<Rightarrow> (error + Skeleton) \<times> heap" where
  "Skeleton_new polygon h =
     (if \<not> isSimple h polygon
      then (Inl (Error ''Initial polygon must be simple (no self-intersections)''), h)
      else case Wavefront_new polygon h of
             (Inl err, h') \<Rightarrow> (Inl err, h')
           | (Inr w, h') \<Rightarrow>
               (case initializeEvents h' w [] of
                  Inl err \<Rightarrow> (Inl err, h')
                | Inr q \<Rightarrow>
                    (Inr \<lparr>wavefront = w, eventQueue = q,
                          skeleton_edges = [], skeleton_events = []\<rparr>, h')))"

definition build :: "pref \<Rightarrow> heap \<Rightarrow> (error + Skeleton) \<times> heap" where
  "build polygon h = Skeleton_new polygon h"

definition updateEvents :: "heap \<Rightarrow> Skeleton \<Rightarrow> error + Skeleton" where
  "updateEvents h sk =
     (case initializeEvents h (wavefront sk) [] of
        Inl err \<Rightarrow> Inl err
      | Inr q \<Rightarrow> Inr (sk\<lparr>eventQueue := q\<rparr>))"

text \<open>
  \<open>compute\<close>: the loop runs while the queue is not empty and rebuilds the queue after
  every event, so it need not end; the model counts the iterations left. The result is
  \<open>None\<close> when the count is used up, \<open>Some (Inl err)\<close> when an error leaves the loop and
  \<open>Some (Inr ())\<close> when the loop ends on an empty queue; the skeleton and the store
  are returned as they are at that point. An event is an \<open>EdgeEvent\<close> or a
  \<open>SplitEvent\<close>, the only subclasses of \<open>Event\<close>.
\<close>

fun compute :: "nat \<Rightarrow> Skeleton \<Rightarrow> heap \<Rightarrow> (error + unit) option \<times> Skeleton \<times> heap" where
  "compute 0 sk h = (if isEmpty (eventQueue sk) then (Some (Inr ()), sk, h) else (None, sk, h))"
| "compute (Suc n) sk h =
     (if isEmpty (eventQueue sk) then (Some (Inr ()), sk, h)
      else case poll (eventQueue sk) of
        (None, q) \<Rightarrow> compute n (sk\<lparr>eventQueue := q\<rparr>) h
      | (Some event, q) \<Rightarrow>
          (case process (wavefront sk) event h of
             (Inl err, h') \<Rightarrow> (Some (Inl err), sk\<lparr>eventQueue := q\<rparr>, h')
           | (Inr u, h') \<Rightarrow>
               (case validateState h' (wavefront sk) of
                  Inl err \<Rightarrow> (Some (Inl err), sk\<lparr>eventQueue := q\<rparr>, h')
                | Inr False \<Rightarrow>
                    (Some (Inl (Error ''Invalid wavefront state after event processing'')),
                     sk\<lparr>eventQueue := q\<rparr>, h')
                | Inr True \<Rightarrow>
                    (case updateEvents h' (sk\<lparr>eventQueue := q\<rparr>) of
                       Inl err \<Rightarrow> (Some (Inl err), sk\<lparr>eventQueue := []\<rparr>, h')
                     | Inr sk' \<Rightarrow> compute n sk' h'))))"


section \<open>The skeleton with a debug trace (the second \<open>Skeleton\<close> class of the repository)\<close>

text \<open>
  The repository holds a second class named \<open>Skeleton\<close>, which keeps its own list of
  wavefront polygons, the angle-bisector rays, the skeleton edges and a debug log. Its
  names carry the prefix \<open>T_\<close> here. The method \<open>log\<close> appends a time-stamped string
  to \<open>debugLog\<close> and prints it; it reads and writes nothing else, so the calls and the log
  are left out of the model. Values interpolated into error messages are left out of
  the message texts. An error that a \<open>catch\<close> wraps into a new error is \<open>Rethrown\<close>.
\<close>

record TSkeleton =
  T_eventQueue :: "Event list"
  wavefrontPolygons :: "pref list"
  angleBisectorEdges :: "eref list"
  skeletonEdges :: "eref list"

definition validateInputPolygon :: "heap \<Rightarrow> pref \<Rightarrow> error + unit" where
  "validateInputPolygon h polygon =
     (if length (vertices (polygon_store h polygon)) < 3
      then Inl (Error ''Invalid polygon: only vertices (minimum 3 required)'')
      else if \<not> isSimple h polygon
      then Inl (Error ''Invalid polygon: contains self-intersections'')
      else if \<not> list_all (\<lambda>v. prev (vertex_store h v) \<noteq> None \<and> nxt (vertex_store h v) \<noteq> None)
                    (vertices (polygon_store h polygon))
      then Inl (Error ''Invalid polygon: vertices not properly linked'')
      else Inr ())"

definition calculateBisector :: "heap \<Rightarrow> vref \<Rightarrow> error + Vector" where
  "calculateBisector h v =
     (case (prev (vertex_store h v), nxt (vertex_store h v)) of
        (Some a, Some b) \<Rightarrow>
          (let prevVector = minus_v (pos_of h v) (pos_of h a);
               nextVector = minus_v (pos_of h b) (pos_of h v)
           in case normalize_v prevVector of
                Inl err \<Rightarrow> Inl (Rethrown ''Normalization failed: '' err)
              | Inr normalizedPrev \<Rightarrow>
                  (case normalize_v nextVector of
                     Inl err \<Rightarrow> Inl (Rethrown ''Normalization failed: '' err)
                   | Inr normalizedNext \<Rightarrow>
                       (case normalize_v (plus_v normalizedPrev normalizedNext) of
                          Inl err \<Rightarrow> Inl (Rethrown ''Normalization failed: '' err)
                        | Inr b \<Rightarrow> Inr b)))
      | _ \<Rightarrow> Inl (Error ''Vertex missing prev/next references''))"

fun computeInitialBisectors ::
  "vref list \<Rightarrow> TSkeleton \<Rightarrow> heap \<Rightarrow> (error + unit) \<times> TSkeleton \<times> heap" where
  "computeInitialBisectors [] sk h = (Inr (), sk, h)"
| "computeInitialBisectors (v # vs) sk h =
     (if prev (vertex_store h v) = None \<or> nxt (vertex_store h v) = None
      then (Inl (Error ''Invalid vertex links''), sk, h)
      else case calculateBisector h v of
        Inl err \<Rightarrow> (Inl (Rethrown ''Failed to compute bisector: '' err), sk, h)
      | Inr b \<Rightarrow>
          if \<bar>length_v b - 1\<bar> > NUMERICAL_TOLERANCE
          then (Inl (Rethrown ''Failed to compute bisector: '' (Error ''Invalid bisector length'')),
                sk, h)
          else (let bisectorEnd = plus_v (pos_of h v) (scale b 10)
                in case new_Vertex (pos_of h v) h of
                     (a, h1) \<Rightarrow>
                       (case new_Vertex bisectorEnd h1 of
                          (c, h2) \<Rightarrow>
                            (case new_Edge a c h2 of
                               (bisectorEdge, h3) \<Rightarrow>
                                 computeInitialBisectors vs
                                   (sk\<lparr>angleBisectorEdges := angleBisectorEdges sk @ [bisectorEdge]\<rparr>)
                                   h3))))"

text \<open>\<open>calculateEdgeCollapseTime\<close> of this class: the body of its \<open>try\<close>, and the
  \<open>catch\<close> that wraps every error of the body. The two sines are not zero where the
  quotients \<open>1 / sin\<close> are taken.\<close>

definition T_collapse_time_body :: "heap \<Rightarrow> eref \<Rightarrow> error + number" where
  "T_collapse_time_body h e =
     (case direction h e of
        Inl err \<Rightarrow> Inl err
      | Inr edgeVector \<Rightarrow>
          (let theta1 = between edgeVector (bisector (vertex_store h (v1 (edge_store h e))));
               theta2 = between edgeVector (bisector (vertex_store h (v2 (edge_store h e))));
               sin1 = Angle_sin theta1;
               sin2 = Angle_sin theta2
           in if \<bar>sin1\<bar> < NUMERICAL_TOLERANCE \<or> \<bar>sin2\<bar> < NUMERICAL_TOLERANCE
              then Inl (Error ''Angle sine too close to zero'')
              else (let velocity = (1 / sin1) + (1 / sin2);
                        len = Edge_length h e
                    in Inr (js_div len velocity))))"

definition T_calculateEdgeCollapseTime :: "heap \<Rightarrow> eref \<Rightarrow> error + number" where
  "T_calculateEdgeCollapseTime h e =
     (case T_collapse_time_body h e of
        Inl err \<Rightarrow> Inl (Rethrown ''Edge collapse time calculation failed: '' err)
      | Inr t \<Rightarrow> Inr t)"

text \<open>\<open>computeInitialEdgeEvents\<close>: what one pass of the loop body does to the queue
  (the body of the \<open>try\<close>), and the loop, whose \<open>catch\<close> wraps the error and throws.\<close>

definition T_edge_event_body :: "heap \<Rightarrow> eref \<Rightarrow> Event list \<Rightarrow> error + Event list" where
  "T_edge_event_body h e q =
     (case hasReflexEndpoint h e of
        Inl err \<Rightarrow> Inl err
      | Inr True \<Rightarrow> Inr q
      | Inr False \<Rightarrow>
          (case T_calculateEdgeCollapseTime h e of
             Inl err \<Rightarrow> Inl err
           | Inr t \<Rightarrow>
               if num_le t 0 then Inr q
               else if \<not> isFinite t then Inr q
               else (case EdgeEvent_new h t e of
                       Inl err \<Rightarrow> Inl err
                     | Inr ev \<Rightarrow> Inr (add ev q))))"

fun computeInitialEdgeEvents :: "heap \<Rightarrow> eref list \<Rightarrow> Event list \<Rightarrow> error + Event list" where
  "computeInitialEdgeEvents h [] q = Inr q"
| "computeInitialEdgeEvents h (e # es) q =
     (case T_edge_event_body h e q of
        Inl err \<Rightarrow> Inl (Rethrown ''Failed to process edge event: '' err)
      | Inr q' \<Rightarrow> computeInitialEdgeEvents h es q')"

text \<open>\<open>computeInitialSplitEvents\<close>: the inner loop over the edges, whose \<open>catch\<close> logs
  and goes on, and the outer loop over the vertices.\<close>

definition calculateIntersection :: "heap \<Rightarrow> vref \<Rightarrow> Vector \<Rightarrow> eref \<Rightarrow> Vector option" where
  "calculateIntersection h v b e =
     line_intersection (pos_of h (v1 (edge_store h e))) (pos_of h (v2 (edge_store h e)))
       (pos_of h v) (plus_v (pos_of h v) b)"

fun T_split_edges_loop :: "heap \<Rightarrow> vref \<Rightarrow> Vector \<Rightarrow> eref list \<Rightarrow> Event list \<Rightarrow> Event list" where
  "T_split_edges_loop h v b [] q = q"
| "T_split_edges_loop h v b (e # es) q =
     (if isAdjacent h e v then T_split_edges_loop h v b es q
      else case calculateIntersection h v b e of
        None \<Rightarrow> T_split_edges_loop h v b es q
      | Some x \<Rightarrow>
          (let t = length_v (minus_v (pos_of h v) x) / 1
           in if t \<le> 0 then T_split_edges_loop h v b es q
              else (case SplitEvent_new h (Finite t) v e x of
                      Inl err \<Rightarrow> T_split_edges_loop h v b es q
                    | Inr ev \<Rightarrow> T_split_edges_loop h v b es (add ev q))))"

fun computeInitialSplitEvents ::
  "heap \<Rightarrow> eref list \<Rightarrow> vref list \<Rightarrow> Event list \<Rightarrow> error + Event list" where
  "computeInitialSplitEvents h es [] q = Inr q"
| "computeInitialSplitEvents h es (v # vs) q =
     (case isReflex h v of
        Inl err \<Rightarrow> Inl err
      | Inr False \<Rightarrow> computeInitialSplitEvents h es vs q
      | Inr True \<Rightarrow>
          (case calculateBisector h v of
             Inl err \<Rightarrow> Inl err
           | Inr b \<Rightarrow> computeInitialSplitEvents h es vs (T_split_edges_loop h v b es q)))"

definition T_initialize :: "pref \<Rightarrow> TSkeleton \<Rightarrow> heap \<Rightarrow> (error + unit) \<times> TSkeleton \<times> heap" where
  "T_initialize polygon sk h =
     (case computeInitialBisectors (vertices (polygon_store h polygon)) sk h of
        (Inl err, sk1, h1) \<Rightarrow>
          (Inl (Rethrown ''Failed to compute initial bisectors: '' err), sk1, h1)
      | (Inr u, sk1, h1) \<Rightarrow>
          (case computeInitialEdgeEvents h1 (edges (polygon_store h1 polygon)) (T_eventQueue sk1) of
             Inl err \<Rightarrow> (Inl (Rethrown ''Failed to compute edge events: '' err), sk1, h1)
           | Inr q \<Rightarrow>
               (case computeInitialSplitEvents h1 (edges (polygon_store h1 polygon))
                       (vertices (polygon_store h1 polygon)) q of
                  Inl err \<Rightarrow>
                    (Inl (Rethrown ''Failed to compute split events: '' err),
                     sk1\<lparr>T_eventQueue := q\<rparr>, h1)
                | Inr q' \<Rightarrow> (Inr (), sk1\<lparr>T_eventQueue := q'\<rparr>, h1))))"

definition T_Skeleton_new :: "pref \<Rightarrow> heap \<Rightarrow> (error + TSkeleton) \<times> heap" where
  "T_Skeleton_new polygon h =
     (case validateInputPolygon h polygon of
        Inl err \<Rightarrow> (Inl err, h)
      | Inr u \<Rightarrow>
          (case Polygon_clone polygon h of
             (Inl err, h1) \<Rightarrow> (Inl err, h1)
           | (Inr c, h1) \<Rightarrow>
               (case T_initialize polygon
                       \<lparr>T_eventQueue = [], wavefrontPolygons = [c],
                        angleBisectorEdges = [], skeletonEdges = []\<rparr> h1 of
                  (Inl err, sk, h2) \<Rightarrow> (Inl err, h2)
                | (Inr u, sk, h2) \<Rightarrow> (Inr sk, h2))))"

definition T_build :: "pref \<Rightarrow> heap \<Rightarrow> (error + TSkeleton) \<times> heap" where
  "T_build polygon h = T_Skeleton_new polygon h"

subsection \<open>Event processing of this class\<close>

definition T_getCurrentPolygon :: "TSkeleton \<Rightarrow> pref option" where
  "T_getCurrentPolygon sk =
     (if length (wavefrontPolygons sk) > 0
      then Some (wavefrontPolygons sk ! (length (wavefrontPolygons sk) - 1))
      else None)"

fun validateEventState :: "heap \<Rightarrow> TSkeleton \<Rightarrow> Event \<Rightarrow> bool" where
  "validateEventState h sk (EdgeEvent t e) =
     (case T_getCurrentPolygon sk of
        None \<Rightarrow> False
      | Some currentPolygon \<Rightarrow> e \<in> set (edges (polygon_store h currentPolygon)))"
| "validateEventState h sk (SplitEvent t v e x) =
     (case T_getCurrentPolygon sk of
        None \<Rightarrow> False
      | Some currentPolygon \<Rightarrow>
          \<not> (v \<notin> set (vertices (polygon_store h currentPolygon)) \<or>
             e \<notin> set (edges (polygon_store h currentPolygon))))"

definition T_handleEdgeEvent ::
  "real \<Rightarrow> eref \<Rightarrow> TSkeleton \<Rightarrow> heap \<Rightarrow> (error + unit) \<times> TSkeleton \<times> heap" where
  "T_handleEdgeEvent t e sk h =
     (if \<not> validateEventState h sk (EdgeEvent t e) then (Inr (), sk, h)
      else case Edge_clone e h of
        (c, h1) \<Rightarrow>
          (let sk1 = sk\<lparr>skeletonEdges := skeletonEdges sk @ [c]\<rparr>
           in case T_getCurrentPolygon sk1 of
                None \<Rightarrow> (Inr (), sk1, h1)
              | Some currentPolygon \<Rightarrow>
                  (let a = v1 (edge_store h1 e);
                       b = v2 (edge_store h1 e);
                       h2 = upd_polygon currentPolygon
                              (\<lambda>y. y\<lparr>vertices := filter (\<lambda>v. v \<noteq> a \<and> v \<noteq> b) (vertices y)\<rparr>) h1;
                       h3 = upd_polygon currentPolygon
                              (\<lambda>y. y\<lparr>edges := filter (\<lambda>x. x \<noteq> e) (edges y)\<rparr>) h2
                   in case Polygon_initialize currentPolygon h3 of
                        (Inl err, h4) \<Rightarrow>
                          (Inl (Rethrown ''Failed to reinitialize polygon: '' err), sk1, h4)
                      | (Inr u, h4) \<Rightarrow> (Inr (), sk1, h4))))"

definition T_handleSplitEvent ::
  "real \<Rightarrow> vref \<Rightarrow> eref \<Rightarrow> Vector \<Rightarrow> TSkeleton \<Rightarrow> heap \<Rightarrow> (error + unit) \<times> TSkeleton \<times> heap" where
  "T_handleSplitEvent t v e x sk h =
     (if \<not> validateEventState h sk (SplitEvent t v e x) then (Inr (), sk, h)
      else case new_Vertex (pos_of h v) h of
        (a, h1) \<Rightarrow>
          (case new_Vertex x h1 of
             (b, h2) \<Rightarrow>
               (case new_Edge a b h2 of
                  (skeletonEdge, h3) \<Rightarrow>
                    (let sk1 = sk\<lparr>skeletonEdges := skeletonEdges sk @ [skeletonEdge]\<rparr>
                     in case T_getCurrentPolygon sk1 of
                          None \<Rightarrow> (Inr (), sk1, h3)
                        | Some currentPolygon \<Rightarrow>
                            (case new_Vertex x h3 of
                               (newVertex, h4) \<Rightarrow>
                                 (case (findIndex (\<lambda>y. y = e) (edges (polygon_store h4 currentPolygon)),
                                        findIndex (\<lambda>y. y = v) (vertices (polygon_store h4 currentPolygon))) of
                                    (Some edgeIndex, Some vertexIndex) \<Rightarrow>
                                      (let h5 = upd_polygon currentPolygon
                                             (\<lambda>y. y\<lparr>vertices :=
                                                splice_insert (vertexIndex + 1) newVertex (vertices y)\<rparr>) h4
                                       in case new_Edge v newVertex h5 of
                                            (newEdge, h6) \<Rightarrow>
                                              (case Polygon_initialize currentPolygon
                                                      (upd_polygon currentPolygon
                                                         (\<lambda>y. y\<lparr>edges :=
                                                            splice_insert (edgeIndex + 1) newEdge (edges y)\<rparr>) h6) of
                                                 (Inl err, h7) \<Rightarrow>
                                                   (Inl (Rethrown ''Failed to reinitialize polygon after split: '' err),
                                                    sk1, h7)
                                               | (Inr u, h7) \<Rightarrow> (Inr (), sk1, h7)))
                                  | _ \<Rightarrow>
                                      (Inl (Error ''Invalid split event: edge or vertex not found in current polygon''),
                                       sk1, h4)))))))"

text \<open>The body of the \<open>try\<close> in \<open>processEvents\<close>: handle the event, then store a clone
  of the current polygon.\<close>

fun T_handle :: "Event \<Rightarrow> TSkeleton \<Rightarrow> heap \<Rightarrow> (error + unit) \<times> TSkeleton \<times> heap" where
  "T_handle (EdgeEvent t e) sk h = T_handleEdgeEvent t e sk h"
| "T_handle (SplitEvent t v e x) sk h = T_handleSplitEvent t v e x sk h"

definition T_process_body :: "Event \<Rightarrow> TSkeleton \<Rightarrow> heap \<Rightarrow> (error + unit) \<times> TSkeleton \<times> heap" where
  "T_process_body event sk h =
     (case T_handle event sk h of
        (Inl err, sk1, h1) \<Rightarrow> (Inl err, sk1, h1)
      | (Inr u, sk1, h1) \<Rightarrow>
          (case T_getCurrentPolygon sk1 of
             None \<Rightarrow> (Inr (), sk1, h1)
           | Some currentPolygon \<Rightarrow>
               (case Polygon_clone currentPolygon h1 of
                  (Inl err, h2) \<Rightarrow> (Inl err, sk1, h2)
                | (Inr c, h2) \<Rightarrow>
                    (Inr (), sk1\<lparr>wavefrontPolygons := wavefrontPolygons sk1 @ [c]\<rparr>, h2))))"

text \<open>\<open>processEvents\<close>: the \<open>catch\<close> of the loop body logs the error and the loop goes
  on with the next event. The events still to be polled are the first argument; the
  field \<open>eventQueue\<close> of the skeleton holds them and nothing in the loop body writes
  that field.\<close>

fun processEvents_loop :: "Event list \<Rightarrow> TSkeleton \<Rightarrow> heap \<Rightarrow> TSkeleton \<times> heap" where
  "processEvents_loop [] sk h = (sk, h)"
| "processEvents_loop (event # q) sk h =
     (case T_process_body event (sk\<lparr>T_eventQueue := q\<rparr>) h of
        (r, sk1, h1) \<Rightarrow> processEvents_loop q sk1 h1)"

definition processEvents :: "TSkeleton \<Rightarrow> heap \<Rightarrow> TSkeleton \<times> heap" where
  "processEvents sk h = processEvents_loop (T_eventQueue sk) sk h"

subsection \<open>The accessors of this class\<close>






section \<open>Invariant of the event loop of the second class\<close>

text \<open>The current polygon of the skeleton, when there is one, was created after \<open>h0\<close>
  together with all vertices of its list.\<close>

definition T_owned :: "heap \<Rightarrow> heap \<Rightarrow> TSkeleton \<Rightarrow> bool" where
  "T_owned h0 h sk =
     (above h0 h \<and>
      (case T_getCurrentPolygon sk of None \<Rightarrow> True | Some cur \<Rightarrow> owned h0 h cur))"

text \<open>What \<open>computeInitialBisectors\<close> needs of a vertex to get past it: the vertex and
  its two neighbours exist in the store and \<open>calculateBisector\<close> returns a vector.\<close>

definition bisector_ready :: "heap \<Rightarrow> vref \<Rightarrow> bool" where
  "bisector_ready h v =
     (v < vertex_count h \<and>
      (\<exists>a b c. prev (vertex_store h v) = Some a \<and> nxt (vertex_store h v) = Some b \<and>
         a < vertex_count h \<and> b < vertex_count h \<and> calculateBisector h v = Inr c))"



section \<open>Example inputs\<close>

text \<open>A right triangle given counter-clockwise and clockwise, each built by the
  constructor of \<open>Polygon\<close> on the empty store.\<close>

definition tri :: "Vector list" where
  "tri = [Vec 0 0, Vec 4 0, Vec 0 3]"

definition tri_heap :: heap where
  "tri_heap = snd (Polygon_new tri empty_heap)"

definition tri_cw :: "Vector list" where
  "tri_cw = [Vec 0 0, Vec 0 3, Vec 4 0]"

definition cw_heap :: heap where
  "cw_heap = snd (Polygon_new tri_cw empty_heap)"

text \<open>A wavefront whose only polygon is the counter-clockwise triangle.\<close>

definition tri_wavefront :: Wavefront where
  "tri_wavefront = \<lparr>polygons = [0], times = [0]\<rparr>"


text \<open>A counter-clockwise U-shaped octagon whose two reflex corners are the last and the
  first vertex of the list, the store after a \<open>Wavefront\<close> has been built on it, and
  that wavefront. The wavefront's polygon is the clone: polygon \<open>1\<close> with the vertices
  and edges \<open>8\<close> to \<open>15\<close>; edge \<open>15\<close> runs from the last vertex to the first.\<close>

definition u_pts :: "Vector list" where
  "u_pts = [Vec 2 2, Vec 2 4, Vec 0 4, Vec 0 0, Vec 6 0, Vec 6 4, Vec 4 4, Vec 4 2]"

definition u_heap :: heap where
  "u_heap = snd (Polygon_new u_pts empty_heap)"

definition u_heap1 :: heap where
  "u_heap1 = snd (Wavefront_new 0 u_heap)"

definition u_wavefront :: Wavefront where
  "u_wavefront = \<lparr>polygons = [1], times = [0]\<rparr>"

text \<open>A convex counter-clockwise pentagon whose bisectors are rational, the store after
  a \<open>Skeleton\<close> has been built on it, and the wavefront and skeleton that the constructor returns. The wavefront's
  polygon is the clone: polygon \<open>1\<close> with the vertices and edges \<open>5\<close> to \<open>9\<close>.\<close>

definition pent :: "Vector list" where
  "pent = [Vec 0 0, Vec 15 0, Vec 22 24, Vec 15 48, Vec 14 48]"

definition pent_heap :: heap where
  "pent_heap = snd (Polygon_new pent empty_heap)"

definition pent_heap1 :: heap where
  "pent_heap1 = snd (build 0 pent_heap)"

definition pent_wavefront :: Wavefront where
  "pent_wavefront = \<lparr>polygons = [1], times = [0]\<rparr>"

definition pent_skeleton :: Skeleton where
  "pent_skeleton = \<lparr>wavefront = pent_wavefront, eventQueue = [SplitEvent 15 7 9 (Vec 7 24)],
     skeleton_edges = [], skeleton_events = []\<rparr>"

text \<open>The store after the second \<open>Skeleton\<close> class has been built on the pentagon, the
  skeleton that this constructor returns, and the skeleton it starts from once the input
  has been cloned. The bisector rays are the edges \<open>10\<close> to \<open>14\<close>; the queue is empty.\<close>

definition pent_heap2 :: heap where
  "pent_heap2 = snd (T_build 0 pent_heap)"

definition pent_tskeleton :: TSkeleton where
  "pent_tskeleton = \<lparr>T_eventQueue = [], wavefrontPolygons = [1],
     angleBisectorEdges = [10, 11, 12, 13, 14], skeletonEdges = []\<rparr>"

abbreviation pent_sk0 :: TSkeleton where
  "pent_sk0 \<equiv> \<lparr>T_eventQueue = [], wavefrontPolygons = [Suc 0], angleBisectorEdges = [], skeletonEdges = []\<rparr>"

section \<open>Basic facts about the store and \<open>Polygon.initialize\<close>\<close>

lemma upd_vertex_simps [simp]:
  "vertex_store (upd_vertex v f h) = (vertex_store h)(v := f (vertex_store h v))"
  "vertex_count (upd_vertex v f h) = vertex_count h"
  "edge_store (upd_vertex v f h) = edge_store h"
  "edge_count (upd_vertex v f h) = edge_count h"
  "polygon_store (upd_vertex v f h) = polygon_store h"
  "polygon_count (upd_vertex v f h) = polygon_count h"
  by (simp_all add: upd_vertex_def)

lemma upd_polygon_simps [simp]:
  "polygon_store (upd_polygon p f h) = (polygon_store h)(p := f (polygon_store h p))"
  "vertex_store (upd_polygon p f h) = vertex_store h"
  "vertex_count (upd_polygon p f h) = vertex_count h"
  "edge_store (upd_polygon p f h) = edge_store h"
  "edge_count (upd_polygon p f h) = edge_count h"
  "polygon_count (upd_polygon p f h) = polygon_count h"
  by (simp_all add: upd_polygon_def)

lemma pos_of_upd_polygon [simp]: "pos_of (upd_polygon p f h) = pos_of h"
  by (simp add: pos_of_def fun_eq_iff)

subsection \<open>normalize_v\<close>

lemma length_v_zero_iff: "length_v a = 0 \<longleftrightarrow> vx a = 0 \<and> vy a = 0"
  by (simp add: length_v_def sum_squares_eq_zero_iff)

lemma length_v_nonneg: "0 \<le> length_v a"
  by (simp add: length_v_def)

lemma normalize_length:
  assumes "normalize_v a = Inr b"
  shows "length_v b = 1"
proof -
  let ?l = "length_v a"
  from assms have nz: "?l \<noteq> 0" and b: "b = Vec (vx a / ?l) (vy a / ?l)"
    by (auto simp: normalize_v_def Let_def split: if_splits)
  have pos: "0 < ?l"
    using nz length_v_nonneg [of a] by simp
  have sq: "?l * ?l = vx a * vx a + vy a * vy a"
    by (simp add: length_v_def)
  have "vx b * vx b + vy b * vy b = (vx a * vx a + vy a * vy a) / (?l * ?l)"
    by (simp add: b Vec_def add_divide_distrib)
  also have "\<dots> = (?l * ?l) / (?l * ?l)"
    using sq by simp
  also have "\<dots> = 1"
    using nz by simp
  finally show ?thesis
    by (simp add: length_v_def)
qed

subsection \<open>link loop\<close>

lemma link_step_simps [simp]:
  "vertex_count (link_step vs i h) = vertex_count h"
  "edge_store (link_step vs i h) = edge_store h"
  "edge_count (link_step vs i h) = edge_count h"
  "polygon_store (link_step vs i h) = polygon_store h"
  "polygon_count (link_step vs i h) = polygon_count h"
  "position (vertex_store (link_step vs i h) v) = position (vertex_store h v)"
  "bisector (vertex_store (link_step vs i h) v) = bisector (vertex_store h v)"
  by (simp_all add: link_step_def Let_def)

lemma link_step_other: "v \<noteq> vs ! i \<Longrightarrow> vertex_store (link_step vs i h) v = vertex_store h v"
  by (simp add: link_step_def Let_def)

lemma link_step_self:
  "prev (vertex_store (link_step vs i h) (vs ! i)) = Some (vs ! ((i + length vs - 1) mod length vs))"
  "nxt (vertex_store (link_step vs i h) (vs ! i)) = Some (vs ! ((i + 1) mod length vs))"
  by (simp_all add: link_step_def Let_def)

lemma link_fold_simps [simp]:
  "vertex_count (fold (link_step vs) ks h) = vertex_count h"
  "edge_store (fold (link_step vs) ks h) = edge_store h"
  "edge_count (fold (link_step vs) ks h) = edge_count h"
  "polygon_store (fold (link_step vs) ks h) = polygon_store h"
  "polygon_count (fold (link_step vs) ks h) = polygon_count h"
  "position (vertex_store (fold (link_step vs) ks h) v) = position (vertex_store h v)"
  "bisector (vertex_store (fold (link_step vs) ks h) v) = bisector (vertex_store h v)"
  by (induction ks arbitrary: h; simp)+

lemma link_fold_other:
  "v \<notin> (\<lambda>i. vs ! i) ` set ks \<Longrightarrow> vertex_store (fold (link_step vs) ks h) v = vertex_store h v"
  by (induction ks arbitrary: h) (auto simp: link_step_other)

lemma link_step_linked: "linked h v \<Longrightarrow> linked (link_step vs i h) v"
  by (cases "v = vs ! i") (auto simp: linked_def link_step_self link_step_other)

lemma link_fold_linked_pres: "linked h v \<Longrightarrow> linked (fold (link_step vs) ks h) v"
  by (induction ks arbitrary: h) (auto simp: link_step_linked)

lemma link_fold_linked: "i \<in> set ks \<Longrightarrow> linked (fold (link_step vs) ks h) (vs ! i)"
proof (induction ks arbitrary: h)
  case Nil
  then show ?case by simp
next
  case (Cons k ks)
  show ?case
  proof (cases "i = k")
    case True
    have "linked (link_step vs k h) (vs ! k)"
      by (simp add: linked_def link_step_self)
    then show ?thesis
      using True by (simp add: link_fold_linked_pres)
  next
    case False
    with Cons show ?thesis by simp
  qed
qed

lemma link_loop_linked: "v \<in> set vs \<Longrightarrow> linked (link_loop vs h) v"
  unfolding link_loop_def
  by (metis in_set_conv_nth link_fold_linked atLeast0LessThan lessThan_iff set_upt)

lemma link_step_links_at:
  "distinct vs \<Longrightarrow> i < length vs \<Longrightarrow> k < length vs \<Longrightarrow> links_at vs h i \<Longrightarrow>
   links_at vs (link_step vs k h) i"
  by (cases "i = k") (auto simp: links_at_def link_step_self link_step_other nth_eq_iff_index_eq)

lemma link_fold_links_at_pres:
  "distinct vs \<Longrightarrow> i < length vs \<Longrightarrow> \<forall>k\<in>set ks. k < length vs \<Longrightarrow> links_at vs h i \<Longrightarrow>
   links_at vs (fold (link_step vs) ks h) i"
  by (induction ks arbitrary: h) (auto simp: link_step_links_at)

lemma link_fold_links_at:
  "distinct vs \<Longrightarrow> i < length vs \<Longrightarrow> \<forall>k\<in>set ks. k < length vs \<Longrightarrow> i \<in> set ks \<Longrightarrow>
   links_at vs (fold (link_step vs) ks h) i"
proof (induction ks arbitrary: h)
  case Nil
  then show ?case by simp
next
  case (Cons k ks)
  show ?case
  proof (cases "i = k")
    case True
    have "links_at vs (link_step vs k h) k"
      by (simp add: links_at_def link_step_self)
    with Cons.prems True show ?thesis
      by (simp add: link_fold_links_at_pres)
  next
    case False
    with Cons show ?thesis by simp
  qed
qed

lemma link_loop_links_at:
  "distinct vs \<Longrightarrow> i < length vs \<Longrightarrow> links_at vs (link_loop vs h) i"
  unfolding link_loop_def by (rule link_fold_links_at) simp_all

lemma link_loop_simps [simp]:
  "vertex_count (link_loop vs h) = vertex_count h"
  "edge_store (link_loop vs h) = edge_store h"
  "edge_count (link_loop vs h) = edge_count h"
  "polygon_store (link_loop vs h) = polygon_store h"
  "polygon_count (link_loop vs h) = polygon_count h"
  "position (vertex_store (link_loop vs h) v) = position (vertex_store h v)"
  "bisector (vertex_store (link_loop vs h) v) = bisector (vertex_store h v)"
  by (simp_all add: link_loop_def)

lemma link_loop_other: "v \<notin> set vs \<Longrightarrow> vertex_store (link_loop vs h) v = vertex_store h v"
  unfolding link_loop_def
  by (rule link_fold_other) (auto simp: in_set_conv_nth)

subsection \<open>edge loop\<close>

lemma new_Edge_simps [simp]:
  "fst (new_Edge a b h) = edge_count h"
  "vertex_store (snd (new_Edge a b h)) = vertex_store h"
  "vertex_count (snd (new_Edge a b h)) = vertex_count h"
  "polygon_store (snd (new_Edge a b h)) = polygon_store h"
  "polygon_count (snd (new_Edge a b h)) = polygon_count h"
  "edge_count (snd (new_Edge a b h)) = Suc (edge_count h)"
  "edge_store (snd (new_Edge a b h)) = (edge_store h)(edge_count h := \<lparr>v1 = a, v2 = b\<rparr>)"
  by (simp_all add: new_Edge_def)

lemma edge_step_eq:
  "edge_step vs i (es, h) =
     (es @ [edge_count h], snd (new_Edge (vs ! i) (vs ! ((i + 1) mod length vs)) h))"
  by (simp add: edge_step_def new_Edge_def)

lemma edge_fold:
  "fold (edge_step vs) ks (es, h) = (es', h') \<Longrightarrow>
     es' = es @ [edge_count h..<edge_count h + length ks] \<and>
     edge_count h' = edge_count h + length ks \<and>
     vertex_store h' = vertex_store h \<and> vertex_count h' = vertex_count h \<and>
     polygon_store h' = polygon_store h \<and> polygon_count h' = polygon_count h \<and>
     (\<forall>e < edge_count h. edge_store h' e = edge_store h e) \<and>
     (\<forall>j < length ks. edge_store h' (edge_count h + j) =
         \<lparr>v1 = vs ! (ks ! j), v2 = vs ! ((ks ! j + 1) mod length vs)\<rparr>)"
proof (induction ks arbitrary: es h)
  case Nil
  then show ?case by simp
next
  case (Cons k ks)
  let ?h1 = "snd (new_Edge (vs ! k) (vs ! ((k + 1) mod length vs)) h)"
  from Cons.prems have f: "fold (edge_step vs) ks (es @ [edge_count h], ?h1) = (es', h')"
    by (simp add: edge_step_eq)
  note IH = Cons.IH [OF f]
  have up: "[edge_count h..<edge_count h + length (k # ks)] =
     edge_count h # [Suc (edge_count h)..<Suc (edge_count h) + length ks]"
    by (simp add: upt_rec)
  show ?case
  proof (intro conjI allI impI)
    show "es' = es @ [edge_count h..<edge_count h + length (k # ks)]"
      using IH up by simp
    show "edge_count h' = edge_count h + length (k # ks)"
      using IH by simp
    show "vertex_store h' = vertex_store h" "vertex_count h' = vertex_count h"
      "polygon_store h' = polygon_store h" "polygon_count h' = polygon_count h"
      using IH by simp_all
  next
    fix e assume "e < edge_count h"
    then show "edge_store h' e = edge_store h e"
      using IH by simp
  next
    fix j assume j: "j < length (k # ks)"
    show "edge_store h' (edge_count h + j) =
       \<lparr>v1 = vs ! ((k # ks) ! j), v2 = vs ! (((k # ks) ! j + 1) mod length vs)\<rparr>"
    proof (cases j)
      case 0
      have "edge_store h' (edge_count h) = edge_store ?h1 (edge_count h)"
        using IH by simp
      then show ?thesis using 0 by simp
    next
      case (Suc j')
      with j have "j' < length ks" by simp
      with IH have "edge_store h' (edge_count ?h1 + j') =
        \<lparr>v1 = vs ! (ks ! j'), v2 = vs ! ((ks ! j' + 1) mod length vs)\<rparr>"
        by blast
      then show ?thesis using Suc by simp
    qed
  qed
qed

lemma edge_loop_props:
  assumes "edge_loop vs h = (es, h')"
  shows "es = [edge_count h..<edge_count h + length vs]"
    and "edge_count h' = edge_count h + length vs"
    and "vertex_store h' = vertex_store h" and "vertex_count h' = vertex_count h"
    and "polygon_store h' = polygon_store h" and "polygon_count h' = polygon_count h"
    and "\<And>e. e < edge_count h \<Longrightarrow> edge_store h' e = edge_store h e"
    and "\<And>j. j < length vs \<Longrightarrow> edge_store h' (edge_count h + j) =
           \<lparr>v1 = vs ! j, v2 = vs ! ((j + 1) mod length vs)\<rparr>"
  using edge_fold [OF assms [unfolded edge_loop_def]] by simp_all

subsection \<open>bisector loop\<close>

lemma compute_bisector_cong:
  "(\<And>u. pos_of h' u = pos_of h u) \<Longrightarrow> prev (vertex_store h' v) = prev (vertex_store h v) \<Longrightarrow>
   nxt (vertex_store h' v) = nxt (vertex_store h v) \<Longrightarrow>
   compute_bisector h' v = compute_bisector h v"
  by (simp add: compute_bisector_def cong: option.case_cong sum.case_cong)

lemma compute_bisector_upd [simp]:
  "compute_bisector (upd_vertex w (\<lambda>x. x\<lparr>bisector := b\<rparr>) h) v = compute_bisector h v"
  by (rule compute_bisector_cong) (auto simp: pos_of_def fun_eq_iff)

lemma bisector_loop_frame:
  "bisector_loop vs h = (r, h') \<Longrightarrow>
     (\<forall>v. position (vertex_store h' v) = position (vertex_store h v) \<and>
          prev (vertex_store h' v) = prev (vertex_store h v) \<and>
          nxt (vertex_store h' v) = nxt (vertex_store h v)) \<and>
     (\<forall>v. v \<notin> set vs \<longrightarrow> vertex_store h' v = vertex_store h v) \<and>
     vertex_count h' = vertex_count h \<and>
     edge_store h' = edge_store h \<and> edge_count h' = edge_count h \<and>
     polygon_store h' = polygon_store h \<and> polygon_count h' = polygon_count h"
proof (induction vs arbitrary: h)
  case Nil
  then show ?case by simp
next
  case (Cons v vs)
  show ?case
  proof (cases "compute_bisector h v")
    case (Inl err)
    with Cons.prems show ?thesis by simp
  next
    case (Inr b)
    with Cons.prems have "bisector_loop vs (upd_vertex v (\<lambda>x. x\<lparr>bisector := b\<rparr>) h) = (r, h')"
      by simp
    from Cons.IH [OF this] show ?thesis
      by simp
  qed
qed

lemma bisector_loop_compute:
  "bisector_loop vs h = (r, h') \<Longrightarrow> compute_bisector h' v = compute_bisector h v"
  by (rule compute_bisector_cong) (auto simp: pos_of_def fun_eq_iff dest: bisector_loop_frame)

lemma bisector_loop_result:
  "bisector_loop vs h = (Inr (), h') \<Longrightarrow> v \<in> set vs \<Longrightarrow>
   compute_bisector h v = Inr (bisector (vertex_store h' v))"
proof (induction vs arbitrary: h)
  case Nil
  then show ?case by simp
next
  case (Cons w vs)
  from Cons.prems(1) obtain b where b: "compute_bisector h w = Inr b"
    by (cases "compute_bisector h w") auto
  let ?h1 = "upd_vertex w (\<lambda>x. x\<lparr>bisector := b\<rparr>) h"
  from Cons.prems(1) b have loop: "bisector_loop vs ?h1 = (Inr (), h')"
    by simp
  show ?case
  proof (cases "v \<in> set vs")
    case True
    from Cons.IH [OF loop True] show ?thesis by simp
  next
    case False
    with Cons.prems(2) have vw: "v = w" by simp
    from bisector_loop_frame [OF loop] False
    have "vertex_store h' v = vertex_store ?h1 v" by blast
    with vw b show ?thesis by simp
  qed
qed

lemma bisector_loop_success:
  "(\<forall>v\<in>set vs. \<exists>b. compute_bisector h v = Inr b) \<Longrightarrow> fst (bisector_loop vs h) = Inr ()"
  by (induction vs arbitrary: h) auto

subsection \<open>initialize\<close>

lemma initialize_frame_aux:
  assumes "Polygon_initialize p h = (r, h')"
  shows "vertices (polygon_store h' p) = vertices (polygon_store h p)"
    and "edges (polygon_store h' p) =
           [edge_count h..<edge_count h + length (vertices (polygon_store h p))]"
    and "\<And>v. position (vertex_store h' v) = position (vertex_store h v)"
    and "\<And>v. v \<notin> set (vertices (polygon_store h p)) \<Longrightarrow> vertex_store h' v = vertex_store h v"
    and "\<And>q. q \<noteq> p \<Longrightarrow> polygon_store h' q = polygon_store h q"
    and "\<And>e. e < edge_count h \<Longrightarrow> edge_store h' e = edge_store h e"
    and "\<And>j. j < length (vertices (polygon_store h p)) \<Longrightarrow>
           edge_store h' (edge_count h + j) =
             \<lparr>v1 = vertices (polygon_store h p) ! j,
              v2 = vertices (polygon_store h p) ! ((j + 1) mod length (vertices (polygon_store h p)))\<rparr>"
    and "vertex_count h' = vertex_count h"
    and "polygon_count h' = polygon_count h"
    and "edge_count h' = edge_count h + length (vertices (polygon_store h p))"
    and "\<And>v. v \<in> set (vertices (polygon_store h p)) \<Longrightarrow> linked h' v"
    and "\<And>i. distinct (vertices (polygon_store h p)) \<Longrightarrow> i < length (vertices (polygon_store h p)) \<Longrightarrow>
           links_at (vertices (polygon_store h p)) h' i"
proof -
  let ?vs = "vertices (polygon_store h p)"
  let ?h1 = "link_loop ?vs h"
  obtain es h2 where el: "edge_loop ?vs ?h1 = (es, h2)"
    by (cases "edge_loop ?vs ?h1")
  note E = edge_loop_props [OF el]
  let ?h3 = "upd_polygon p (\<lambda>x. x\<lparr>edges := es\<rparr>) h2"
  from assms el have bl: "bisector_loop ?vs ?h3 = (r, h')"
    by (simp add: Polygon_initialize_def Let_def)
  note B = bisector_loop_frame [OF bl]
  show "vertices (polygon_store h' p) = ?vs"
    using B E by simp
  show "edges (polygon_store h' p) = [edge_count h..<edge_count h + length ?vs]"
    using B E by simp
  show "\<And>v. position (vertex_store h' v) = position (vertex_store h v)"
    using B E by simp
  show "\<And>v. v \<notin> set ?vs \<Longrightarrow> vertex_store h' v = vertex_store h v"
    using B E by (simp add: link_loop_other)
  show "\<And>q. q \<noteq> p \<Longrightarrow> polygon_store h' q = polygon_store h q"
    using B E by simp
  show "\<And>e. e < edge_count h \<Longrightarrow> edge_store h' e = edge_store h e"
    using B E by simp
  show "\<And>j. j < length ?vs \<Longrightarrow> edge_store h' (edge_count h + j) =
             \<lparr>v1 = ?vs ! j, v2 = ?vs ! ((j + 1) mod length ?vs)\<rparr>"
    using B E by simp
  show "vertex_count h' = vertex_count h" "polygon_count h' = polygon_count h"
    "edge_count h' = edge_count h + length ?vs"
    using B E by simp_all
  show "\<And>v. v \<in> set ?vs \<Longrightarrow> linked h' v"
  proof -
    fix v assume "v \<in> set ?vs"
    then have "linked ?h1 v" by (rule link_loop_linked)
    then show "linked h' v"
      using B E by (simp add: linked_def)
  qed
  show "\<And>i. distinct ?vs \<Longrightarrow> i < length ?vs \<Longrightarrow> links_at ?vs h' i"
  proof -
    fix i assume "distinct ?vs" "i < length ?vs"
    then have "links_at ?vs ?h1 i" by (rule link_loop_links_at)
    then show "links_at ?vs h' i"
      using B E by (simp add: links_at_def)
  qed
qed

lemma initialize_bisector_aux:
  assumes "Polygon_initialize p h = (Inr (), h')"
    and "v \<in> set (vertices (polygon_store h p))"
  shows "compute_bisector h' v = Inr (bisector (vertex_store h' v))"
proof -
  let ?vs = "vertices (polygon_store h p)"
  let ?h1 = "link_loop ?vs h"
  obtain es h2 where el: "edge_loop ?vs ?h1 = (es, h2)"
    by (cases "edge_loop ?vs ?h1")
  let ?h3 = "upd_polygon p (\<lambda>x. x\<lparr>edges := es\<rparr>) h2"
  from assms el have bl: "bisector_loop ?vs ?h3 = (Inr (), h')"
    by (simp add: Polygon_initialize_def Let_def)
  from bisector_loop_result [OF bl assms(2)] bisector_loop_compute [OF bl, of v]
  show ?thesis by simp
qed

section \<open>When \<open>initialize\<close> succeeds, and what the constructor of \<open>Polygon\<close> builds\<close>

lemma bisectors_ok_iff: "bisectors_ok pts \<longleftrightarrow> (\<forall>i<length pts. \<exists>b. bisector_at pts i = Inr b)"
  by (auto simp: bisectors_ok_def list_all_iff)

lemma compute_bisector_at:
  assumes "distinct vs" "i < length vs" "links_at vs h i"
  shows "compute_bisector h (vs ! i) = bisector_at (map (pos_of h) vs) i"
proof -
  let ?n = "length vs"
  have n: "0 < ?n" using assms(2) by auto
  then have a: "(i + ?n - 1) mod ?n < ?n" and b: "(i + 1) mod ?n < ?n"
    by simp_all
  from assms(3) have l: "prev (vertex_store h (vs ! i)) = Some (vs ! ((i + ?n - 1) mod ?n))"
    "nxt (vertex_store h (vs ! i)) = Some (vs ! ((i + 1) mod ?n))"
    by (simp_all add: links_at_def)
  show ?thesis
    using assms(2) a b
    by (simp add: compute_bisector_def bisector_at_def l Let_def cong: sum.case_cong)
qed

lemma initialize_success:
  assumes d: "distinct (vertices (polygon_store h p))"
    and ok: "bisectors_ok (map (pos_of h) (vertices (polygon_store h p)))"
  shows "fst (Polygon_initialize p h) = Inr ()"
proof -
  let ?vs = "vertices (polygon_store h p)"
  let ?h1 = "link_loop ?vs h"
  obtain es h2 where el: "edge_loop ?vs ?h1 = (es, h2)"
    by (cases "edge_loop ?vs ?h1")
  note E = edge_loop_props [OF el]
  let ?h3 = "upd_polygon p (\<lambda>x. x\<lparr>edges := es\<rparr>) h2"
  have pos: "\<And>u. pos_of ?h3 u = pos_of h u"
    using E by (simp add: pos_of_def)
  have "\<forall>v\<in>set ?vs. \<exists>b. compute_bisector ?h3 v = Inr b"
  proof
    fix v assume "v \<in> set ?vs"
    then obtain i where i: "i < length ?vs" "v = ?vs ! i"
      by (auto simp: in_set_conv_nth)
    from link_loop_links_at [OF d i(1)] have "links_at ?vs ?h1 i" .
    then have "links_at ?vs ?h3 i"
      using E by (simp add: links_at_def)
    from compute_bisector_at [OF d i(1) this]
    have "compute_bisector ?h3 v = bisector_at (map (pos_of h) ?vs) i"
      using i(2) pos by (simp cong: map_cong)
    with ok i(1) show "\<exists>b. compute_bisector ?h3 v = Inr b"
      by (simp add: bisectors_ok_iff)
  qed
  then have "fst (bisector_loop ?vs ?h3) = Inr ()"
    by (rule bisector_loop_success)
  with el show ?thesis
    by (simp add: Polygon_initialize_def Let_def)
qed

lemma initialize_result_bisector:
  assumes r: "Polygon_initialize p h = (Inr (), h')"
    and d: "distinct (vertices (polygon_store h p))"
    and i: "i < length (vertices (polygon_store h p))"
  shows "Inr (bisector (vertex_store h' (vertices (polygon_store h p) ! i))) =
         bisector_at (map (pos_of h) (vertices (polygon_store h p))) i"
proof -
  let ?vs = "vertices (polygon_store h p)"
  note F = initialize_frame_aux [OF r]
  from i have mem: "?vs ! i \<in> set ?vs" by simp
  have pos: "\<And>u. pos_of h' u = pos_of h u"
    using F(3) by (simp add: pos_of_def)
  from initialize_bisector_aux [OF r mem] compute_bisector_at [OF d i F(12) [OF d i]]
  show ?thesis
    using pos by (simp cong: map_cong)
qed

subsection \<open>allocation of vertices and the constructor\<close>

lemma new_Vertex_simps [simp]:
  "fst (new_Vertex pos h) = vertex_count h"
  "vertex_count (snd (new_Vertex pos h)) = Suc (vertex_count h)"
  "vertex_store (snd (new_Vertex pos h)) =
     (vertex_store h)(vertex_count h := \<lparr>position = pos, prev = None, nxt = None, bisector = Vec 0 0\<rparr>)"
  "edge_store (snd (new_Vertex pos h)) = edge_store h"
  "edge_count (snd (new_Vertex pos h)) = edge_count h"
  "polygon_store (snd (new_Vertex pos h)) = polygon_store h"
  "polygon_count (snd (new_Vertex pos h)) = polygon_count h"
  by (simp_all add: new_Vertex_def)

lemma new_Vertices_props:
  "new_Vertices pts h = (vs, h') \<Longrightarrow>
     vs = [vertex_count h..<vertex_count h + length pts] \<and>
     vertex_count h' = vertex_count h + length pts \<and>
     (\<forall>i<length pts. vertex_store h' (vertex_count h + i) =
         \<lparr>position = pts ! i, prev = None, nxt = None, bisector = Vec 0 0\<rparr>) \<and>
     (\<forall>v<vertex_count h. vertex_store h' v = vertex_store h v) \<and>
     edge_store h' = edge_store h \<and> edge_count h' = edge_count h \<and>
     polygon_store h' = polygon_store h \<and> polygon_count h' = polygon_count h"
proof (induction pts arbitrary: h vs)
  case Nil
  then show ?case by simp
next
  case (Cons pt pts)
  let ?h1 = "snd (new_Vertex pt h)"
  obtain vs1 where r: "new_Vertices pts ?h1 = (vs1, h')" and vs: "vs = vertex_count h # vs1"
    using Cons.prems by (auto simp: split_beta prod_eq_iff)
  note IH = Cons.IH [OF r]
  have up: "[vertex_count h..<vertex_count h + length (pt # pts)] =
     vertex_count h # [Suc (vertex_count h)..<Suc (vertex_count h) + length pts]"
    by (simp add: upt_rec)
  show ?case
  proof (intro conjI allI impI)
    show "vs = [vertex_count h..<vertex_count h + length (pt # pts)]"
      using IH vs up by simp
    show "vertex_count h' = vertex_count h + length (pt # pts)"
      using IH by simp
    show "edge_store h' = edge_store h" "edge_count h' = edge_count h"
      "polygon_store h' = polygon_store h" "polygon_count h' = polygon_count h"
      using IH by simp_all
  next
    fix v assume "v < vertex_count h"
    then show "vertex_store h' v = vertex_store h v"
      using IH by simp
  next
    fix i assume i: "i < length (pt # pts)"
    show "vertex_store h' (vertex_count h + i) =
       \<lparr>position = (pt # pts) ! i, prev = None, nxt = None, bisector = Vec 0 0\<rparr>"
    proof (cases i)
      case 0
      have "vertex_store h' (vertex_count h) = vertex_store ?h1 (vertex_count h)"
        using IH by simp
      then show ?thesis using 0 by simp
    next
      case (Suc j)
      with i have "j < length pts" by simp
      with IH have "vertex_store h' (vertex_count ?h1 + j) =
        \<lparr>position = pts ! j, prev = None, nxt = None, bisector = Vec 0 0\<rparr>"
        by blast
      then show ?thesis using Suc by simp
    qed
  qed
qed

lemma new_Polygon_object_simps [simp]:
  "fst (new_Polygon_object vs h) = polygon_count h"
  "polygon_count (snd (new_Polygon_object vs h)) = Suc (polygon_count h)"
  "polygon_store (snd (new_Polygon_object vs h)) =
     (polygon_store h)(polygon_count h := \<lparr>vertices = vs, edges = []\<rparr>)"
  "vertex_store (snd (new_Polygon_object vs h)) = vertex_store h"
  "vertex_count (snd (new_Polygon_object vs h)) = vertex_count h"
  "edge_store (snd (new_Polygon_object vs h)) = edge_store h"
  "edge_count (snd (new_Polygon_object vs h)) = edge_count h"
  by (simp_all add: new_Polygon_object_def)

lemma Polygon_new_short:
  "length pts < 3 \<Longrightarrow> Polygon_new pts h = (Inl (Error ''Polygon must have at least 3 points''), h)"
  by (simp add: Polygon_new_def)

lemma Polygon_new_props:
  assumes run: "Polygon_new pts h = (r, h')" and len: "3 \<le> length pts"
  shows "polygon_store h' (polygon_count h) =
           \<lparr>vertices = [vertex_count h..<vertex_count h + length pts],
            edges = [edge_count h..<edge_count h + length pts]\<rparr>"
    and "\<And>i. i < length pts \<Longrightarrow> pos_of h' (vertex_count h + i) = pts ! i"
    and "\<And>i. i < length pts \<Longrightarrow>
           prev (vertex_store h' (vertex_count h + i)) =
             Some (vertex_count h + (i + length pts - 1) mod length pts) \<and>
           nxt (vertex_store h' (vertex_count h + i)) =
             Some (vertex_count h + (i + 1) mod length pts)"
    and "\<And>j. j < length pts \<Longrightarrow>
           edge_store h' (edge_count h + j) =
             \<lparr>v1 = vertex_count h + j, v2 = vertex_count h + (j + 1) mod length pts\<rparr>"
    and "vertex_count h' = vertex_count h + length pts"
    and "edge_count h' = edge_count h + length pts"
    and "polygon_count h' = Suc (polygon_count h)"
    and "\<And>v. v < vertex_count h \<Longrightarrow> vertex_store h' v = vertex_store h v"
    and "\<And>e. e < edge_count h \<Longrightarrow> edge_store h' e = edge_store h e"
    and "\<And>q. q < polygon_count h \<Longrightarrow> polygon_store h' q = polygon_store h q"
    and "r = Inr (polygon_count h) \<or> (\<exists>err. r = Inl err)"
    and "bisectors_ok pts \<Longrightarrow> r = Inr (polygon_count h)"
    and "\<And>i. r = Inr (polygon_count h) \<Longrightarrow> i < length pts \<Longrightarrow>
           Inr (bisector (vertex_store h' (vertex_count h + i))) = bisector_at pts i"
proof -
  let ?n = "length pts"
  let ?vc = "vertex_count h"
  let ?p = "polygon_count h"
  obtain vs h1 where nv: "new_Vertices pts h = (vs, h1)"
    by (cases "new_Vertices pts h")
  note V = new_Vertices_props [OF nv]
  from V have vs: "vs = [?vc..<?vc + ?n]" by blast
  let ?h2 = "snd (new_Polygon_object vs h1)"
  obtain r0 where init: "Polygon_initialize ?p ?h2 = (r0, h')"
    and r: "r = (case r0 of Inl err \<Rightarrow> Inl err | Inr u \<Rightarrow> Inr ?p)"
    using run len nv V
    by (cases "Polygon_initialize ?p ?h2")
       (auto simp: Polygon_new_def new_Polygon_object_def split: sum.splits)
  have pvs: "vertices (polygon_store ?h2 ?p) = vs"
    using V by simp
  note F = initialize_frame_aux [OF init, unfolded pvs]
  have d: "distinct vs" using vs by simp
  have lvs: "length vs = ?n" using vs by simp
  have nth: "\<And>i. i < ?n \<Longrightarrow> vs ! i = ?vc + i"
    using vs by simp
  have pos2: "\<And>i. i < ?n \<Longrightarrow> pos_of ?h2 (?vc + i) = pts ! i"
    using V by (simp add: pos_of_def)
  have posmap: "map (pos_of ?h2) vs = pts"
    by (rule nth_equalityI) (simp_all add: lvs nth pos2)
  show "polygon_store h' ?p = \<lparr>vertices = [?vc..<?vc + ?n], edges = [edge_count h..<edge_count h + ?n]\<rparr>"
    using F(1) F(2) V vs by (cases "polygon_store h' ?p") simp
  show "\<And>i. i < ?n \<Longrightarrow> pos_of h' (?vc + i) = pts ! i"
    using F(3) pos2 by (simp add: pos_of_def)
  show "\<And>i. i < ?n \<Longrightarrow>
           prev (vertex_store h' (?vc + i)) = Some (?vc + (i + ?n - 1) mod ?n) \<and>
           nxt (vertex_store h' (?vc + i)) = Some (?vc + (i + 1) mod ?n)"
  proof -
    fix i assume i: "i < ?n"
    then have n: "0 < ?n" by auto
    from F(12) [OF d] i lvs have "links_at vs h' i" by simp
    then show "prev (vertex_store h' (?vc + i)) = Some (?vc + (i + ?n - 1) mod ?n) \<and>
           nxt (vertex_store h' (?vc + i)) = Some (?vc + (i + 1) mod ?n)"
      using i n by (simp add: links_at_def lvs nth)
  qed
  show "\<And>j. j < ?n \<Longrightarrow> edge_store h' (edge_count h + j) =
             \<lparr>v1 = ?vc + j, v2 = ?vc + (j + 1) mod ?n\<rparr>"
  proof -
    fix j assume j: "j < ?n"
    then have n: "0 < ?n" by auto
    from F(7) [of j] j lvs V show "edge_store h' (edge_count h + j) =
             \<lparr>v1 = ?vc + j, v2 = ?vc + (j + 1) mod ?n\<rparr>"
      using n by (simp add: nth)
  qed
  show "vertex_count h' = ?vc + ?n" "edge_count h' = edge_count h + ?n"
    "polygon_count h' = Suc ?p"
    using F(8,9,10) V lvs by simp_all
  show "\<And>v. v < ?vc \<Longrightarrow> vertex_store h' v = vertex_store h v"
    using F(4) V vs by simp
  show "\<And>e. e < edge_count h \<Longrightarrow> edge_store h' e = edge_store h e"
    using F(6) V by simp
  show "\<And>q. q < ?p \<Longrightarrow> polygon_store h' q = polygon_store h q"
    using F(5) V by simp
  show "r = Inr ?p \<or> (\<exists>err. r = Inl err)"
    using r by (cases r0) simp_all
  show "bisectors_ok pts \<Longrightarrow> r = Inr ?p"
  proof -
    assume "bisectors_ok pts"
    with posmap have "bisectors_ok (map (pos_of ?h2) vs)"
      by simp
    then have ok: "bisectors_ok (map (pos_of ?h2) (vertices (polygon_store ?h2 ?p)))"
      by (simp only: pvs)
    have d': "distinct (vertices (polygon_store ?h2 ?p))"
      using d by (simp only: pvs)
    from initialize_success [OF d' ok] init have "r0 = Inr ()"
      by simp
    with r show "r = Inr ?p" by simp
  qed
  show "\<And>i. r = Inr ?p \<Longrightarrow> i < ?n \<Longrightarrow>
           Inr (bisector (vertex_store h' (?vc + i))) = bisector_at pts i"
  proof -
    fix i assume "r = Inr ?p" and i: "i < ?n"
    with r have "r0 = Inr ()" by (cases r0) simp_all
    with init have init': "Polygon_initialize ?p ?h2 = (Inr (), h')" by simp
    from initialize_result_bisector [OF init'] d i pvs lvs
    show "Inr (bisector (vertex_store h' (?vc + i))) = bisector_at pts i"
      by (simp add: posmap nth)
  qed
qed

section \<open>Evaluation of the example inputs\<close>

text \<open>Whether the three \<open>normalize\<close> calls of a bisector succeed depends only on
  which vectors are zero, so the lengths need not be evaluated.\<close>

lemmas bisector_eval =
  bisectors_ok_def bisector_at_def normalize_v_def length_v_zero_iff plus_v_def Vec_def Let_def
  upt_rec

lemma tri_ok: "bisectors_ok tri"
  by (simp add: tri_def bisector_eval)

lemma tri_run: "Polygon_new tri empty_heap = (fst (Polygon_new tri empty_heap), tri_heap)"
  by (simp add: tri_heap_def)

lemma tri_len: "3 \<le> length tri"
  by (simp add: tri_def)

lemma tri_nth:
  "length tri = 3" "tri ! 0 = Vec 0 0" "tri ! Suc 0 = Vec 4 0" "tri ! 2 = Vec 0 3"
  by (simp_all add: tri_def)

lemma empty_heap_counts:
  "vertex_count empty_heap = 0" "edge_count empty_heap = 0" "polygon_count empty_heap = 0"
  by (simp_all add: empty_heap_def)

lemma tri_new: "Polygon_new tri empty_heap = (Inr 0, tri_heap)"
  using Polygon_new_props(12) [OF tri_run tri_len tri_ok] tri_run
  by (simp add: empty_heap_counts)

lemma tri_heap_polygon: "polygon_store tri_heap 0 = \<lparr>vertices = [0, Suc 0, 2], edges = [0, Suc 0, 2]\<rparr>"
  using Polygon_new_props(1) [OF tri_run tri_len]
  by (simp add: empty_heap_counts tri_nth upt_rec)

lemma tri_heap_counts:
  "vertex_count tri_heap = 3" "edge_count tri_heap = 3" "polygon_count tri_heap = Suc 0"
  using Polygon_new_props(5,6,7) [OF tri_run tri_len]
  by (simp_all add: empty_heap_counts tri_nth del: add_2_eq_Suc add_2_eq_Suc')

lemma tri_heap_links:
  "prev (vertex_store tri_heap 0) = Some 2" "nxt (vertex_store tri_heap 0) = Some (Suc 0)"
  "prev (vertex_store tri_heap (Suc 0)) = Some 0" "nxt (vertex_store tri_heap (Suc 0)) = Some 2"
  "prev (vertex_store tri_heap 2) = Some (Suc 0)" "nxt (vertex_store tri_heap 2) = Some 0"
  using Polygon_new_props(3) [OF tri_run tri_len, of 0]
    Polygon_new_props(3) [OF tri_run tri_len, of 1]
    Polygon_new_props(3) [OF tri_run tri_len, of 2]
  by (simp_all add: empty_heap_counts tri_nth del: add_2_eq_Suc add_2_eq_Suc')

lemma tri_heap_pos:
  "pos_of tri_heap 0 = Vec 0 0" "pos_of tri_heap (Suc 0) = Vec 4 0" "pos_of tri_heap 2 = Vec 0 3"
  using Polygon_new_props(2) [OF tri_run tri_len, of 0]
    Polygon_new_props(2) [OF tri_run tri_len, of 1]
    Polygon_new_props(2) [OF tri_run tri_len, of 2]
  by (simp_all add: empty_heap_counts tri_nth del: add_2_eq_Suc add_2_eq_Suc')

lemma tri_heap_edges:
  "edge_store tri_heap 0 = \<lparr>v1 = 0, v2 = Suc 0\<rparr>"
  "edge_store tri_heap (Suc 0) = \<lparr>v1 = Suc 0, v2 = 2\<rparr>"
  "edge_store tri_heap 2 = \<lparr>v1 = 2, v2 = 0\<rparr>"
  using Polygon_new_props(4) [OF tri_run tri_len, of 0]
    Polygon_new_props(4) [OF tri_run tri_len, of 1]
    Polygon_new_props(4) [OF tri_run tri_len, of 2]
  by (simp_all add: empty_heap_counts tri_nth del: add_2_eq_Suc add_2_eq_Suc')

lemma tri_heap_reinitialize: "fst (Polygon_initialize 0 tri_heap) = Inr ()"
proof (rule initialize_success)
  show "distinct (vertices (polygon_store tri_heap 0))"
    by (simp add: tri_heap_polygon)
  have "map (pos_of tri_heap) (vertices (polygon_store tri_heap 0)) = tri"
    by (simp add: tri_heap_polygon tri_heap_pos tri_def)
  then show "bisectors_ok (map (pos_of tri_heap) (vertices (polygon_store tri_heap 0)))"
    by (simp add: tri_ok)
qed

lemma tri_heap_isReflex:
  "isReflex tri_heap 0 = Inr True" "isReflex tri_heap (Suc 0) = Inr True" "isReflex tri_heap 2 = Inr True"
  by (simp_all add: isReflex_def tri_heap_links tri_heap_pos cross_def Vec_def)

lemma cw_ok: "bisectors_ok tri_cw"
  by (simp add: tri_cw_def bisector_eval)

lemma cw_run: "Polygon_new tri_cw empty_heap = (fst (Polygon_new tri_cw empty_heap), cw_heap)"
  by (simp add: cw_heap_def)

lemma cw_len: "3 \<le> length tri_cw"
  by (simp add: tri_cw_def)

lemma cw_nth:
  "length tri_cw = 3" "tri_cw ! 0 = Vec 0 0" "tri_cw ! Suc 0 = Vec 0 3" "tri_cw ! 2 = Vec 4 0"
  by (simp_all add: tri_cw_def)

lemma cw_heap_links:
  "prev (vertex_store cw_heap 0) = Some 2" "nxt (vertex_store cw_heap 0) = Some (Suc 0)"
  using Polygon_new_props(3) [OF cw_run cw_len, of 0]
  by (simp_all add: empty_heap_counts cw_nth del: add_2_eq_Suc add_2_eq_Suc')

lemma cw_heap_pos:
  "pos_of cw_heap 0 = Vec 0 0" "pos_of cw_heap (Suc 0) = Vec 0 3" "pos_of cw_heap 2 = Vec 4 0"
  using Polygon_new_props(2) [OF cw_run cw_len, of 0]
    Polygon_new_props(2) [OF cw_run cw_len, of 1]
    Polygon_new_props(2) [OF cw_run cw_len, of 2]
  by (simp_all add: empty_heap_counts cw_nth del: add_2_eq_Suc add_2_eq_Suc')

lemma cw_heap_isReflex: "isReflex cw_heap 0 = Inr False"
  by (simp add: isReflex_def cw_heap_links cw_heap_pos cross_def Vec_def)

section \<open>What \<open>Polygon.initialize\<close> changes and what it establishes\<close>

text \<open>
  Claim C9. Whatever the outcome of \<open>Polygon.initialize\<close>, and so in particular when it
  returns without error, the polygon afterwards has the same vertex objects in the same
  order, and every vertex has the position it had; vertex objects outside the polygon,
  other polygons and the edge objects that existed before are untouched, and no vertex
  or polygon object is created. What does change is confined to the links and bisectors
  of the polygon's own vertices and to its \<open>edges\<close> array, which holds newly created
  edge objects.
\<close>

theorem Polygon_initialize_frame:
  assumes "Polygon_initialize p h = (r, h')"
  shows "vertices (polygon_store h' p) = vertices (polygon_store h p) \<and>
         (\<forall>v. position (vertex_store h' v) = position (vertex_store h v)) \<and>
         (\<forall>v. v \<notin> set (vertices (polygon_store h p)) \<longrightarrow> vertex_store h' v = vertex_store h v) \<and>
         (\<forall>q. q \<noteq> p \<longrightarrow> polygon_store h' q = polygon_store h q) \<and>
         (\<forall>e. e < edge_count h \<longrightarrow> edge_store h' e = edge_store h e) \<and>
         vertex_count h' = vertex_count h \<and> polygon_count h' = polygon_count h"
  using initialize_frame_aux [OF assms] by simp

theorem Polygon_initialize_frame_witness:
  "Polygon_initialize 0 tri_heap = (Inr (), snd (Polygon_initialize 0 tri_heap)) \<and>
   vertices (polygon_store (snd (Polygon_initialize 0 tri_heap)) 0) = [0, 1, 2] \<and>
   position (vertex_store (snd (Polygon_initialize 0 tri_heap)) 1) = Vec 4 0 \<and>
   7 \<notin> set (vertices (polygon_store tri_heap 0)) \<and>
   vertex_store (snd (Polygon_initialize 0 tri_heap)) 7 = vertex_store tri_heap 7 \<and>
   (3::nat) \<noteq> 0 \<and>
   polygon_store (snd (Polygon_initialize 0 tri_heap)) 3 = polygon_store tri_heap 3 \<and>
   1 < edge_count tri_heap \<and>
   edge_store (snd (Polygon_initialize 0 tri_heap)) 1 = edge_store tri_heap 1"
proof -
  have run: "Polygon_initialize 0 tri_heap = (Inr (), snd (Polygon_initialize 0 tri_heap))"
    using tri_heap_reinitialize by (simp add: prod_eq_iff)
  have pos: "position (vertex_store tri_heap 1) = Vec 4 0"
    using tri_heap_pos(2) by (simp add: pos_of_def)
  from Polygon_initialize_frame [OF run] run pos show ?thesis
    by (simp add: tri_heap_polygon tri_heap_counts)
qed



section \<open>Failing preconditions raise at the call\<close>

lemma normalize_zero: "normalize_v (Vec 0 0) = Inl (Error ''Cannot normalize zero vector'')"
  by (simp add: normalize_v_def length_v_def Vec_def)

lemma EdgeEvent_new_reflex:
  assumes "isReflex h (v1 (edge_store h e)) = Inr True \<or> isReflex h (v2 (edge_store h e)) = Inr True"
  shows "\<exists>err. EdgeEvent_new h t e = Inl err"
proof (cases "Event_new t")
  case (Inl err)
  then show ?thesis by (simp add: EdgeEvent_new_def)
next
  case (Inr t')
  show ?thesis
  proof (cases "isReflex h (v1 (edge_store h e))")
    case (Inl err)
    with Inr show ?thesis by (simp add: EdgeEvent_new_def hasReflexEndpoint_def)
  next
    case r1: (Inr b)
    show ?thesis
    proof (cases b)
      case True
      with Inr r1 show ?thesis by (simp add: EdgeEvent_new_def hasReflexEndpoint_def)
    next
      case False
      with assms r1 have "isReflex h (v2 (edge_store h e)) = Inr True" by simp
      with Inr r1 False show ?thesis by (simp add: EdgeEvent_new_def hasReflexEndpoint_def)
    qed
  qed
qed

lemma SplitEvent_new_not_reflex:
  assumes "isReflex h v \<noteq> Inr True"
  shows "\<exists>err. SplitEvent_new h t v e x = Inl err"
proof (cases "Event_new t")
  case (Inl err)
  then show ?thesis by (simp add: SplitEvent_new_def)
next
  case (Inr t')
  show ?thesis
  proof (cases "isReflex h v")
    case (Inl err)
    with Inr show ?thesis by (simp add: SplitEvent_new_def)
  next
    case r: (Inr b)
    with assms have "\<not> b" by simp
    with Inr r show ?thesis by (simp add: SplitEvent_new_def)
  qed
qed

lemma SplitEvent_new_adjacent:
  assumes "isAdjacent h e v"
  shows "\<exists>err. SplitEvent_new h t v e x = Inl err"
proof (cases "isReflex h v = Inr True")
  case True
  show ?thesis
  proof (cases "Event_new t")
    case (Inl err)
    then show ?thesis by (simp add: SplitEvent_new_def)
  next
    case (Inr t')
    with True assms show ?thesis by (simp add: SplitEvent_new_def)
  qed
next
  case False
  then show ?thesis by (rule SplitEvent_new_not_reflex)
qed

text \<open>
  Claim C6. \<open>normalize\<close> of the zero vector raises the zero-vector error. The
  constructor of \<open>EdgeEvent\<close> raises when an endpoint of the edge is reflex, and the
  constructor of \<open>SplitEvent\<close> raises when the vertex is not reflex and when the edge
  is adjacent to the vertex. With a time that the base constructor accepts, the error
  is the one the respective test throws.
\<close>

theorem constructors_reject_invalid:
  "normalize_v (Vec 0 0) = Inl (Error ''Cannot normalize zero vector'') \<and>
   ((isReflex h (v1 (edge_store h e)) = Inr True \<or> isReflex h (v2 (edge_store h e)) = Inr True) \<longrightarrow>
      (\<exists>err. EdgeEvent_new h t e = Inl err)) \<and>
   (isReflex h v \<noteq> Inr True \<longrightarrow> (\<exists>err. SplitEvent_new h t v e x = Inl err)) \<and>
   (isAdjacent h e v \<longrightarrow> (\<exists>err. SplitEvent_new h t v e x = Inl err)) \<and>
   (Event_new t = Inr t' \<and> hasReflexEndpoint h e = Inr True \<longrightarrow>
      EdgeEvent_new h t e = Inl (Error ''Edge cannot have reflex vertices for edge event'')) \<and>
   (Event_new t = Inr t' \<and> isReflex h v = Inr False \<longrightarrow>
      SplitEvent_new h t v e x = Inl (Error ''Split events can only occur at reflex vertices'')) \<and>
   (Event_new t = Inr t' \<and> isReflex h v = Inr True \<and> isAdjacent h e v \<longrightarrow>
      SplitEvent_new h t v e x = Inl (Error ''Split edge cannot be adjacent to splitting vertex''))"
proof (intro conjI impI)
  show "normalize_v (Vec 0 0) = Inl (Error ''Cannot normalize zero vector'')"
    by (rule normalize_zero)
next
  assume "isReflex h (v1 (edge_store h e)) = Inr True \<or> isReflex h (v2 (edge_store h e)) = Inr True"
  then show "\<exists>err. EdgeEvent_new h t e = Inl err"
    by (rule EdgeEvent_new_reflex)
next
  assume "isReflex h v \<noteq> Inr True"
  then show "\<exists>err. SplitEvent_new h t v e x = Inl err"
    by (rule SplitEvent_new_not_reflex)
next
  assume "isAdjacent h e v"
  then show "\<exists>err. SplitEvent_new h t v e x = Inl err"
    by (rule SplitEvent_new_adjacent)
next
  assume "Event_new t = Inr t' \<and> hasReflexEndpoint h e = Inr True"
  then show "EdgeEvent_new h t e = Inl (Error ''Edge cannot have reflex vertices for edge event'')"
    by (simp add: EdgeEvent_new_def)
next
  assume "Event_new t = Inr t' \<and> isReflex h v = Inr False"
  then show "SplitEvent_new h t v e x = Inl (Error ''Split events can only occur at reflex vertices'')"
    by (simp add: SplitEvent_new_def)
next
  assume "Event_new t = Inr t' \<and> isReflex h v = Inr True \<and> isAdjacent h e v"
  then show "SplitEvent_new h t v e x = Inl (Error ''Split edge cannot be adjacent to splitting vertex'')"
    by (simp add: SplitEvent_new_def)
qed

theorem constructors_reject_invalid_witness:
  "isReflex tri_heap (v1 (edge_store tri_heap 0)) = Inr True \<and>
   EdgeEvent_new tri_heap (Finite 1) 0 = Inl (Error ''Edge cannot have reflex vertices for edge event'') \<and>
   isReflex cw_heap 0 \<noteq> Inr True \<and>
   SplitEvent_new cw_heap (Finite 1) 0 1 (Vec 1 1) =
     Inl (Error ''Split events can only occur at reflex vertices'') \<and>
   isAdjacent tri_heap 1 0 \<and>
   SplitEvent_new tri_heap (Finite 1) 0 1 (Vec 1 1) =
     Inl (Error ''Split edge cannot be adjacent to splitting vertex'')"
proof -
  have t: "Event_new (Finite 1) = Inr 1"
    by (simp add: Event_new_def)
  have r0: "isReflex tri_heap (v1 (edge_store tri_heap 0)) = Inr True"
    by (simp add: tri_heap_edges tri_heap_isReflex)
  then have hr: "hasReflexEndpoint tri_heap 0 = Inr True"
    by (simp add: hasReflexEndpoint_def)
  have adj: "isAdjacent tri_heap 1 0"
    by (simp add: isAdjacent_def tri_heap_edges tri_heap_links)
  note T1 = constructors_reject_invalid
    [where h = tri_heap and e = 0 and t = "Finite 1" and t' = 1,
      THEN conjunct2, THEN conjunct2, THEN conjunct2, THEN conjunct2, THEN conjunct1, rule_format]
  note T2 = constructors_reject_invalid
    [where h = cw_heap and v = 0 and t = "Finite 1" and t' = 1 and e = 1 and x = "Vec 1 1",
      THEN conjunct2, THEN conjunct2, THEN conjunct2, THEN conjunct2, THEN conjunct2,
      THEN conjunct1, rule_format]
  note T3 = constructors_reject_invalid
    [where h = tri_heap and v = 0 and t = "Finite 1" and t' = 1 and e = 1 and x = "Vec 1 1",
      THEN conjunct2, THEN conjunct2, THEN conjunct2, THEN conjunct2, THEN conjunct2,
      THEN conjunct2, rule_format]
  have a: "EdgeEvent_new tri_heap (Finite 1) 0 = Inl (Error ''Edge cannot have reflex vertices for edge event'')"
    using t hr by (intro T1 conjI)
  have b: "SplitEvent_new cw_heap (Finite 1) 0 1 (Vec 1 1) =
     Inl (Error ''Split events can only occur at reflex vertices'')"
    using t cw_heap_isReflex by (intro T2 conjI)
  have c: "SplitEvent_new tri_heap (Finite 1) 0 1 (Vec 1 1) =
     Inl (Error ''Split edge cannot be adjacent to splitting vertex'')"
    using t adj tri_heap_isReflex(1) by (intro T3 conjI)
  have nr: "isReflex cw_heap 0 \<noteq> Inr True"
    by (simp add: cw_heap_isReflex)
  show ?thesis
    by (intro conjI r0 a nr b adj c)
qed

section \<open>Revalidation of a split event\<close>




section \<open>Applying an edge event\<close>

lemma handleEdgeEvent_vertices:
  assumes "getCurrentPolygon w = Inr cur"
    and "findIndex (\<lambda>v. v = v1 (edge_store h e)) (vertices (polygon_store h cur)) = Some vi"
    and "findIndex (\<lambda>x. x = e) (edges (polygon_store h cur)) = Some ei"
  shows "vertices (polygon_store (snd (handleEdgeEvent w e h)) cur) =
           splice_delete vi 2 (vertices (polygon_store h cur))"
proof -
  let ?h2 = "upd_polygon cur (\<lambda>x. x\<lparr>edges := splice_delete ei 1 (edges x)\<rparr>)
               (upd_polygon cur (\<lambda>x. x\<lparr>vertices := splice_delete vi 2 (vertices x)\<rparr>) h)"
  have eq: "handleEdgeEvent w e h = Polygon_initialize cur ?h2"
    using assms by (simp add: handleEdgeEvent_def)
  obtain r h' where run: "Polygon_initialize cur ?h2 = (r, h')"
    by (cases "Polygon_initialize cur ?h2")
  from initialize_frame_aux(1) [OF run] eq run show ?thesis
    by simp
qed

lemma handleEdgeEvent_outcome:
  assumes "getCurrentPolygon w = Inr cur"
    and "findIndex (\<lambda>v. v = v1 (edge_store h e)) (vertices (polygon_store h cur)) = Some vi"
    and "findIndex (\<lambda>x. x = e) (edges (polygon_store h cur)) = Some ei"
    and "distinct (vertices (polygon_store h cur))"
    and "bisectors_ok (map (pos_of h) (splice_delete vi 2 (vertices (polygon_store h cur))))"
  shows "fst (handleEdgeEvent w e h) = Inr ()"
proof -
  let ?h2 = "upd_polygon cur (\<lambda>x. x\<lparr>edges := splice_delete ei 1 (edges x)\<rparr>)
               (upd_polygon cur (\<lambda>x. x\<lparr>vertices := splice_delete vi 2 (vertices x)\<rparr>) h)"
  have eq: "handleEdgeEvent w e h = Polygon_initialize cur ?h2"
    using assms by (simp add: handleEdgeEvent_def)
  have vs: "vertices (polygon_store ?h2 cur) = splice_delete vi 2 (vertices (polygon_store h cur))"
    by simp
  have d: "distinct (vertices (polygon_store ?h2 cur))"
    unfolding vs splice_delete_def using assms(4)
    by (simp add: set_take_disj_set_drop_if_distinct)
  have ok: "bisectors_ok (map (pos_of ?h2) (vertices (polygon_store ?h2 cur)))"
    unfolding vs using assms(5) by (simp add: pos_of_def cong: map_cong)
  from initialize_success [OF d ok] eq show ?thesis
    by simp
qed


subsection \<open>The U-shaped example\<close>

lemma u_nth:
  "length u_pts = 8"
  "u_pts ! 0 = Vec 2 2" "u_pts ! Suc 0 = Vec 2 4" "u_pts ! 2 = Vec 0 4" "u_pts ! 3 = Vec 0 0"
  "u_pts ! 4 = Vec 6 0" "u_pts ! 5 = Vec 6 4" "u_pts ! 6 = Vec 4 4" "u_pts ! 7 = Vec 4 2"
  by (simp_all add: u_pts_def)

lemma u_len: "3 \<le> length u_pts"
  by (simp add: u_nth)

lemma u_ok: "bisectors_ok u_pts"
  by (simp add: u_pts_def bisector_eval)

lemma u_run: "Polygon_new u_pts empty_heap = (fst (Polygon_new u_pts empty_heap), u_heap)"
  by (simp add: u_heap_def)

lemma u_new: "Polygon_new u_pts empty_heap = (Inr 0, u_heap)"
  using Polygon_new_props(12) [OF u_run u_len u_ok] u_run
  by (simp add: empty_heap_counts)

lemma u_heap_polygon:
  "polygon_store u_heap 0 =
     \<lparr>vertices = [0, Suc 0, 2, 3, 4, 5, 6, 7], edges = [0, Suc 0, 2, 3, 4, 5, 6, 7]\<rparr>"
  using Polygon_new_props(1) [OF u_run u_len]
  by (simp add: empty_heap_counts u_nth upt_rec)

lemma u_heap_counts:
  "vertex_count u_heap = 8" "edge_count u_heap = 8" "polygon_count u_heap = Suc 0"
  using Polygon_new_props(5,6,7) [OF u_run u_len]
  by (simp_all add: empty_heap_counts u_nth)

lemma u_heap_pos:
  "pos_of u_heap 0 = Vec 2 2" "pos_of u_heap (Suc 0) = Vec 2 4" "pos_of u_heap 2 = Vec 0 4"
  "pos_of u_heap 3 = Vec 0 0" "pos_of u_heap 4 = Vec 6 0" "pos_of u_heap 5 = Vec 6 4"
  "pos_of u_heap 6 = Vec 4 4" "pos_of u_heap 7 = Vec 4 2"
  using Polygon_new_props(2) [OF u_run u_len, of 0] Polygon_new_props(2) [OF u_run u_len, of 1]
    Polygon_new_props(2) [OF u_run u_len, of 2] Polygon_new_props(2) [OF u_run u_len, of 3]
    Polygon_new_props(2) [OF u_run u_len, of 4] Polygon_new_props(2) [OF u_run u_len, of 5]
    Polygon_new_props(2) [OF u_run u_len, of 6] Polygon_new_props(2) [OF u_run u_len, of 7]
  by (simp_all add: empty_heap_counts u_nth del: add_2_eq_Suc add_2_eq_Suc')

lemma u_heap_edges:
  "edge_store u_heap 0 = \<lparr>v1 = 0, v2 = Suc 0\<rparr>" "edge_store u_heap (Suc 0) = \<lparr>v1 = Suc 0, v2 = 2\<rparr>"
  "edge_store u_heap 2 = \<lparr>v1 = 2, v2 = 3\<rparr>" "edge_store u_heap 3 = \<lparr>v1 = 3, v2 = 4\<rparr>"
  "edge_store u_heap 4 = \<lparr>v1 = 4, v2 = 5\<rparr>" "edge_store u_heap 5 = \<lparr>v1 = 5, v2 = 6\<rparr>"
  "edge_store u_heap 6 = \<lparr>v1 = 6, v2 = 7\<rparr>" "edge_store u_heap 7 = \<lparr>v1 = 7, v2 = 0\<rparr>"
  using Polygon_new_props(4) [OF u_run u_len, of 0] Polygon_new_props(4) [OF u_run u_len, of 1]
    Polygon_new_props(4) [OF u_run u_len, of 2] Polygon_new_props(4) [OF u_run u_len, of 3]
    Polygon_new_props(4) [OF u_run u_len, of 4] Polygon_new_props(4) [OF u_run u_len, of 5]
    Polygon_new_props(4) [OF u_run u_len, of 6] Polygon_new_props(4) [OF u_run u_len, of 7]
  by (simp_all add: empty_heap_counts u_nth del: add_2_eq_Suc add_2_eq_Suc')

lemma u_heap_simple: "isSimple u_heap 0"
  by (simp add: isSimple_def u_heap_polygon Let_def upt_rec edges_intersect_def u_heap_edges
      u_heap_pos Vec_def sign_def)

lemma u_clone_pts: "map (pos_of u_heap) (vertices (polygon_store u_heap 0)) = u_pts"
  by (simp add: u_heap_polygon u_heap_pos u_pts_def)

lemma u_clone_run:
  "Polygon_new u_pts u_heap = (fst (Polygon_new u_pts u_heap), u_heap1)"
  by (simp add: u_heap1_def Wavefront_new_def u_heap_simple Polygon_clone_def u_clone_pts
      split: prod.splits sum.splits)

lemma u_wavefront_new: "Wavefront_new 0 u_heap = (Inr u_wavefront, u_heap1)"
  using Polygon_new_props(12) [OF u_clone_run u_len u_ok] u_clone_run
  by (simp add: Wavefront_new_def u_heap_simple Polygon_clone_def u_clone_pts u_heap_counts
      u_wavefront_def)

lemma u_heap1_polygon:
  "polygon_store u_heap1 (Suc 0) =
     \<lparr>vertices = [8, 9, 10, 11, 12, 13, 14, 15], edges = [8, 9, 10, 11, 12, 13, 14, 15]\<rparr>"
  using Polygon_new_props(1) [OF u_clone_run u_len]
  by (simp add: u_heap_counts u_nth upt_rec)

lemma u_heap1_pos:
  "pos_of u_heap1 8 = Vec 2 2" "pos_of u_heap1 9 = Vec 2 4" "pos_of u_heap1 10 = Vec 0 4"
  "pos_of u_heap1 11 = Vec 0 0" "pos_of u_heap1 12 = Vec 6 0" "pos_of u_heap1 13 = Vec 6 4"
  "pos_of u_heap1 14 = Vec 4 4" "pos_of u_heap1 15 = Vec 4 2"
  using Polygon_new_props(2) [OF u_clone_run u_len, of 0] Polygon_new_props(2) [OF u_clone_run u_len, of 1]
    Polygon_new_props(2) [OF u_clone_run u_len, of 2] Polygon_new_props(2) [OF u_clone_run u_len, of 3]
    Polygon_new_props(2) [OF u_clone_run u_len, of 4] Polygon_new_props(2) [OF u_clone_run u_len, of 5]
    Polygon_new_props(2) [OF u_clone_run u_len, of 6] Polygon_new_props(2) [OF u_clone_run u_len, of 7]
  by (simp_all add: u_heap_counts u_nth)

lemma u_heap1_links:
  "prev (vertex_store u_heap1 8) = Some 15" "nxt (vertex_store u_heap1 8) = Some 9"
  "prev (vertex_store u_heap1 15) = Some 14" "nxt (vertex_store u_heap1 15) = Some 8"
  using Polygon_new_props(3) [OF u_clone_run u_len, of 0] Polygon_new_props(3) [OF u_clone_run u_len, of 7]
  by (simp_all add: u_heap_counts u_nth)

lemma u_heap1_edge: "edge_store u_heap1 15 = \<lparr>v1 = 15, v2 = 8\<rparr>"
  using Polygon_new_props(4) [OF u_clone_run u_len, of 7]
  by (simp add: u_heap_counts u_nth)

lemma u_heap1_reflex: "isReflex u_heap1 15 = Inr False" "isReflex u_heap1 8 = Inr False"
  by (simp_all add: isReflex_def u_heap1_links u_heap1_pos cross_def Vec_def)

lemma u_event: "EdgeEvent_new u_heap1 (Finite 1) 15 = Inr (EdgeEvent 1 15)"
  by (simp add: EdgeEvent_new_def Event_new_def hasReflexEndpoint_def u_heap1_edge u_heap1_reflex)

lemma u_valid: "EdgeEvent_isStillValid u_heap1 u_wavefront 15 = Inr True"
  by (simp add: EdgeEvent_isStillValid_def getCurrentPolygon_def u_wavefront_def u_heap1_polygon
      u_heap1_edge hasReflexEndpoint_def u_heap1_reflex)

text \<open>
  Claim C1, evaluated on \<open>Wavefront.handleEdgeEvent\<close> at the wrap-around edge. On the
  U-shaped octagon the edge from the last vertex to the first has no reflex endpoint, an
  \<open>EdgeEvent\<close> on it can be constructed and passes revalidation, and \<open>process\<close>
  returns without error. Afterwards the vertex list of the current polygon has lost
  only the last vertex: the first vertex, which is the endpoint \<open>v2\<close> of the collapsed
  edge, is still a member. (\<open>splice(vertexIndex, 2)\<close> at the last index removes one
  element.) The claim says both endpoints are removed.
\<close>

theorem handleEdgeEvent_wraparound:
  "Wavefront_new 0 u_heap = (Inr u_wavefront, u_heap1) \<and>
   EdgeEvent_new u_heap1 (Finite 1) 15 = Inr (EdgeEvent 1 15) \<and>
   edge_store u_heap1 15 = \<lparr>v1 = 15, v2 = 8\<rparr> \<and>
   EdgeEvent_isStillValid u_heap1 u_wavefront 15 = Inr True \<and>
   fst (process u_wavefront (EdgeEvent 1 15) u_heap1) = Inr () \<and>
   vertices (polygon_store (snd (process u_wavefront (EdgeEvent 1 15) u_heap1)) 1) =
     [8, 9, 10, 11, 12, 13, 14]"
proof -
  have cur: "getCurrentPolygon u_wavefront = Inr (Suc 0)"
    by (simp add: getCurrentPolygon_def u_wavefront_def)
  have vi: "findIndex (\<lambda>v. v = v1 (edge_store u_heap1 15)) (vertices (polygon_store u_heap1 (Suc 0))) = Some 7"
    by (simp add: u_heap1_polygon u_heap1_edge)
  have ei: "findIndex (\<lambda>x. x = 15) (edges (polygon_store u_heap1 (Suc 0))) = Some 7"
    by (simp add: u_heap1_polygon)
  have p: "process u_wavefront (EdgeEvent 1 15) u_heap1 = handleEdgeEvent u_wavefront 15 u_heap1"
    by (simp add: EdgeEvent_process_def u_valid)
  have vs: "vertices (polygon_store (snd (handleEdgeEvent u_wavefront 15 u_heap1)) (Suc 0)) =
     [8, 9, 10, 11, 12, 13, 14]"
    unfolding handleEdgeEvent_vertices [OF cur vi ei]
    by (simp add: u_heap1_polygon splice_delete_def)
  have d: "distinct (vertices (polygon_store u_heap1 (Suc 0)))"
    by (simp add: u_heap1_polygon)
  have pts: "map (pos_of u_heap1) (splice_delete 7 2 (vertices (polygon_store u_heap1 (Suc 0)))) =
     [Vec 2 2, Vec 2 4, Vec 0 4, Vec 0 0, Vec 6 0, Vec 6 4, Vec 4 4]"
    by (simp add: u_heap1_polygon splice_delete_def u_heap1_pos)
  have ok: "bisectors_ok [Vec 2 2, Vec 2 4, Vec 0 4, Vec 0 0, Vec 6 0, Vec 6 4, Vec 4 4]"
    by (simp add: bisector_eval)
  have r: "fst (handleEdgeEvent u_wavefront 15 u_heap1) = Inr ()"
    by (rule handleEdgeEvent_outcome [OF cur vi ei d]) (simp only: pts ok)
  show ?thesis
    using u_wavefront_new u_event u_heap1_edge u_valid p vs r by simp
qed

theorem handleEdgeEvent_wraparound_witness:
  "v2 (edge_store u_heap1 15) = 8 \<and>
   8 \<in> set (vertices (polygon_store (snd (process u_wavefront (EdgeEvent 1 15) u_heap1)) 1))"
  using handleEdgeEvent_wraparound by simp
section \<open>Properties of the event queue\<close>

lemma add_Nil: "add ev [] = [ev]"
  by (simp add: add_def)

lemma add_Cons:
  "add ev (e # es) = (if time e > time ev then ev # e # es else e # add ev es)"
  by (simp add: add_def split: option.splits)

lemma set_add: "set (add ev q) = insert ev (set q)"
  by (induction q) (auto simp: add_Nil add_Cons)

lemma sorted_add: "sorted (map time q) \<Longrightarrow> sorted (map time (add ev q))"
  by (induction q) (auto simp: add_Nil add_Cons set_add)

lemma filter_add:
  "sorted (map time q) \<Longrightarrow>
   filter (\<lambda>e. time e = t) (add ev q) =
     filter (\<lambda>e. time e = t) q @ (if time ev = t then [ev] else [])"
proof (induction q)
  case Nil
  then show ?case by (simp add: add_Nil)
next
  case (Cons e es)
  show ?case
  proof (cases "time e > time ev")
    case True
    with Cons.prems have "\<forall>x\<in>set (e # es). time ev < time x"
      by fastforce
    then have "filter (\<lambda>x. time x = time ev) (e # es) = []"
      by (auto simp: filter_empty_conv)
    with True show ?thesis
      by (auto simp: add_Cons)
  next
    case False
    with Cons show ?thesis
      by (simp add: add_Cons)
  qed
qed

lemma sorted_add_all_aux: "sorted (map time q) \<Longrightarrow> sorted (map time (foldl (\<lambda>q e. add e q) q es))"
  by (induction es arbitrary: q) (simp_all add: sorted_add)

lemma filter_add_all_aux:
  "sorted (map time q) \<Longrightarrow>
   filter (\<lambda>e. time e = t) (foldl (\<lambda>q e. add e q) q es) =
     filter (\<lambda>e. time e = t) q @ filter (\<lambda>e. time e = t) es"
  by (induction es arbitrary: q) (simp_all add: sorted_add filter_add)

lemma length_add: "length (add ev q) = Suc (length q)"
  by (induction q) (simp_all add: add_Nil add_Cons)

lemma length_add_all_aux: "length (foldl (\<lambda>q e. add e q) q es) = length q + length es"
  by (induction es arbitrary: q) (simp_all add: length_add)

lemma polls_all: "polls (length q) q = (map Some q, [])"
  by (induction q) (simp_all add: poll_def)

text \<open>
  Claim C7. After any sequence of \<open>add\<close> calls on a new queue the queued events are in
  non-decreasing time order, events of equal time keep their insertion order, and nothing is
  lost or invented; successive \<open>poll\<close> calls return exactly this sequence and then the
  empty result; \<open>peek\<close> returns what the next \<open>poll\<close> would return and, being a read of
  \<open>events[0]\<close>, leaves the queue as it is.
\<close>

theorem EventQueue_ascending_stable:
  "sorted (map time (add_all es)) \<and>
   (\<forall>t. filter (\<lambda>e. time e = t) (add_all es) = filter (\<lambda>e. time e = t) es) \<and>
   length (add_all es) = length es \<and>
   polls (length es) (add_all es) = (map Some (add_all es), []) \<and>
   poll [] = (None, []) \<and>
   peek (add_all es) = fst (poll (add_all es))"
proof -
  have s: "sorted (map time (add_all es))"
    unfolding add_all_def by (rule sorted_add_all_aux) simp
  have f: "\<forall>t. filter (\<lambda>e. time e = t) (add_all es) = filter (\<lambda>e. time e = t) es"
    unfolding add_all_def by (simp add: filter_add_all_aux)
  have l: "length (add_all es) = length es"
    unfolding add_all_def by (simp add: length_add_all_aux)
  have p: "polls (length es) (add_all es) = (map Some (add_all es), [])"
    using polls_all [of "add_all es"] l by simp
  have k: "peek (add_all es) = fst (poll (add_all es))"
    by (simp add: peek_def poll_def split: list.splits)
  from s f l p k show ?thesis
    by (simp add: poll_def)
qed

theorem EventQueue_ascending_stable_witness:
  "polls 3 (add_all [EdgeEvent 5 0, EdgeEvent 1 1, EdgeEvent 3 2]) =
     ([Some (EdgeEvent 1 1), Some (EdgeEvent 3 2), Some (EdgeEvent 5 0)], []) \<and>
   sorted (map time (add_all [EdgeEvent 5 0, EdgeEvent 1 1, EdgeEvent 3 2])) \<and>
   add_all [EdgeEvent 2 0, SplitEvent 1 7 3 (Vec 0 0), EdgeEvent 2 1, EdgeEvent 1 4] =
     [SplitEvent 1 7 3 (Vec 0 0), EdgeEvent 1 4, EdgeEvent 2 0, EdgeEvent 2 1]"
proof -
  let ?es = "[EdgeEvent 5 0, EdgeEvent 1 1, EdgeEvent 3 2]"
  have e: "add_all ?es = [EdgeEvent 1 1, EdgeEvent 3 2, EdgeEvent 5 0]"
    by (simp add: add_all_def add_Nil add_Cons)
  have p: "polls (length ?es) (add_all ?es) = (map Some (add_all ?es), [])"
    and s: "sorted (map time (add_all ?es))"
    using EventQueue_ascending_stable [of ?es] by blast+
  have l: "length ?es = 3"
    by simp
  have t: "add_all [EdgeEvent 2 0, SplitEvent 1 7 3 (Vec 0 0), EdgeEvent 2 1, EdgeEvent 1 4] =
     [SplitEvent 1 7 3 (Vec 0 0), EdgeEvent 1 4, EdgeEvent 2 0, EdgeEvent 2 1]"
    by (simp add: add_all_def add_Nil add_Cons)
  from p s t show ?thesis
    unfolding l e by simp
qed
section \<open>Frame properties of the two skeleton classes\<close>

lemma keeps_refl [simp]: "keeps h0 h h"
  by (simp add: keeps_def)

lemma keeps_trans: "keeps h0 h h1 \<Longrightarrow> keeps h0 h1 h2 \<Longrightarrow> keeps h0 h h2"
  by (auto simp: keeps_def)

lemma keeps_weaken:
  "keeps h1 h h' \<Longrightarrow> vertex_count h0 \<le> vertex_count h1 \<Longrightarrow> edge_count h0 \<le> edge_count h1 \<Longrightarrow>
   polygon_count h0 \<le> polygon_count h1 \<Longrightarrow> keeps h0 h h'"
  by (auto simp: keeps_def)

lemma above_refl [simp]: "above h h"
  by (simp add: above_def)

lemma keeps_above: "keeps h0 h h' \<Longrightarrow> above h0 h \<Longrightarrow> above h0 h'"
  by (auto simp: keeps_def above_def)

lemma keeps_self: "keeps h h h' \<Longrightarrow> above h0 h \<Longrightarrow> keeps h0 h h'"
  by (auto simp: keeps_def above_def)

lemma new_Vertex_keeps: "keeps h h (snd (new_Vertex pos h))"
  by (simp add: keeps_def)

lemma new_Edge_keeps: "keeps h h (snd (new_Edge a b h))"
  by (simp add: keeps_def)

lemma Polygon_new_keeps: "Polygon_new pts h = (r, h') \<Longrightarrow> keeps h h h'"
proof (cases "length pts < 3")
  case True
  assume "Polygon_new pts h = (r, h')"
  with True show ?thesis by (simp add: Polygon_new_short)
next
  case False
  assume run: "Polygon_new pts h = (r, h')"
  from False have len: "3 \<le> length pts" by simp
  note P = Polygon_new_props [OF run len]
  show ?thesis
    unfolding keeps_def using P(5,6,7,8,9,10) by simp
qed

lemma Polygon_clone_keeps: "Polygon_clone p h = (r, h') \<Longrightarrow> keeps h h h'"
  unfolding Polygon_clone_def by (rule Polygon_new_keeps)

lemma initialize_keeps:
  assumes "Polygon_initialize p h = (r, h')"
    and "polygon_count h0 \<le> p"
    and "\<forall>v\<in>set (vertices (polygon_store h p)). vertex_count h0 \<le> v"
    and "edge_count h0 \<le> edge_count h"
  shows "keeps h0 h h'"
proof -
  note F = initialize_frame_aux [OF assms(1)]
  show ?thesis
    unfolding keeps_def
  proof (intro conjI allI impI)
    fix v assume "v < vertex_count h0"
    with assms(3) have "v \<notin> set (vertices (polygon_store h p))" by auto
    then show "vertex_store h' v = vertex_store h v" by (rule F(4))
  next
    fix e assume "e < edge_count h0"
    with assms(4) show "edge_store h' e = edge_store h e" by (simp add: F(6))
  next
    fix q assume "q < polygon_count h0"
    with assms(2) show "polygon_store h' q = polygon_store h q" by (simp add: F(5))
  qed (simp_all add: F)
qed

lemma owned_iff:
  "owned h0 h p \<longleftrightarrow> polygon_count h0 \<le> p \<and> p < polygon_count h \<and>
     (\<forall>v\<in>set (vertices (polygon_store h p)). vertex_count h0 \<le> v) \<and> above h0 h"
  by (simp add: owned_def list_all_iff)

lemma initialize_owned:
  assumes "Polygon_initialize p h = (r, h')" and "owned h0 h p"
  shows "keeps h0 h h' \<and> owned h0 h' p"
proof -
  from assms(2) have o: "polygon_count h0 \<le> p"
    "\<forall>v\<in>set (vertices (polygon_store h p)). vertex_count h0 \<le> v" "above h0 h"
    by (simp_all add: owned_iff)
  from o(3) have e: "edge_count h0 \<le> edge_count h" by (simp add: above_def)
  have k: "keeps h0 h h'"
    by (rule initialize_keeps [OF assms(1) o(1) o(2) e])
  have "vertices (polygon_store h' p) = vertices (polygon_store h p)"
    by (rule initialize_frame_aux(1) [OF assms(1)])
  moreover have "polygon_count h' = polygon_count h"
    by (rule initialize_frame_aux(9) [OF assms(1)])
  moreover have "p < polygon_count h"
    using assms(2) by (simp add: owned_iff)
  ultimately show ?thesis
    using o k keeps_above [OF k o(3)] by (simp add: owned_iff)
qed

lemma set_splice_delete: "set (splice_delete i k xs) \<subseteq> set xs"
  unfolding splice_delete_def
  by (auto dest: in_set_takeD in_set_dropD)

lemma set_splice_insert: "set (splice_insert i x xs) = insert x (set xs)"
proof -
  have "set (take i xs) \<union> set (drop i xs) = set xs"
    by (metis append_take_drop_id set_append)
  then show ?thesis
    unfolding splice_insert_def by auto
qed

lemma owned_upd_edges:
  "owned h0 h p \<Longrightarrow> owned h0 (upd_polygon q (\<lambda>x. x\<lparr>edges := es\<rparr>) h) p"
  by (simp add: owned_iff above_def)

lemma handleEdgeEvent_owned:
  assumes "handleEdgeEvent w e h = (r, h')" and "getCurrentPolygon w = Inr cur" and "owned h0 h cur"
  shows "keeps h0 h h' \<and> owned h0 h' cur"
proof (cases "\<exists>vi ei. findIndex (\<lambda>v. v = v1 (edge_store h e)) (vertices (polygon_store h cur)) = Some vi \<and>
                findIndex (\<lambda>x. x = e) (edges (polygon_store h cur)) = Some ei")
  case False
  with assms(1,2) have "h' = h"
    by (auto simp: handleEdgeEvent_def split: option.splits)
  with assms(3) show ?thesis by simp
next
  case True
  then obtain vi ei where
    vi: "findIndex (\<lambda>v. v = v1 (edge_store h e)) (vertices (polygon_store h cur)) = Some vi" and
    ei: "findIndex (\<lambda>x. x = e) (edges (polygon_store h cur)) = Some ei"
    by blast
  let ?h1 = "upd_polygon cur (\<lambda>x. x\<lparr>vertices := splice_delete vi 2 (vertices x)\<rparr>) h"
  let ?h2 = "upd_polygon cur (\<lambda>x. x\<lparr>edges := splice_delete ei 1 (edges x)\<rparr>) ?h1"
  from assms(1,2) vi ei have run: "Polygon_initialize cur ?h2 = (r, h')"
    by (simp add: handleEdgeEvent_def)
  from assms(3) have o: "polygon_count h0 \<le> cur"
    "\<forall>v\<in>set (vertices (polygon_store h cur)). vertex_count h0 \<le> v" "above h0 h"
    "cur < polygon_count h"
    by (simp_all add: owned_iff)
  have o2: "owned h0 ?h2 cur"
    using o set_splice_delete [of vi 2 "vertices (polygon_store h cur)"]
    by (auto simp: owned_iff above_def)
  have k2: "keeps h0 h ?h2"
    using o(1) by (simp add: keeps_def)
  from initialize_owned [OF run o2] k2 show ?thesis
    by (blast intro: keeps_trans)
qed

lemma handleSplitEvent_owned:
  assumes "handleSplitEvent w v e x h = (r, h')" and "getCurrentPolygon w = Inr cur" and "owned h0 h cur"
  shows "keeps h0 h h' \<and> owned h0 h' cur"
proof -
  let ?nv = "vertex_count h"
  let ?h1 = "snd (new_Vertex x h)"
  from assms(3) have o: "polygon_count h0 \<le> cur"
    "\<forall>u\<in>set (vertices (polygon_store h cur)). vertex_count h0 \<le> u" "above h0 h"
    "cur < polygon_count h"
    by (simp_all add: owned_iff)
  have k1: "keeps h0 h ?h1"
    using o(3) by (simp add: keeps_def above_def)
  have o1: "owned h0 ?h1 cur"
    using o by (simp add: owned_iff above_def)
  show ?thesis
  proof (cases "\<exists>ei vi. findIndex (\<lambda>y. y = e) (edges (polygon_store h cur)) = Some ei \<and>
                  findIndex (\<lambda>y. y = v) (vertices (polygon_store h cur)) = Some vi")
    case False
    with assms(1,2) have "h' = ?h1"
      by (auto simp: handleSplitEvent_def new_Vertex_def split: option.splits)
    with k1 o1 show ?thesis by simp
  next
    case True
    then obtain ei vi where
      ei: "findIndex (\<lambda>y. y = e) (edges (polygon_store h cur)) = Some ei" and
      vi: "findIndex (\<lambda>y. y = v) (vertices (polygon_store h cur)) = Some vi"
      by blast
    let ?h2 = "upd_polygon cur (\<lambda>y. y\<lparr>vertices := splice_insert (vi + 1) ?nv (vertices y)\<rparr>) ?h1"
    let ?h3 = "snd (new_Edge v ?nv ?h2)"
    let ?h4 = "upd_polygon cur (\<lambda>y. y\<lparr>edges := splice_insert (ei + 1) (edge_count ?h2) (edges y)\<rparr>) ?h3"
    from assms(1,2) vi ei have run: "Polygon_initialize cur ?h4 = (r, h')"
      by (simp add: handleSplitEvent_def new_Vertex_def new_Edge_def Let_def)
    have nv: "vertex_count h0 \<le> ?nv"
      using o(3) by (simp add: above_def)
    have o4: "owned h0 ?h4 cur"
      using o nv by (auto simp: owned_iff above_def set_splice_insert)
    have k4: "keeps h0 h ?h4"
      using o(1) o(3) by (simp add: keeps_def above_def)
    from initialize_owned [OF run o4] k4 show ?thesis
      by (blast intro: keeps_trans)
  qed
qed

lemma process_owned:
  assumes "process w ev h = (r, h')" and "getCurrentPolygon w = Inr cur" and "owned h0 h cur"
  shows "keeps h0 h h' \<and> owned h0 h' cur"
proof (cases ev)
  case (EdgeEvent t e)
  show ?thesis
  proof (cases "EdgeEvent_isStillValid h w e = Inr True")
    case True
    with assms(1) EdgeEvent have "handleEdgeEvent w e h = (r, h')"
      by (simp add: EdgeEvent_process_def)
    from handleEdgeEvent_owned [OF this assms(2,3)] show ?thesis .
  next
    case False
    with assms(1) EdgeEvent have "h' = h"
      by (auto simp: EdgeEvent_process_def split: sum.splits bool.splits)
    with assms(3) show ?thesis by simp
  qed
next
  case (SplitEvent t v e x)
  show ?thesis
  proof (cases "SplitEvent_isStillValid h w v e x = Inr True")
    case True
    with assms(1) SplitEvent have "handleSplitEvent w v e x h = (r, h')"
      by (simp add: SplitEvent_process_def)
    from handleSplitEvent_owned [OF this assms(2,3)] show ?thesis .
  next
    case False
    with assms(1) SplitEvent have "h' = h"
      by (auto simp: SplitEvent_process_def split: sum.splits bool.splits)
    with assms(3) show ?thesis by simp
  qed
qed

lemma updateEvents_wavefront: "updateEvents h sk = Inr sk' \<Longrightarrow> wavefront sk' = wavefront sk"
  by (auto simp: updateEvents_def split: sum.splits)

lemma compute_keeps:
  "compute n sk h = (r, sk', h') \<Longrightarrow> getCurrentPolygon (wavefront sk) = Inr cur \<Longrightarrow>
   owned h0 h cur \<Longrightarrow> keeps h0 h h'"
proof (induction n arbitrary: sk h)
  case 0
  then show ?case by (simp split: if_splits)
next
  case (Suc n)
  show ?case
  proof (cases "eventQueue sk")
    case Nil
    with Suc.prems(1) show ?thesis by (simp add: isEmpty_def)
  next
    case (Cons ev q)
    obtain r1 h1 where p: "process (wavefront sk) ev h = (r1, h1)"
      by (cases "process (wavefront sk) ev h")
    from process_owned [OF p Suc.prems(2,3)] have k1: "keeps h0 h h1" and o1: "owned h0 h1 cur"
      by simp_all
    show ?thesis
    proof (cases "\<exists>sk1. r1 = Inr () \<and> validateState h1 (wavefront sk) = Inr True \<and>
                    updateEvents h1 (sk\<lparr>eventQueue := q\<rparr>) = Inr sk1")
      case False
      with Suc.prems(1) Cons p have "h' = h1"
        by (auto simp: isEmpty_def poll_def split: sum.splits bool.splits)
      with k1 show ?thesis by simp
    next
      case True
      then obtain sk1 where ok: "r1 = Inr ()" "validateState h1 (wavefront sk) = Inr True"
        "updateEvents h1 (sk\<lparr>eventQueue := q\<rparr>) = Inr sk1"
        by blast
      with Suc.prems(1) Cons p have rec: "compute n sk1 h1 = (r, sk', h')"
        by (simp add: isEmpty_def poll_def)
      have w1: "getCurrentPolygon (wavefront sk1) = Inr cur"
        using updateEvents_wavefront [OF ok(3)] Suc.prems(2) by simp
      from Suc.IH [OF rec w1 o1] k1 show ?thesis
        by (blast intro: keeps_trans)
    qed
  qed
qed

lemma Polygon_new_owned:
  assumes "Polygon_new pts h = (Inr p, h')"
  shows "owned h h' p \<and> keeps h h h'"
proof -
  have len: "3 \<le> length pts"
    using assms by (cases "length pts < 3") (simp_all add: Polygon_new_short)
  note P = Polygon_new_props [OF assms len]
  from P(11) have p: "p = polygon_count h" by simp
  have "vertices (polygon_store h' p) = [vertex_count h..<vertex_count h + length pts]"
    using P(1) p by simp
  then show ?thesis
    using p P(5,6,7) Polygon_new_keeps [OF assms]
    by (simp add: owned_iff above_def)
qed

lemma Wavefront_new_owned:
  assumes "Wavefront_new original h = (r, h')"
  shows "keeps h h h'"
    and "r = Inr w \<Longrightarrow> \<exists>cur. getCurrentPolygon w = Inr cur \<and> owned h h' cur"
proof -
  show "keeps h h h'"
  proof (cases "isSimple h original")
    case False
    with assms show ?thesis by (simp add: Wavefront_new_def)
  next
    case True
    obtain r1 h1 where c: "Polygon_clone original h = (r1, h1)"
      by (cases "Polygon_clone original h")
    with assms True have "h' = h1"
      by (auto simp: Wavefront_new_def split: sum.splits)
    with Polygon_clone_keeps [OF c] show ?thesis by simp
  qed
  show "r = Inr w \<Longrightarrow> \<exists>cur. getCurrentPolygon w = Inr cur \<and> owned h h' cur"
  proof -
    assume r: "r = Inr w"
    with assms have s: "isSimple h original"
      by (auto simp: Wavefront_new_def split: if_splits)
    obtain r1 h1 where c: "Polygon_clone original h = (r1, h1)"
      by (cases "Polygon_clone original h")
    with assms s r obtain p where p: "r1 = Inr p" "w = \<lparr>polygons = [p], times = [0]\<rparr>" "h' = h1"
      by (auto simp: Wavefront_new_def split: sum.splits)
    from c p(1) have "Polygon_new (map (pos_of h) (vertices (polygon_store h original))) h = (Inr p, h1)"
      by (simp add: Polygon_clone_def)
    from Polygon_new_owned [OF this] p show ?thesis
      by (simp add: getCurrentPolygon_def)
  qed
qed

lemma Skeleton_new_owned:
  assumes "Skeleton_new polygon h = (r, h')"
  shows "keeps h h h'"
    and "r = Inr sk \<Longrightarrow> \<exists>cur. getCurrentPolygon (wavefront sk) = Inr cur \<and> owned h h' cur"
proof -
  obtain r1 h1 where w: "Wavefront_new polygon h = (r1, h1)"
    by (cases "Wavefront_new polygon h")
  have h': "h' = h \<or> h' = h1"
    using assms w by (auto simp: Skeleton_new_def split: if_splits sum.splits)
  with Wavefront_new_owned(1) [OF w] show "keeps h h h'"
    by auto
  show "r = Inr sk \<Longrightarrow> \<exists>cur. getCurrentPolygon (wavefront sk) = Inr cur \<and> owned h h' cur"
  proof -
    assume "r = Inr sk"
    with assms w have "r1 = Inr (wavefront sk)" "h' = h1"
      by (auto simp: Skeleton_new_def split: if_splits sum.splits)
    with Wavefront_new_owned(2) [OF w] show ?thesis
      by simp
  qed
qed

lemma build_compute_keeps:
  assumes "build polygon h = (Inr sk, h1)" and "compute n sk h1 = (r, sk', h2)"
  shows "keeps h h h2"
proof -
  from assms(1) have s: "Skeleton_new polygon h = (Inr sk, h1)"
    by (simp add: build_def)
  from Skeleton_new_owned [OF s] obtain cur where
    k: "keeps h h h1" and c: "getCurrentPolygon (wavefront sk) = Inr cur" and o: "owned h h1 cur"
    by blast
  from compute_keeps [OF assms(2) c o] k show ?thesis
    by (blast intro: keeps_trans)
qed

subsection \<open>the second class\<close>

lemma computeInitialBisectors_keeps:
  "computeInitialBisectors vs sk h = (r, sk', h') \<Longrightarrow>
     keeps h h h' \<and> wavefrontPolygons sk' = wavefrontPolygons sk \<and>
     T_eventQueue sk' = T_eventQueue sk \<and> skeletonEdges sk' = skeletonEdges sk \<and>
     polygon_store h' = polygon_store h"
proof (induction vs arbitrary: sk h)
  case Nil
  then show ?case by simp
next
  case (Cons v vs)
  show ?case
  proof (cases "\<exists>b. prev (vertex_store h v) \<noteq> None \<and> nxt (vertex_store h v) \<noteq> None \<and>
                 calculateBisector h v = Inr b \<and> \<not> \<bar>length_v b - 1\<bar> > NUMERICAL_TOLERANCE")
    case False
    with Cons.prems have "h' = h \<and> sk' = sk"
      by (auto split: sum.splits if_splits)
    then show ?thesis by simp
  next
    case True
    then obtain b where b: "prev (vertex_store h v) \<noteq> None" "nxt (vertex_store h v) \<noteq> None"
      "calculateBisector h v = Inr b" "\<not> \<bar>length_v b - 1\<bar> > NUMERICAL_TOLERANCE"
      by blast
    let ?h1 = "snd (new_Vertex (pos_of h v) h)"
    let ?h2 = "snd (new_Vertex (plus_v (pos_of h v) (scale b 10)) ?h1)"
    let ?h3 = "snd (new_Edge (vertex_count h) (vertex_count ?h1) ?h2)"
    let ?sk1 = "sk\<lparr>angleBisectorEdges := angleBisectorEdges sk @ [edge_count ?h2]\<rparr>"
    from Cons.prems b have rec: "computeInitialBisectors vs ?sk1 ?h3 = (r, sk', h')"
      by (simp add: Let_def new_Vertex_def new_Edge_def)
    have k3: "keeps h h ?h3"
      by (simp add: keeps_def)
    have a3: "above h ?h3"
      by (simp add: above_def)
    from Cons.IH [OF rec] have k: "keeps ?h3 ?h3 h'" and rest:
      "wavefrontPolygons sk' = wavefrontPolygons sk" "T_eventQueue sk' = T_eventQueue sk"
      "skeletonEdges sk' = skeletonEdges sk" "polygon_store h' = polygon_store h"
      by simp_all
    from k a3 have "keeps h ?h3 h'"
      by (auto simp: keeps_def above_def)
    with k3 rest show ?thesis
      by (blast intro: keeps_trans)
  qed
qed

lemma T_initialize_keeps:
  assumes "T_initialize polygon sk h = (r, sk', h')"
  shows "keeps h h h' \<and> wavefrontPolygons sk' = wavefrontPolygons sk \<and> polygon_store h' = polygon_store h"
proof -
  obtain r1 sk1 h1 where c: "computeInitialBisectors (vertices (polygon_store h polygon)) sk h = (r1, sk1, h1)"
    by (cases "computeInitialBisectors (vertices (polygon_store h polygon)) sk h") auto
  from assms c have "h' = h1 \<and> wavefrontPolygons sk' = wavefrontPolygons sk1"
    by (auto simp: T_initialize_def split: sum.splits)
  with computeInitialBisectors_keeps [OF c] show ?thesis
    by simp
qed

lemma owned_weaken: "owned h1 h' p \<Longrightarrow> above h0 h1 \<Longrightarrow> owned h0 h' p"
  by (auto simp: owned_iff above_def)

lemma T_current_skeletonEdges [simp]:
  "T_getCurrentPolygon (sk\<lparr>skeletonEdges := es\<rparr>) = T_getCurrentPolygon sk"
  by (simp add: T_getCurrentPolygon_def)

lemma T_current_queue [simp]:
  "T_getCurrentPolygon (sk\<lparr>T_eventQueue := q\<rparr>) = T_getCurrentPolygon sk"
  by (simp add: T_getCurrentPolygon_def)

lemma T_owned_queue [simp]: "T_owned h0 h (sk\<lparr>T_eventQueue := q\<rparr>) = T_owned h0 h sk"
  by (simp add: T_owned_def)

lemma T_owned_skeletonEdges [simp]: "T_owned h0 h (sk\<lparr>skeletonEdges := q\<rparr>) = T_owned h0 h sk"
  by (simp add: T_owned_def)

lemma T_handleEdgeEvent_owned:
  assumes "T_handleEdgeEvent t e sk h = (r, sk', h')" and "T_owned h0 h sk"
  shows "keeps h0 h h' \<and> T_owned h0 h' sk' \<and> wavefrontPolygons sk' = wavefrontPolygons sk"
proof (cases "validateEventState h sk (EdgeEvent t e)")
  case False
  with assms show ?thesis by (simp add: T_handleEdgeEvent_def)
next
  case True
  then obtain cur where cur: "T_getCurrentPolygon sk = Some cur"
    by (auto split: option.splits)
  with assms(2) have o: "owned h0 h cur" and a: "above h0 h"
    by (simp_all add: T_owned_def)
  let ?h1 = "snd (Edge_clone e h)"
  let ?sk1 = "sk\<lparr>skeletonEdges := skeletonEdges sk @ [edge_count h]\<rparr>"
  let ?a = "v1 (edge_store ?h1 e)"
  let ?b = "v2 (edge_store ?h1 e)"
  let ?h2 = "upd_polygon cur (\<lambda>y. y\<lparr>vertices := filter (\<lambda>v. v \<noteq> ?a \<and> v \<noteq> ?b) (vertices y)\<rparr>) ?h1"
  let ?h3 = "upd_polygon cur (\<lambda>y. y\<lparr>edges := filter (\<lambda>x. x \<noteq> e) (edges y)\<rparr>) ?h2"
  obtain r0 h4 where run: "Polygon_initialize cur ?h3 = (r0, h4)"
    by (cases "Polygon_initialize cur ?h3")
  from assms(1) True cur run have res: "h' = h4" "sk' = ?sk1"
    by (auto simp: T_handleEdgeEvent_def Edge_clone_def new_Edge_def Let_def split: sum.splits)
  have o3: "owned h0 ?h3 cur"
    using o by (auto simp: owned_iff above_def Edge_clone_def)
  have k3: "keeps h0 h ?h3"
    using o a by (simp add: keeps_def owned_iff above_def Edge_clone_def)
  from initialize_owned [OF run o3] have k: "keeps h0 ?h3 h4" and o4: "owned h0 h4 cur"
    by simp_all
  have "above h0 h4"
    using o4 by (simp add: owned_iff)
  with k3 k o4 cur res show ?thesis
    by (auto simp: T_owned_def intro: keeps_trans)
qed

lemma T_handleSplitEvent_owned:
  assumes "T_handleSplitEvent t v e x sk h = (r, sk', h')" and "T_owned h0 h sk"
  shows "keeps h0 h h' \<and> T_owned h0 h' sk' \<and> wavefrontPolygons sk' = wavefrontPolygons sk"
proof (cases "validateEventState h sk (SplitEvent t v e x)")
  case False
  with assms show ?thesis by (simp add: T_handleSplitEvent_def)
next
  case True
  then obtain cur where cur: "T_getCurrentPolygon sk = Some cur"
    by (auto split: option.splits)
  with assms(2) have o: "owned h0 h cur" and a: "above h0 h"
    by (simp_all add: T_owned_def)
  let ?h1 = "snd (new_Vertex (pos_of h v) h)"
  let ?h2 = "snd (new_Vertex x ?h1)"
  let ?h3 = "snd (new_Edge (vertex_count h) (vertex_count ?h1) ?h2)"
  let ?sk1 = "sk\<lparr>skeletonEdges := skeletonEdges sk @ [edge_count ?h2]\<rparr>"
  let ?h4 = "snd (new_Vertex x ?h3)"
  let ?nv = "vertex_count ?h3"
  have k4: "keeps h0 h ?h4"
    using a by (simp add: keeps_def above_def)
  have o4: "owned h0 ?h4 cur"
    using o by (auto simp: owned_iff above_def)
  have nv: "vertex_count h0 \<le> ?nv"
    using a by (simp add: above_def)
  show ?thesis
  proof (cases "\<exists>ei vi. findIndex (\<lambda>y. y = e) (edges (polygon_store h cur)) = Some ei \<and>
                  findIndex (\<lambda>y. y = v) (vertices (polygon_store h cur)) = Some vi")
    case False
    with assms(1) True cur have "h' = ?h4 \<and> sk' = ?sk1"
      by (auto simp: T_handleSplitEvent_def new_Vertex_def new_Edge_def Let_def split: option.splits)
    with k4 o4 cur show ?thesis
      by (simp add: T_owned_def owned_iff)
  next
    case found: True
    then obtain ei vi where
      ei: "findIndex (\<lambda>y. y = e) (edges (polygon_store h cur)) = Some ei" and
      vi: "findIndex (\<lambda>y. y = v) (vertices (polygon_store h cur)) = Some vi"
      by blast
    let ?h5 = "upd_polygon cur (\<lambda>y. y\<lparr>vertices := splice_insert (vi + 1) ?nv (vertices y)\<rparr>) ?h4"
    let ?h6 = "snd (new_Edge v ?nv ?h5)"
    let ?h7 = "upd_polygon cur (\<lambda>y. y\<lparr>edges := splice_insert (ei + 1) (edge_count ?h5) (edges y)\<rparr>) ?h6"
    obtain r0 h8 where run: "Polygon_initialize cur ?h7 = (r0, h8)"
      by (cases "Polygon_initialize cur ?h7")
    from assms(1) True cur ei vi run have res: "h' = h8" "sk' = ?sk1"
      by (auto simp: T_handleSplitEvent_def new_Vertex_def new_Edge_def Let_def split: sum.splits)
    have o7: "owned h0 ?h7 cur"
      using o nv by (auto simp: owned_iff above_def set_splice_insert)
    have k7: "keeps h0 h ?h7"
      using o a by (simp add: keeps_def owned_iff above_def)
    from initialize_owned [OF run o7] have k: "keeps h0 ?h7 h8" and o8: "owned h0 h8 cur"
      by simp_all
    have "above h0 h8"
      using o8 by (simp add: owned_iff)
    with k7 k o8 cur res show ?thesis
      by (auto simp: T_owned_def intro: keeps_trans)
  qed
qed

lemma T_handle_owned:
  assumes "T_handle ev sk h = (r, sk', h')" and "T_owned h0 h sk"
  shows "keeps h0 h h' \<and> T_owned h0 h' sk' \<and> wavefrontPolygons sk' = wavefrontPolygons sk"
  using assms
  by (cases ev) (auto dest: T_handleEdgeEvent_owned T_handleSplitEvent_owned)

lemma T_process_body_owned:
  assumes "T_process_body ev sk h = (r, sk', h')" and "T_owned h0 h sk"
  shows "keeps h0 h h' \<and> T_owned h0 h' sk'"
proof -
  obtain r1 sk1 h1 where hd: "T_handle ev sk h = (r1, sk1, h1)"
    by (cases "T_handle ev sk h") auto
  from T_handle_owned [OF hd assms(2)] have k1: "keeps h0 h h1" and o1: "T_owned h0 h1 sk1"
    by simp_all
  show ?thesis
  proof (cases "\<exists>cur. r1 = Inr () \<and> T_getCurrentPolygon sk1 = Some cur")
    case False
    with assms(1) hd have "h' = h1 \<and> sk' = sk1"
      by (auto simp: T_process_body_def split: sum.splits option.splits)
    with k1 o1 show ?thesis by simp
  next
    case True
    then obtain cur where c: "r1 = Inr ()" "T_getCurrentPolygon sk1 = Some cur"
      by blast
    obtain r2 h2 where cl: "Polygon_clone cur h1 = (r2, h2)"
      by (cases "Polygon_clone cur h1")
    from o1 have a1: "above h0 h1"
      by (simp add: T_owned_def)
    from Polygon_clone_keeps [OF cl] a1 have k2: "keeps h0 h1 h2"
      by (rule keeps_self)
    have a2: "above h0 h2"
      by (rule keeps_above [OF k2 a1])
    show ?thesis
    proof (cases r2)
      case (Inl err)
      with assms(1) hd c cl have "h' = h2 \<and> sk' = sk1"
        by (simp add: T_process_body_def)
      moreover have "T_owned h0 h2 sk1"
        using o1 c(2) Polygon_clone_keeps [OF cl] a2
        by (auto simp: T_owned_def owned_iff keeps_def)
      ultimately show ?thesis
        using k1 k2 by (blast intro: keeps_trans)
    next
      case (Inr p)
      with assms(1) hd c cl have res: "h' = h2" "sk' = sk1\<lparr>wavefrontPolygons := wavefrontPolygons sk1 @ [p]\<rparr>"
        by (simp_all add: T_process_body_def)
      from cl Inr have "Polygon_new (map (pos_of h1) (vertices (polygon_store h1 cur))) h1 = (Inr p, h2)"
        by (simp add: Polygon_clone_def)
      from Polygon_new_owned [OF this] have "owned h1 h2 p" by simp
      then have "owned h0 h2 p"
        using a1 by (rule owned_weaken)
      then have "T_owned h0 h2 sk'"
        using a2 res by (simp add: T_owned_def T_getCurrentPolygon_def)
      with res k1 k2 show ?thesis
        by (blast intro: keeps_trans)
    qed
  qed
qed

lemma processEvents_loop_keeps:
  "processEvents_loop q sk h = (sk', h') \<Longrightarrow> T_owned h0 h sk \<Longrightarrow> keeps h0 h h'"
proof (induction q arbitrary: sk h)
  case Nil
  then show ?case by simp
next
  case (Cons ev q)
  obtain r sk1 h1 where b: "T_process_body ev (sk\<lparr>T_eventQueue := q\<rparr>) h = (r, sk1, h1)"
    by (cases "T_process_body ev (sk\<lparr>T_eventQueue := q\<rparr>) h") auto
  from Cons.prems(2) have "T_owned h0 h (sk\<lparr>T_eventQueue := q\<rparr>)"
    by simp
  from T_process_body_owned [OF b this] have k1: "keeps h0 h h1" and o1: "T_owned h0 h1 sk1"
    by simp_all
  from Cons.prems(1) b have "processEvents_loop q sk1 h1 = (sk', h')"
    by simp
  from Cons.IH [OF this o1] k1 show ?case
    by (blast intro: keeps_trans)
qed

lemma T_Skeleton_new_owned:
  assumes "T_Skeleton_new polygon h = (r, h')"
  shows "keeps h h h'" and "r = Inr sk \<Longrightarrow> T_owned h h' sk"
proof -
  show "keeps h h h'"
  proof (cases "validateInputPolygon h polygon")
    case (Inl err)
    with assms show ?thesis by (simp add: T_Skeleton_new_def)
  next
    case (Inr u)
    obtain r1 h1 where cl: "Polygon_clone polygon h = (r1, h1)"
      by (cases "Polygon_clone polygon h")
    note k1 = Polygon_clone_keeps [OF cl]
    show ?thesis
    proof (cases r1)
      case (Inl err)
      with assms Inr cl have "h' = h1" by (simp add: T_Skeleton_new_def)
      with k1 show ?thesis by simp
    next
      case c: (Inr c)
      let ?sk0 = "\<lparr>T_eventQueue = [], wavefrontPolygons = [c], angleBisectorEdges = [], skeletonEdges = []\<rparr>"
      obtain r2 sk2 h2 where ti: "T_initialize polygon ?sk0 h1 = (r2, sk2, h2)"
        by (cases "T_initialize polygon ?sk0 h1") auto
      from assms Inr cl c ti have "h' = h2"
        by (auto simp: T_Skeleton_new_def split: sum.splits)
      moreover have "keeps h h1 h2"
        using T_initialize_keeps [OF ti] k1
        by (auto simp: keeps_def)
      ultimately show ?thesis
        using k1 by (blast intro: keeps_trans)
    qed
  qed
  show "r = Inr sk \<Longrightarrow> T_owned h h' sk"
  proof -
    assume r: "r = Inr sk"
    from assms r obtain u where v: "validateInputPolygon h polygon = Inr u"
      by (cases "validateInputPolygon h polygon") (auto simp: T_Skeleton_new_def)
    obtain r1 h1 where cl: "Polygon_clone polygon h = (r1, h1)"
      by (cases "Polygon_clone polygon h")
    from assms r v cl obtain c where c: "r1 = Inr c"
      by (cases r1) (auto simp: T_Skeleton_new_def)
    let ?sk0 = "\<lparr>T_eventQueue = [], wavefrontPolygons = [c], angleBisectorEdges = [], skeletonEdges = []\<rparr>"
    obtain r2 sk2 h2 where ti: "T_initialize polygon ?sk0 h1 = (r2, sk2, h2)"
      by (cases "T_initialize polygon ?sk0 h1") auto
    from assms r v cl c ti have res: "h' = h2" "sk = sk2"
      by (auto simp: T_Skeleton_new_def split: sum.splits)
    from cl c have "Polygon_new (map (pos_of h) (vertices (polygon_store h polygon))) h = (Inr c, h1)"
      by (simp add: Polygon_clone_def)
    from Polygon_new_owned [OF this] have o1: "owned h h1 c" by simp
    from T_initialize_keeps [OF ti] have k: "keeps h1 h1 h2" and w: "wavefrontPolygons sk2 = [c]"
      and ps: "polygon_store h2 = polygon_store h1"
      by simp_all
    have "owned h h2 c"
      using o1 k ps by (auto simp: owned_iff keeps_def above_def)
    then show ?thesis
      using res w by (simp add: T_owned_def T_getCurrentPolygon_def owned_iff)
  qed
qed

lemma T_build_processEvents_keeps:
  assumes "T_build polygon h = (Inr sk, h1)" and "processEvents sk h1 = (sk', h2)"
  shows "keeps h h h2"
proof -
  from assms(1) have s: "T_Skeleton_new polygon h = (Inr sk, h1)"
    by (simp add: T_build_def)
  from T_Skeleton_new_owned [OF s] have k: "keeps h h h1" and o: "T_owned h h1 sk"
    by simp_all
  from assms(2) have "processEvents_loop (T_eventQueue sk) sk h1 = (sk', h2)"
    by (simp add: processEvents_def)
  from processEvents_loop_keeps [OF this o] k show ?thesis
    by (blast intro: keeps_trans)
qed
section \<open>Copies of edges\<close>


section \<open>The pentagon: construction and its split event\<close>

lemma vx_Vec [simp]: "vx (Vec a b) = a" and vy_Vec [simp]: "vy (Vec a b) = b"
  by (simp_all add: Vec_def)

lemma Vec_eq_iff [simp]: "Vec a b = Vec c d \<longleftrightarrow> a = c \<and> b = d"
  by (simp add: Vec_def)

lemma normalize_v_eval:
  assumes "0 < c" and "a * a + b * b = c * c"
  shows "normalize_v (Vec a b) = Inr (Vec (a / c) (b / c))"
proof -
  have "length_v (Vec a b) = c"
    unfolding length_v_def using assms by (simp add: real_sqrt_unique power2_eq_square)
  with assms(1) show ?thesis
    by (simp add: normalize_v_def)
qed

lemma pent_nth:
  "length pent = 5" "pent ! 0 = Vec 0 0" "pent ! Suc 0 = Vec 15 0" "pent ! 2 = Vec 22 24"
  "pent ! 3 = Vec 15 48" "pent ! 4 = Vec 14 48" "pent ! Suc (Suc 0) = Vec 22 24"
  by (simp_all add: pent_def)

lemma pent_len: "3 \<le> length pent"
  by (simp add: pent_nth)

lemma pent_norms:
  "normalize_v (Vec 14 48) = Inr (Vec (7 / 25) (24 / 25))"
  "normalize_v (Vec 15 0) = Inr (Vec 1 0)"
  "normalize_v (Vec (- 15) 0) = Inr (Vec (- 1) 0)"
  "normalize_v (Vec 7 24) = Inr (Vec (7 / 25) (24 / 25))"
  "normalize_v (Vec (- 7) (- 24)) = Inr (Vec (- (7 / 25)) (- (24 / 25)))"
  "normalize_v (Vec (- 7) 24) = Inr (Vec (- (7 / 25)) (24 / 25))"
  "normalize_v (Vec 7 (- 24)) = Inr (Vec (7 / 25) (- (24 / 25)))"
  "normalize_v (Vec (- 1) 0) = Inr (Vec (- 1) 0)"
  "normalize_v (Vec 1 0) = Inr (Vec 1 0)"
  "normalize_v (Vec (- 14) (- 48)) = Inr (Vec (- (7 / 25)) (- (24 / 25)))"
  "normalize_v (Vec (32 / 25) (24 / 25)) = Inr (Vec (4 / 5) (3 / 5))"
  "normalize_v (Vec (- (18 / 25)) (24 / 25)) = Inr (Vec (- (3 / 5)) (4 / 5))"
  "normalize_v (Vec (- (14 / 25)) 0) = Inr (Vec (- 1) 0)"
  "normalize_v (Vec (- (18 / 25)) (- (24 / 25))) = Inr (Vec (- (3 / 5)) (- (4 / 5)))"
  "normalize_v (Vec (18 / 25) (- (24 / 25))) = Inr (Vec (3 / 5) (- (4 / 5)))"
  using normalize_v_eval [of 50 14 48] normalize_v_eval [of 15 15 0] normalize_v_eval [of 15 "- 15" 0]
    normalize_v_eval [of 25 7 24] normalize_v_eval [of 25 "- 7" "- 24"] normalize_v_eval [of 25 "- 7" 24]
    normalize_v_eval [of 25 7 "- 24"] normalize_v_eval [of 1 "- 1" 0] normalize_v_eval [of 1 1 0]
    normalize_v_eval [of 50 "- 14" "- 48"] normalize_v_eval [of "8 / 5" "32 / 25" "24 / 25"]
    normalize_v_eval [of "6 / 5" "- (18 / 25)" "24 / 25"] normalize_v_eval [of "14 / 25" "- (14 / 25)" 0]
    normalize_v_eval [of "6 / 5" "- (18 / 25)" "- (24 / 25)"]
    normalize_v_eval [of "6 / 5" "18 / 25" "- (24 / 25)"]
  by simp_all

lemma pent_bisectors:
  "bisector_at pent 0 = Inr (Vec (4 / 5) (3 / 5))"
  "bisector_at pent (Suc 0) = Inr (Vec (- (3 / 5)) (4 / 5))"
  "bisector_at pent 2 = Inr (Vec (- 1) 0)"
  "bisector_at pent 3 = Inr (Vec (- (3 / 5)) (- (4 / 5)))"
  "bisector_at pent 4 = Inr (Vec (3 / 5) (- (4 / 5)))"
  by (simp_all add: bisector_at_def pent_nth Let_def plus_v_def pent_norms)


lemma pent_ok: "bisectors_ok pent"
  unfolding bisectors_ok_iff
proof (intro allI impI)
  fix i assume "i < length pent"
  then have "i = 0 \<or> i = Suc 0 \<or> i = 2 \<or> i = 3 \<or> i = 4"
    unfolding pent_nth by arith
  then show "\<exists>b. bisector_at pent i = Inr b"
    using pent_bisectors by auto
qed

lemma pent_run: "Polygon_new pent empty_heap = (fst (Polygon_new pent empty_heap), pent_heap)"
  by (simp add: pent_heap_def)

lemma pent_new: "Polygon_new pent empty_heap = (Inr 0, pent_heap)"
  using Polygon_new_props(12) [OF pent_run pent_len pent_ok] pent_run
  by (simp add: empty_heap_counts)

lemma pent_heap_polygon:
  "polygon_store pent_heap 0 = \<lparr>vertices = [0, Suc 0, 2, 3, 4], edges = [0, Suc 0, 2, 3, 4]\<rparr>"
  using Polygon_new_props(1) [OF pent_run pent_len]
  by (simp add: empty_heap_counts pent_nth upt_rec)

lemma pent_heap_counts:
  "vertex_count pent_heap = 5" "edge_count pent_heap = 5" "polygon_count pent_heap = Suc 0"
  using Polygon_new_props(5,6,7) [OF pent_run pent_len]
  by (simp_all add: empty_heap_counts pent_nth)

lemma pent_heap_pos:
  "pos_of pent_heap 0 = Vec 0 0" "pos_of pent_heap (Suc 0) = Vec 15 0" "pos_of pent_heap 2 = Vec 22 24"
  "pos_of pent_heap 3 = Vec 15 48" "pos_of pent_heap 4 = Vec 14 48"
  using Polygon_new_props(2) [OF pent_run pent_len, of 0] Polygon_new_props(2) [OF pent_run pent_len, of 1]
    Polygon_new_props(2) [OF pent_run pent_len, of 2] Polygon_new_props(2) [OF pent_run pent_len, of 3]
    Polygon_new_props(2) [OF pent_run pent_len, of 4]
  by (simp_all add: empty_heap_counts pent_nth del: add_2_eq_Suc add_2_eq_Suc')

lemma pent_heap_edges:
  "edge_store pent_heap 0 = \<lparr>v1 = 0, v2 = Suc 0\<rparr>" "edge_store pent_heap (Suc 0) = \<lparr>v1 = Suc 0, v2 = 2\<rparr>"
  "edge_store pent_heap 2 = \<lparr>v1 = 2, v2 = 3\<rparr>" "edge_store pent_heap 3 = \<lparr>v1 = 3, v2 = 4\<rparr>"
  "edge_store pent_heap 4 = \<lparr>v1 = 4, v2 = 0\<rparr>"
  using Polygon_new_props(4) [OF pent_run pent_len, of 0] Polygon_new_props(4) [OF pent_run pent_len, of 1]
    Polygon_new_props(4) [OF pent_run pent_len, of 2] Polygon_new_props(4) [OF pent_run pent_len, of 3]
    Polygon_new_props(4) [OF pent_run pent_len, of 4]
  by (simp_all add: empty_heap_counts pent_nth del: add_2_eq_Suc add_2_eq_Suc')

lemma pent_heap_simple: "isSimple pent_heap 0"
  by (simp add: isSimple_def pent_heap_polygon Let_def upt_rec edges_intersect_def pent_heap_edges
      pent_heap_pos sign_def)

lemma pent_clone_pts: "map (pos_of pent_heap) (vertices (polygon_store pent_heap 0)) = pent"
  by (simp add: pent_heap_polygon pent_heap_pos pent_def)

lemma pent_heap1_eq: "pent_heap1 = snd (Polygon_new pent pent_heap)"
  by (simp add: pent_heap1_def build_def Skeleton_new_def Wavefront_new_def pent_heap_simple
      Polygon_clone_def pent_clone_pts split: prod.splits sum.splits)

lemma pent_clone_run: "Polygon_new pent pent_heap = (fst (Polygon_new pent pent_heap), pent_heap1)"
  by (simp add: pent_heap1_eq)

lemma pent_clone: "Polygon_new pent pent_heap = (Inr (Suc 0), pent_heap1)"
  using Polygon_new_props(12) [OF pent_clone_run pent_len pent_ok] pent_clone_run
  by (simp add: pent_heap_counts)

lemma pent_wavefront_new: "Wavefront_new 0 pent_heap = (Inr pent_wavefront, pent_heap1)"
  by (simp add: Wavefront_new_def pent_heap_simple Polygon_clone_def pent_clone_pts pent_clone
      pent_wavefront_def)

lemma pent_heap1_polygon:
  "polygon_store pent_heap1 (Suc 0) = \<lparr>vertices = [5, 6, 7, 8, 9], edges = [5, 6, 7, 8, 9]\<rparr>"
  using Polygon_new_props(1) [OF pent_clone_run pent_len]
  by (simp add: pent_heap_counts pent_nth upt_rec)

lemma pent_heap1_counts:
  "vertex_count pent_heap1 = 10" "edge_count pent_heap1 = 10" "polygon_count pent_heap1 = 2"
  using Polygon_new_props(5,6,7) [OF pent_clone_run pent_len]
  by (simp_all add: pent_heap_counts pent_nth)

lemma pent_heap1_pos:
  "pos_of pent_heap1 5 = Vec 0 0" "pos_of pent_heap1 6 = Vec 15 0" "pos_of pent_heap1 7 = Vec 22 24"
  "pos_of pent_heap1 8 = Vec 15 48" "pos_of pent_heap1 9 = Vec 14 48"
  using Polygon_new_props(2) [OF pent_clone_run pent_len, of 0]
    Polygon_new_props(2) [OF pent_clone_run pent_len, of 1]
    Polygon_new_props(2) [OF pent_clone_run pent_len, of 2]
    Polygon_new_props(2) [OF pent_clone_run pent_len, of 3]
    Polygon_new_props(2) [OF pent_clone_run pent_len, of 4]
  by (simp_all add: pent_heap_counts pent_nth)

lemma pent_heap1_links:
  "prev (vertex_store pent_heap1 5) = Some 9" "nxt (vertex_store pent_heap1 5) = Some 6"
  "prev (vertex_store pent_heap1 6) = Some 5" "nxt (vertex_store pent_heap1 6) = Some 7"
  "prev (vertex_store pent_heap1 7) = Some 6" "nxt (vertex_store pent_heap1 7) = Some 8"
  "prev (vertex_store pent_heap1 8) = Some 7" "nxt (vertex_store pent_heap1 8) = Some 9"
  "prev (vertex_store pent_heap1 9) = Some 8" "nxt (vertex_store pent_heap1 9) = Some 5"
  using Polygon_new_props(3) [OF pent_clone_run pent_len, of 0]
    Polygon_new_props(3) [OF pent_clone_run pent_len, of 1]
    Polygon_new_props(3) [OF pent_clone_run pent_len, of 2]
    Polygon_new_props(3) [OF pent_clone_run pent_len, of 3]
    Polygon_new_props(3) [OF pent_clone_run pent_len, of 4]
  by (simp_all add: pent_heap_counts pent_nth)

lemma pent_heap1_edges:
  "edge_store pent_heap1 5 = \<lparr>v1 = 5, v2 = 6\<rparr>" "edge_store pent_heap1 6 = \<lparr>v1 = 6, v2 = 7\<rparr>"
  "edge_store pent_heap1 7 = \<lparr>v1 = 7, v2 = 8\<rparr>" "edge_store pent_heap1 8 = \<lparr>v1 = 8, v2 = 9\<rparr>"
  "edge_store pent_heap1 9 = \<lparr>v1 = 9, v2 = 5\<rparr>"
  using Polygon_new_props(4) [OF pent_clone_run pent_len, of 0]
    Polygon_new_props(4) [OF pent_clone_run pent_len, of 1]
    Polygon_new_props(4) [OF pent_clone_run pent_len, of 2]
    Polygon_new_props(4) [OF pent_clone_run pent_len, of 3]
    Polygon_new_props(4) [OF pent_clone_run pent_len, of 4]
  by (simp_all add: pent_heap_counts pent_nth)

lemma pent_heap1_bisectors:
  "bisector (vertex_store pent_heap1 5) = Vec (4 / 5) (3 / 5)"
  "bisector (vertex_store pent_heap1 6) = Vec (- (3 / 5)) (4 / 5)"
  "bisector (vertex_store pent_heap1 7) = Vec (- 1) 0"
  "bisector (vertex_store pent_heap1 8) = Vec (- (3 / 5)) (- (4 / 5))"
  "bisector (vertex_store pent_heap1 9) = Vec (3 / 5) (- (4 / 5))"
  using Polygon_new_props(13) [OF pent_clone_run pent_len, of 0]
    Polygon_new_props(13) [OF pent_clone_run pent_len, of 1]
    Polygon_new_props(13) [OF pent_clone_run pent_len, of 2]
    Polygon_new_props(13) [OF pent_clone_run pent_len, of 3]
    Polygon_new_props(13) [OF pent_clone_run pent_len, of 4]
    pent_clone pent_clone_run
  by (simp_all add: pent_heap_counts pent_nth pent_bisectors)

lemma pent_heap1_reflex:
  "isReflex pent_heap1 5 = Inr True" "isReflex pent_heap1 6 = Inr True"
  "isReflex pent_heap1 7 = Inr True" "isReflex pent_heap1 8 = Inr True"
  "isReflex pent_heap1 9 = Inr True"
  by (simp_all add: isReflex_def pent_heap1_links pent_heap1_pos cross_def)

lemma length_v_eval: "0 \<le> c \<Longrightarrow> a * a + b * b = c * c \<Longrightarrow> length_v (Vec a b) = c"
  unfolding length_v_def by (simp add: real_sqrt_unique power2_eq_square)

lemma pent_lengths: "length_v (Vec 15 0) = 15" "length_v (Vec 0 0) = 0"
  using length_v_eval [of 15 15 0] length_v_eval [of 0 0 0] by simp_all

lemma pent_hasReflex:
  "hasReflexEndpoint pent_heap1 5 = Inr True" "hasReflexEndpoint pent_heap1 6 = Inr True"
  "hasReflexEndpoint pent_heap1 7 = Inr True" "hasReflexEndpoint pent_heap1 8 = Inr True"
  "hasReflexEndpoint pent_heap1 9 = Inr True"
  by (simp_all add: hasReflexEndpoint_def pent_heap1_edges pent_heap1_reflex)

lemma pent_current: "getCurrentPolygon pent_wavefront = Inr (Suc 0)"
  by (simp add: getCurrentPolygon_def pent_wavefront_def)

lemma pent_edge_events: "edge_events_loop pent_heap1 [5, 6, 7, 8, 9] [] = Inr []"
  by (simp add: pent_hasReflex)

lemma pent_find_5: "findSplitEvents_loop pent_heap1 5 [5, 6, 7, 8, 9] q = Inr q"
  by (simp add: isAdjacent_def pent_heap1_edges pent_heap1_links calculateBisectorIntersection_def
      line_intersection_def plus_v_def pent_heap1_pos pent_heap1_bisectors Let_def)

lemma pent_find_6: "findSplitEvents_loop pent_heap1 6 [5, 6, 7, 8, 9] q = Inr q"
  by (simp add: isAdjacent_def pent_heap1_edges pent_heap1_links calculateBisectorIntersection_def
      line_intersection_def plus_v_def pent_heap1_pos pent_heap1_bisectors Let_def)

lemma pent_find_7:
  "findSplitEvents_loop pent_heap1 7 [5, 6, 7, 8, 9] q = Inr (add (SplitEvent 15 7 9 (Vec 7 24)) q)"
  by (simp add: isAdjacent_def pent_heap1_edges pent_heap1_links calculateBisectorIntersection_def
      line_intersection_def plus_v_def pent_heap1_pos pent_heap1_bisectors Let_def
      calculateSplitTime_def minus_v_def pent_lengths SplitEvent_new_def Event_new_def
      pent_heap1_reflex)

lemma pent_find_8: "findSplitEvents_loop pent_heap1 8 [5, 6, 7, 8, 9] q = Inr q"
  by (simp add: isAdjacent_def pent_heap1_edges pent_heap1_links calculateBisectorIntersection_def
      line_intersection_def plus_v_def pent_heap1_pos pent_heap1_bisectors Let_def)

lemma pent_find_9: "findSplitEvents_loop pent_heap1 9 [5, 6, 7, 8, 9] q = Inr q"
  by (simp add: isAdjacent_def pent_heap1_edges pent_heap1_links calculateBisectorIntersection_def
      line_intersection_def plus_v_def pent_heap1_pos pent_heap1_bisectors Let_def)

lemma pent_findSplit:
  "findSplitEvents pent_heap1 pent_wavefront 5 q = Inr q"
  "findSplitEvents pent_heap1 pent_wavefront 6 q = Inr q"
  "findSplitEvents pent_heap1 pent_wavefront 7 q = Inr (add (SplitEvent 15 7 9 (Vec 7 24)) q)"
  "findSplitEvents pent_heap1 pent_wavefront 8 q = Inr q"
  "findSplitEvents pent_heap1 pent_wavefront 9 q = Inr q"
  by (simp_all only: findSplitEvents_def pent_current pent_heap1_polygon sum.case Polygon.simps
      pent_find_5 pent_find_6 pent_find_7 pent_find_8 pent_find_9)

lemma pent_split_events:
  "split_events_loop pent_heap1 pent_wavefront [5, 6, 7, 8, 9] [] = Inr [SplitEvent 15 7 9 (Vec 7 24)]"
  by (simp only: split_events_loop.simps pent_heap1_reflex pent_findSplit sum.case bool.case
      add_Nil)

lemma pent_initializeEvents:
  "initializeEvents pent_heap1 pent_wavefront [] = Inr [SplitEvent 15 7 9 (Vec 7 24)]"
  by (simp only: initializeEvents_def pent_current pent_heap1_polygon Polygon.simps sum.case
      pent_edge_events pent_split_events)

lemma pent_build: "build 0 pent_heap = (Inr pent_skeleton, pent_heap1)"
  by (simp only: build_def Skeleton_new_def pent_heap_simple pent_wavefront_new
      pent_initializeEvents pent_skeleton_def not_True_eq_False if_False prod.case sum.case)

lemma handleSplitEvent_props:
  assumes cur: "getCurrentPolygon w = Inr cur"
    and ei: "findIndex (\<lambda>y. y = e) (edges (polygon_store h cur)) = Some ei"
    and vi: "findIndex (\<lambda>y. y = v) (vertices (polygon_store h cur)) = Some vi"
    and run: "handleSplitEvent w v e x h = (r, h')"
    and vs': "vs' = splice_insert (vi + 1) (vertex_count h) (vertices (polygon_store h cur))"
  shows "vertices (polygon_store h' cur) = vs'"
    and "edges (polygon_store h' cur) = [edge_count h + 1..<edge_count h + 1 + length vs']"
    and "\<And>j. j < length vs' \<Longrightarrow>
           edge_store h' (edge_count h + 1 + j) = \<lparr>v1 = vs' ! j, v2 = vs' ! ((j + 1) mod length vs')\<rparr>"
    and "\<And>u. pos_of h' u = (if u = vertex_count h then x else pos_of h u)"
    and "\<And>u. u \<in> set vs' \<Longrightarrow> linked h' u"
    and "distinct vs' \<Longrightarrow>
         bisectors_ok (map (\<lambda>u. if u = vertex_count h then x else pos_of h u) vs') \<Longrightarrow> r = Inr ()"
proof -
  let ?nv = "vertex_count h"
  let ?h1 = "snd (new_Vertex x h)"
  let ?h2 = "upd_polygon cur (\<lambda>y. y\<lparr>vertices := splice_insert (vi + 1) ?nv (vertices y)\<rparr>) ?h1"
  let ?h3 = "snd (new_Edge v ?nv ?h2)"
  let ?h4 = "upd_polygon cur (\<lambda>y. y\<lparr>edges := splice_insert (ei + 1) (edge_count ?h2) (edges y)\<rparr>) ?h3"
  from run cur vi ei have init: "Polygon_initialize cur ?h4 = (r, h')"
    by (simp add: handleSplitEvent_def new_Vertex_def new_Edge_def Let_def)
  have v4: "vertices (polygon_store ?h4 cur) = vs'"
    by (simp add: vs')
  have e4: "edge_count ?h4 = edge_count h + 1"
    by simp
  have p4: "\<And>u. pos_of ?h4 u = (if u = ?nv then x else pos_of h u)"
    by (simp add: pos_of_def)
  note F = initialize_frame_aux [OF init, unfolded v4 e4]
  show "vertices (polygon_store h' cur) = vs'"
    by (rule F(1))
  show "edges (polygon_store h' cur) = [edge_count h + 1..<edge_count h + 1 + length vs']"
    by (rule F(2))
  show "\<And>j. j < length vs' \<Longrightarrow>
           edge_store h' (edge_count h + 1 + j) = \<lparr>v1 = vs' ! j, v2 = vs' ! ((j + 1) mod length vs')\<rparr>"
    by (rule F(7))
  show "\<And>u. pos_of h' u = (if u = ?nv then x else pos_of h u)"
    using F(3) p4 by (simp add: pos_of_def)
  show "\<And>u. u \<in> set vs' \<Longrightarrow> linked h' u"
    by (rule F(11))
  show "distinct vs' \<Longrightarrow>
         bisectors_ok (map (\<lambda>u. if u = ?nv then x else pos_of h u) vs') \<Longrightarrow> r = Inr ()"
  proof -
    assume d: "distinct vs'" and ok: "bisectors_ok (map (\<lambda>u. if u = ?nv then x else pos_of h u) vs')"
    have d4: "distinct (vertices (polygon_store ?h4 cur))"
      using d by (simp only: v4)
    have "map (pos_of ?h4) vs' = map (\<lambda>u. if u = ?nv then x else pos_of h u) vs'"
      using p4 by simp
    with ok have "bisectors_ok (map (pos_of ?h4) (vertices (polygon_store ?h4 cur)))"
      by (simp only: v4)
    from initialize_success [OF d4 this] init show "r = Inr ()"
      by simp
  qed
qed

lemma pent_valid: "SplitEvent_isStillValid pent_heap1 pent_wavefront 7 9 (Vec 7 24) = Inr True"
  by (simp add: SplitEvent_isStillValid_def pent_current pent_heap1_polygon pent_heap1_reflex
      isAdjacent_def pent_heap1_edges pent_heap1_links calculateCurrentIntersection_def
      line_intersection_def plus_v_def pent_heap1_pos pent_heap1_bisectors Let_def minus_v_def
      pent_lengths)

lemma pent_split_outcome:
  assumes run: "handleSplitEvent pent_wavefront 7 9 (Vec 7 24) pent_heap1 = (r, h')"
  shows "r = Inr ()" and "validateState h' pent_wavefront = Inr False"
proof -
  have ei: "findIndex (\<lambda>y. y = 9) (edges (polygon_store pent_heap1 (Suc 0))) = Some 4"
    by (simp add: pent_heap1_polygon)
  have vi: "findIndex (\<lambda>y. y = 7) (vertices (polygon_store pent_heap1 (Suc 0))) = Some 2"
    by (simp add: pent_heap1_polygon)
  have vs': "[5, 6, 7, 10, 8, 9] =
      splice_insert (2 + 1) (vertex_count pent_heap1) (vertices (polygon_store pent_heap1 (Suc 0)))"
    by (simp add: pent_heap1_polygon pent_heap1_counts splice_insert_def)
  note P = handleSplitEvent_props [OF pent_current ei vi run vs']
  have pos: "pos_of h' 5 = Vec 0 0" "pos_of h' 7 = Vec 22 24" "pos_of h' 9 = Vec 14 48"
      "pos_of h' 10 = Vec 7 24"
    by (simp_all add: P(4) pent_heap1_counts pent_heap1_pos)
  have ok: "bisectors_ok [Vec 0 0, Vec 15 0, Vec 22 24, Vec 7 24, Vec 15 48, Vec 14 48]"
    by (simp add: bisector_eval minus_v_def)
  show "r = Inr ()"
    by (rule P(6)) (simp_all add: pent_heap1_counts pent_heap1_pos ok)
  have vs: "vertices (polygon_store h' (Suc 0)) = [5, 6, 7, 10, 8, 9]"
    by (rule P(1))
  have es: "edges (polygon_store h' (Suc 0)) = [11, 12, 13, 14, 15, 16]"
    using P(2) by (simp add: pent_heap1_counts upt_rec)
  have e13: "edge_store h' 13 = \<lparr>v1 = 7, v2 = 10\<rparr>"
    using P(3) [of 2] by (simp add: pent_heap1_counts)
  have e16: "edge_store h' 16 = \<lparr>v1 = 9, v2 = 5\<rparr>"
    using P(3) [of 5] by (simp add: pent_heap1_counts)
  have x: "edges_intersect h' 13 16"
    by (simp add: edges_intersect_def e13 e16 pos sign_def Let_def)
  have "\<not> isSimple h' (Suc 0)"
  proof
    assume "isSimple h' (Suc 0)"
    then have a: "\<forall>i\<in>set [0..<length [11, 12, 13, 14, 15, 16::nat]].
        \<forall>j\<in>set [i + 2..<length [11, 12, 13, 14, 15, 16::nat]].
          (i = 0 \<and> j = length [11, 12, 13, 14, 15, 16::nat] - 1) \<or>
          \<not> edges_intersect h' ([11, 12, 13, 14, 15, 16] ! i) ([11, 12, 13, 14, 15, 16] ! j)"
      by (simp only: isSimple_def Let_def es list_all_iff)
    have "\<not> edges_intersect h' 13 16"
      using a [rule_format, of 2 5] by simp
    with x show False by simp
  qed
  moreover have "length (polygons pent_wavefront) = length (times pent_wavefront)"
      "length (times pent_wavefront) = Suc 0"
    by (simp_all add: pent_wavefront_def)
  ultimately show "validateState h' pent_wavefront = Inr False"
    by (simp add: validateState_def pent_current)
qed

lemma pent_compute:
  "fst (compute 1 pent_skeleton pent_heap1) =
     Some (Inl (Error ''Invalid wavefront state after event processing''))"
proof -
  obtain r h' where run: "handleSplitEvent pent_wavefront 7 9 (Vec 7 24) pent_heap1 = (r, h')"
    by (cases "handleSplitEvent pent_wavefront 7 9 (Vec 7 24) pent_heap1")
  note O = pent_split_outcome [OF run]
  have p: "process pent_wavefront (SplitEvent 15 7 9 (Vec 7 24)) pent_heap1 = (Inr (), h')"
    by (simp add: SplitEvent_process_def pent_valid run O(1))
  have q: "poll [SplitEvent 15 7 9 (Vec 7 24)] = (Some (SplitEvent 15 7 9 (Vec 7 24)), [])"
    by (simp add: poll_def)
  have s: "eventQueue pent_skeleton = [SplitEvent 15 7 9 (Vec 7 24)]" "wavefront pent_skeleton = pent_wavefront"
    by (simp_all add: pent_skeleton_def)
  have "compute (Suc 0) pent_skeleton pent_heap1 =
     (Some (Inl (Error ''Invalid wavefront state after event processing'')), pent_skeleton\<lparr>eventQueue := []\<rparr>, h')"
    by (simp only: compute.simps s q p O(2) isEmpty_def prod.case option.case sum.case bool.case
        list.size add_0 One_nat_def nat.simps if_False)
  then show ?thesis by simp
qed
section \<open>The second class on the pentagon\<close>

lemma calculateBisector_cong:
  assumes "prev (vertex_store h v) = Some a" "nxt (vertex_store h v) = Some b"
    and "vertex_store h' v = vertex_store h v" "vertex_store h' a = vertex_store h a"
    and "vertex_store h' b = vertex_store h b"
  shows "calculateBisector h' v = calculateBisector h v"
  using assms by (simp add: calculateBisector_def pos_of_def)

lemma calculateBisector_length:
  "calculateBisector h v = Inr b \<Longrightarrow> length_v b = 1"
  by (auto simp: calculateBisector_def Let_def split: option.splits sum.splits
      dest: normalize_length)

lemma computeInitialBisectors_props:
  "computeInitialBisectors vs sk h = (r, sk', h') \<Longrightarrow> \<forall>v\<in>set vs. bisector_ready h v \<Longrightarrow>
     r = Inr () \<and>
     angleBisectorEdges sk' = angleBisectorEdges sk @ [edge_count h..<edge_count h + length vs] \<and>
     edge_count h' = edge_count h + length vs \<and>
     vertex_count h' = vertex_count h + 2 * length vs \<and>
     polygon_count h' = polygon_count h \<and>
     (\<forall>j<length vs. edge_store h' (edge_count h + j) =
         \<lparr>v1 = vertex_count h + 2 * j, v2 = vertex_count h + 2 * j + 1\<rparr> \<and>
         pos_of h' (vertex_count h + 2 * j) = pos_of h (vs ! j))"
proof (induction vs arbitrary: sk h)
  case Nil
  then show ?case by simp
next
  case (Cons v vs)
  from Cons.prems(2) have rv: "bisector_ready h v"
    by simp
  then obtain a b c where l: "prev (vertex_store h v) = Some a" "nxt (vertex_store h v) = Some b"
    and c: "calculateBisector h v = Inr c"
    by (auto simp: bisector_ready_def)
  have len: "\<not> \<bar>length_v c - 1\<bar> > NUMERICAL_TOLERANCE"
    using calculateBisector_length [OF c] by (simp add: NUMERICAL_TOLERANCE_def)
  let ?h1 = "snd (new_Vertex (pos_of h v) h)"
  let ?h2 = "snd (new_Vertex (plus_v (pos_of h v) (scale c 10)) ?h1)"
  let ?h3 = "snd (new_Edge (vertex_count h) (vertex_count ?h1) ?h2)"
  let ?sk1 = "sk\<lparr>angleBisectorEdges := angleBisectorEdges sk @ [edge_count ?h2]\<rparr>"
  from Cons.prems(1) l c len have rec: "computeInitialBisectors vs ?sk1 ?h3 = (r, sk', h')"
    by (simp add: Let_def new_Vertex_def new_Edge_def)
  have old: "\<And>u. u < vertex_count h \<Longrightarrow> vertex_store ?h3 u = vertex_store h u"
    by simp
  have ready: "\<forall>u\<in>set vs. bisector_ready ?h3 u"
  proof
    fix u assume "u \<in> set vs"
    with Cons.prems(2) have ru: "bisector_ready h u"
      by simp
    then obtain a' b' c' where u: "u < vertex_count h" "prev (vertex_store h u) = Some a'"
      "nxt (vertex_store h u) = Some b'" "a' < vertex_count h" "b' < vertex_count h"
      "calculateBisector h u = Inr c'"
      by (auto simp: bisector_ready_def)
    have "calculateBisector ?h3 u = Inr c'"
      using calculateBisector_cong [OF u(2,3) old [OF u(1)] old [OF u(4)] old [OF u(5)]] u(6)
      by simp
    with u show "bisector_ready ?h3 u"
      unfolding bisector_ready_def using old [OF u(1)] by auto
  qed
  note IH = Cons.IH [OF rec ready]
  have cnt: "edge_count ?h3 = Suc (edge_count h)" "vertex_count ?h3 = Suc (Suc (vertex_count h))"
    "polygon_count ?h3 = polygon_count h"
    by simp_all
  have k: "keeps ?h3 ?h3 h'"
    using computeInitialBisectors_keeps [OF rec] by simp
  have e0: "edge_store ?h3 (edge_count h) = \<lparr>v1 = vertex_count h, v2 = Suc (vertex_count h)\<rparr>"
    by simp
  have p0: "pos_of ?h3 (vertex_count h) = pos_of h v"
    by (simp add: pos_of_def)
  have up: "[edge_count h..<edge_count h + length (v # vs)] =
     edge_count h # [Suc (edge_count h)..<Suc (edge_count h) + length vs]"
    by (simp add: upt_rec)
  show ?case
  proof (intro conjI allI impI)
    show "r = Inr ()" using IH by simp
    show "angleBisectorEdges sk' =
        angleBisectorEdges sk @ [edge_count h..<edge_count h + length (v # vs)]"
      using IH cnt up by simp
    show "edge_count h' = edge_count h + length (v # vs)" using IH cnt by simp
    show "vertex_count h' = vertex_count h + 2 * length (v # vs)" using IH cnt by simp
    show "polygon_count h' = polygon_count h" using IH cnt by simp
  next
    fix j assume j: "j < length (v # vs)"
    show "edge_store h' (edge_count h + j) =
        \<lparr>v1 = vertex_count h + 2 * j, v2 = vertex_count h + 2 * j + 1\<rparr>"
    proof (cases j)
      case 0
      from k have "edge_store h' (edge_count h) = edge_store ?h3 (edge_count h)"
        by (simp add: keeps_def)
      with e0 0 show ?thesis by simp
    next
      case (Suc i)
      with j IH have "edge_store h' (edge_count ?h3 + i) =
          \<lparr>v1 = vertex_count ?h3 + 2 * i, v2 = vertex_count ?h3 + 2 * i + 1\<rparr>"
        by simp
      with Suc cnt show ?thesis by simp
    qed
    show "pos_of h' (vertex_count h + 2 * j) = pos_of h ((v # vs) ! j)"
    proof (cases j)
      case 0
      from k have "vertex_store h' (vertex_count h) = vertex_store ?h3 (vertex_count h)"
        by (simp add: keeps_def)
      with p0 0 show ?thesis by (simp add: pos_of_def)
    next
      case (Suc i)
      with j have i: "i < length vs" by simp
      with IH have "pos_of h' (vertex_count ?h3 + 2 * i) = pos_of ?h3 (vs ! i)"
        by simp
      moreover have "vs ! i < vertex_count h"
        using Cons.prems(2) i by (simp add: bisector_ready_def)
      then have "pos_of ?h3 (vs ! i) = pos_of h (vs ! i)"
        by (simp add: pos_of_def)
      ultimately show ?thesis using Suc cnt by simp
    qed
  qed
qed


lemma pent_heap_links:
  "prev (vertex_store pent_heap 0) = Some 4" "nxt (vertex_store pent_heap 0) = Some (Suc 0)"
  "prev (vertex_store pent_heap (Suc 0)) = Some 0" "nxt (vertex_store pent_heap (Suc 0)) = Some 2"
  "prev (vertex_store pent_heap 2) = Some (Suc 0)" "nxt (vertex_store pent_heap 2) = Some 3"
  "prev (vertex_store pent_heap 3) = Some 2" "nxt (vertex_store pent_heap 3) = Some 4"
  "prev (vertex_store pent_heap 4) = Some 3" "nxt (vertex_store pent_heap 4) = Some 0"
  using Polygon_new_props(3) [OF pent_run pent_len, of 0] Polygon_new_props(3) [OF pent_run pent_len, of 1]
    Polygon_new_props(3) [OF pent_run pent_len, of 2] Polygon_new_props(3) [OF pent_run pent_len, of 3]
    Polygon_new_props(3) [OF pent_run pent_len, of 4]
  by (simp_all add: empty_heap_counts pent_nth del: add_2_eq_Suc add_2_eq_Suc')

lemma pent_heap1_old:
  "vertex_store pent_heap1 0 = vertex_store pent_heap 0"
  "vertex_store pent_heap1 (Suc 0) = vertex_store pent_heap (Suc 0)"
  "vertex_store pent_heap1 2 = vertex_store pent_heap 2"
  "vertex_store pent_heap1 3 = vertex_store pent_heap 3"
  "vertex_store pent_heap1 4 = vertex_store pent_heap 4"
  "edge_store pent_heap1 0 = edge_store pent_heap 0"
  "edge_store pent_heap1 (Suc 0) = edge_store pent_heap (Suc 0)"
  "edge_store pent_heap1 2 = edge_store pent_heap 2"
  "edge_store pent_heap1 3 = edge_store pent_heap 3"
  "edge_store pent_heap1 4 = edge_store pent_heap 4"
  "polygon_store pent_heap1 0 = polygon_store pent_heap 0"
  using Polygon_new_props(8) [OF pent_clone_run pent_len, of 0]
    Polygon_new_props(8) [OF pent_clone_run pent_len, of 1]
    Polygon_new_props(8) [OF pent_clone_run pent_len, of 2]
    Polygon_new_props(8) [OF pent_clone_run pent_len, of 3]
    Polygon_new_props(8) [OF pent_clone_run pent_len, of 4]
    Polygon_new_props(9) [OF pent_clone_run pent_len, of 0]
    Polygon_new_props(9) [OF pent_clone_run pent_len, of 1]
    Polygon_new_props(9) [OF pent_clone_run pent_len, of 2]
    Polygon_new_props(9) [OF pent_clone_run pent_len, of 3]
    Polygon_new_props(9) [OF pent_clone_run pent_len, of 4]
    Polygon_new_props(10) [OF pent_clone_run pent_len, of 0]
  by (simp_all add: pent_heap_counts)

lemma pent_validate: "validateInputPolygon pent_heap 0 = Inr ()"
  by (simp add: validateInputPolygon_def pent_heap_polygon pent_heap_simple pent_heap_links)

lemma pent_Polygon_clone: "Polygon_clone 0 pent_heap = (Inr (Suc 0), pent_heap1)"
  by (simp add: Polygon_clone_def pent_clone_pts pent_clone)

lemma pent_T_norms:
  "normalize_v (Vec (- (32 / 25)) (24 / 25)) = Inr (Vec (- (4 / 5)) (3 / 5))"
  "normalize_v (Vec 0 (48 / 25)) = Inr (Vec 0 1)"
  "normalize_v (Vec (- (32 / 25)) (- (24 / 25))) = Inr (Vec (- (4 / 5)) (- (3 / 5)))"
  using normalize_v_eval [of "8 / 5" "- (32 / 25)" "24 / 25"]
    normalize_v_eval [of "48 / 25" 0 "48 / 25"]
    normalize_v_eval [of "8 / 5" "- (32 / 25)" "- (24 / 25)"]
  by simp_all

lemma pent_heap1_old_pos:
  "pos_of pent_heap1 0 = Vec 0 0" "pos_of pent_heap1 (Suc 0) = Vec 15 0" "pos_of pent_heap1 2 = Vec 22 24"
  "pos_of pent_heap1 3 = Vec 15 48" "pos_of pent_heap1 4 = Vec 14 48"
  using pent_heap_pos by (simp_all add: pos_of_def pent_heap1_old)

lemma pent_T_bisectors:
  "calculateBisector pent_heap1 0 = Inr (Vec (3 / 5) (- (4 / 5)))"
  "calculateBisector pent_heap1 (Suc 0) = Inr (Vec (4 / 5) (3 / 5))"
  "calculateBisector pent_heap1 2 = Inr (Vec 0 1)"
  "calculateBisector pent_heap1 3 = Inr (Vec (- (4 / 5)) (3 / 5))"
  "calculateBisector pent_heap1 4 = Inr (Vec (- (4 / 5)) (- (3 / 5)))"
  by (simp_all add: calculateBisector_def pent_heap1_old pent_heap_links pent_heap1_old_pos
      minus_v_def plus_v_def pent_norms pent_T_norms Let_def)


lemma pent_heap2_eq:
  "pent_heap2 = snd (snd (computeInitialBisectors [0, Suc 0, 2, 3, 4] pent_sk0 pent_heap1))"
  by (simp add: pent_heap2_def T_build_def T_Skeleton_new_def pent_validate pent_Polygon_clone
      T_initialize_def pent_heap1_old pent_heap_polygon split: prod.splits sum.splits)

lemma pent_ready: "\<forall>v\<in>set [0, Suc 0, 2, 3, 4]. bisector_ready pent_heap1 v"
  by (simp add: bisector_ready_def pent_heap1_counts pent_heap1_old pent_heap_links pent_T_bisectors)

lemma pent_bisector_run:
  "computeInitialBisectors [0, Suc 0, 2, 3, 4] pent_sk0 pent_heap1 =
     (Inr (), pent_tskeleton, pent_heap2)"
proof -
  obtain r sk' where run:
    "computeInitialBisectors [0, Suc 0, 2, 3, 4] pent_sk0 pent_heap1 = (r, sk', pent_heap2)"
    by (cases "computeInitialBisectors [0, Suc 0, 2, 3, 4] pent_sk0 pent_heap1")
      (simp add: pent_heap2_eq)
  from computeInitialBisectors_props [OF run pent_ready]
  have r: "r = Inr ()" and a: "angleBisectorEdges sk' = [10, 11, 12, 13, 14]"
    by (simp_all add: pent_heap1_counts upt_rec)
  from computeInitialBisectors_keeps [OF run]
  have "wavefrontPolygons sk' = [Suc 0]" "T_eventQueue sk' = []" "skeletonEdges sk' = []"
    by simp_all
  with a have "sk' = pent_tskeleton"
    by (cases sk') (simp add: pent_tskeleton_def)
  with run r show ?thesis by simp
qed


lemma pent_heap2_polygons: "polygon_store pent_heap2 = polygon_store pent_heap1"
  using computeInitialBisectors_keeps [OF pent_bisector_run] by simp

lemma pent_heap2_old:
  "v < 10 \<Longrightarrow> vertex_store pent_heap2 v = vertex_store pent_heap1 v"
  "e < 10 \<Longrightarrow> edge_store pent_heap2 e = edge_store pent_heap1 e"
  using computeInitialBisectors_keeps [OF pent_bisector_run]
  by (simp_all add: keeps_def pent_heap1_counts)

lemma pent_heap2_input:
  "vertex_store pent_heap2 0 = vertex_store pent_heap 0"
  "vertex_store pent_heap2 (Suc 0) = vertex_store pent_heap (Suc 0)"
  "vertex_store pent_heap2 2 = vertex_store pent_heap 2"
  "vertex_store pent_heap2 3 = vertex_store pent_heap 3"
  "vertex_store pent_heap2 4 = vertex_store pent_heap 4"
  "edge_store pent_heap2 0 = edge_store pent_heap 0"
  "edge_store pent_heap2 (Suc 0) = edge_store pent_heap (Suc 0)"
  "edge_store pent_heap2 2 = edge_store pent_heap 2"
  "edge_store pent_heap2 3 = edge_store pent_heap 3"
  "edge_store pent_heap2 4 = edge_store pent_heap 4"
  "polygon_store pent_heap2 0 = polygon_store pent_heap 0"
  by (simp_all add: pent_heap2_old pent_heap1_old pent_heap2_polygons)

lemma pent_heap2_pos:
  "pos_of pent_heap2 0 = Vec 0 0" "pos_of pent_heap2 (Suc 0) = Vec 15 0" "pos_of pent_heap2 2 = Vec 22 24"
  "pos_of pent_heap2 3 = Vec 15 48" "pos_of pent_heap2 4 = Vec 14 48"
  using pent_heap_pos by (simp_all add: pos_of_def pent_heap2_input)


lemma pent_heap2_reflex:
  "isReflex pent_heap2 0 = Inr True" "isReflex pent_heap2 (Suc 0) = Inr True"
  "isReflex pent_heap2 2 = Inr True" "isReflex pent_heap2 3 = Inr True"
  "isReflex pent_heap2 4 = Inr True"
  by (simp_all add: isReflex_def pent_heap2_input pent_heap_links pent_heap2_pos cross_def)

lemma pent_T_edge_events: "computeInitialEdgeEvents pent_heap2 [0, Suc 0, 2, 3, 4] [] = Inr []"
  by (simp add: T_edge_event_body_def hasReflexEndpoint_def pent_heap2_input pent_heap_edges
      pent_heap2_reflex)

lemma pent_T_bisectors2:
  "calculateBisector pent_heap2 0 = Inr (Vec (3 / 5) (- (4 / 5)))"
  "calculateBisector pent_heap2 (Suc 0) = Inr (Vec (4 / 5) (3 / 5))"
  "calculateBisector pent_heap2 2 = Inr (Vec 0 1)"
  "calculateBisector pent_heap2 3 = Inr (Vec (- (4 / 5)) (3 / 5))"
  "calculateBisector pent_heap2 4 = Inr (Vec (- (4 / 5)) (- (3 / 5)))"
  by (simp_all add: calculateBisector_def pent_heap2_input pent_heap_links pent_heap2_pos
      minus_v_def plus_v_def pent_norms pent_T_norms Let_def)

lemma pent_T_split_0:
  "T_split_edges_loop pent_heap2 0 (Vec (3 / 5) (- (4 / 5))) [0, Suc 0, 2, 3, 4] q = q"
  by (simp add: isAdjacent_def pent_heap2_input pent_heap_edges pent_heap_links
      calculateIntersection_def line_intersection_def plus_v_def pent_heap2_pos Let_def)

lemma pent_T_split_1:
  "T_split_edges_loop pent_heap2 (Suc 0) (Vec (4 / 5) (3 / 5)) [0, Suc 0, 2, 3, 4] q = q"
  by (simp add: isAdjacent_def pent_heap2_input pent_heap_edges pent_heap_links
      calculateIntersection_def line_intersection_def plus_v_def pent_heap2_pos Let_def)

lemma pent_T_split_2:
  "T_split_edges_loop pent_heap2 2 (Vec 0 1) [0, Suc 0, 2, 3, 4] q = q"
  by (simp add: isAdjacent_def pent_heap2_input pent_heap_edges pent_heap_links
      calculateIntersection_def line_intersection_def plus_v_def pent_heap2_pos Let_def)

lemma pent_T_split_3:
  "T_split_edges_loop pent_heap2 3 (Vec (- (4 / 5)) (3 / 5)) [0, Suc 0, 2, 3, 4] q = q"
  by (simp add: isAdjacent_def pent_heap2_input pent_heap_edges pent_heap_links
      calculateIntersection_def line_intersection_def plus_v_def pent_heap2_pos Let_def)

lemma pent_T_split_4:
  "T_split_edges_loop pent_heap2 4 (Vec (- (4 / 5)) (- (3 / 5))) [0, Suc 0, 2, 3, 4] q = q"
  by (simp add: isAdjacent_def pent_heap2_input pent_heap_edges pent_heap_links
      calculateIntersection_def line_intersection_def plus_v_def pent_heap2_pos Let_def)

lemma pent_T_split_events:
  "computeInitialSplitEvents pent_heap2 [0, Suc 0, 2, 3, 4] [0, Suc 0, 2, 3, 4] [] = Inr []"
  by (simp only: computeInitialSplitEvents.simps pent_heap2_reflex pent_T_bisectors2 sum.case
      bool.case pent_T_split_0 pent_T_split_1 pent_T_split_2 pent_T_split_3 pent_T_split_4)

lemma pent_T_initialize: "T_initialize 0 pent_sk0 pent_heap1 = (Inr (), pent_tskeleton, pent_heap2)"
proof -
  have q: "T_eventQueue pent_tskeleton = []"
    by (simp add: pent_tskeleton_def)
  have e: "pent_tskeleton\<lparr>T_eventQueue := []\<rparr> = pent_tskeleton"
    by (simp add: pent_tskeleton_def)
  show ?thesis
    by (simp only: T_initialize_def pent_heap1_old pent_heap_polygon Polygon.simps
        pent_bisector_run prod.case sum.case pent_heap2_input q pent_T_edge_events
        pent_T_split_events e)
qed

lemma pent_T_build: "T_build 0 pent_heap = (Inr pent_tskeleton, pent_heap2)"
  by (simp only: T_build_def T_Skeleton_new_def pent_validate pent_Polygon_clone
      pent_T_initialize prod.case sum.case)

section \<open>The input polygon is not modified\<close>

text \<open>
  Claim C10. Building a skeleton, with either class, and running its event loop changes
  no object that existed before the constructor was called: every vertex, edge and
  polygon object of the store at the call, so the caller's polygon with its vertex list,
  positions, links, bisectors and edge list, has the same state afterwards, whatever the
  outcome. The polygon that the wavefront holds after construction is a new object all
  of whose vertices are new objects. For \<open>compute\<close> this holds for every number of
  iterations and also when the loop is left by an error.
\<close>

theorem input_polygon_unchanged:
  "(build polygon h = (r, h1) \<longrightarrow> keeps h h h1) \<and>
   (build polygon h = (Inr sk, h1) \<longrightarrow>
      (\<exists>cur. getCurrentPolygon (wavefront sk) = Inr cur \<and> owned h h1 cur)) \<and>
   (build polygon h = (Inr sk, h1) \<and> compute n sk h1 = (r', sk', h2) \<longrightarrow> keeps h h h2) \<and>
   (T_build polygon h = (tr, h3) \<longrightarrow> keeps h h h3) \<and>
   (T_build polygon h = (Inr tsk, h3) \<longrightarrow> T_owned h h3 tsk) \<and>
   (T_build polygon h = (Inr tsk, h3) \<and> processEvents tsk h3 = (tsk', h4) \<longrightarrow> keeps h h h4)"
proof (intro conjI impI)
  assume "build polygon h = (r, h1)"
  then show "keeps h h h1"
    using Skeleton_new_owned(1) by (simp add: build_def)
next
  assume "build polygon h = (Inr sk, h1)"
  then show "\<exists>cur. getCurrentPolygon (wavefront sk) = Inr cur \<and> owned h h1 cur"
    using Skeleton_new_owned(2) by (simp add: build_def)
next
  assume "build polygon h = (Inr sk, h1) \<and> compute n sk h1 = (r', sk', h2)"
  then show "keeps h h h2"
    using build_compute_keeps by blast
next
  assume "T_build polygon h = (tr, h3)"
  then show "keeps h h h3"
    using T_Skeleton_new_owned(1) by (simp add: T_build_def)
next
  assume "T_build polygon h = (Inr tsk, h3)"
  then show "T_owned h h3 tsk"
    using T_Skeleton_new_owned(2) by (simp add: T_build_def)
next
  assume "T_build polygon h = (Inr tsk, h3) \<and> processEvents tsk h3 = (tsk', h4)"
  then show "keeps h h h4"
    using T_build_processEvents_keeps by blast
qed

theorem input_polygon_unchanged_witness:
  "build 0 pent_heap = (Inr pent_skeleton, pent_heap1) \<and>
   eventQueue pent_skeleton = [SplitEvent 15 7 9 (Vec 7 24)] \<and>
   getCurrentPolygon (wavefront pent_skeleton) = Inr 1 \<and>
   polygon_store pent_heap 0 = \<lparr>vertices = [0, 1, 2, 3, 4], edges = [0, 1, 2, 3, 4]\<rparr> \<and>
   polygon_store (snd (snd (compute 1 pent_skeleton pent_heap1))) 0 = polygon_store pent_heap 0 \<and>
   vertex_store (snd (snd (compute 1 pent_skeleton pent_heap1))) 2 = vertex_store pent_heap 2 \<and>
   edge_store (snd (snd (compute 1 pent_skeleton pent_heap1))) 4 = edge_store pent_heap 4 \<and>
   T_build 0 pent_heap = (Inr pent_tskeleton, pent_heap2) \<and>
   processEvents pent_tskeleton pent_heap2 = (pent_tskeleton, pent_heap2) \<and>
   polygon_store pent_heap2 0 = polygon_store pent_heap 0 \<and>
   vertex_store pent_heap2 2 = vertex_store pent_heap 2 \<and>
   edge_store pent_heap2 4 = edge_store pent_heap 4"
proof -
  let ?c = "compute 1 pent_skeleton pent_heap1"
  have c: "compute 1 pent_skeleton pent_heap1 = (fst ?c, fst (snd ?c), snd (snd ?c))"
    by simp
  have p: "processEvents pent_tskeleton pent_heap2 = (pent_tskeleton, pent_heap2)"
    by (simp add: processEvents_def pent_tskeleton_def)
  have q: "eventQueue pent_skeleton = [SplitEvent 15 7 9 (Vec 7 24)]"
    by (simp add: pent_skeleton_def)
  have w: "getCurrentPolygon (wavefront pent_skeleton) = Inr 1"
    using pent_current by (simp add: pent_skeleton_def)
  have g: "polygon_store pent_heap 0 = \<lparr>vertices = [0, 1, 2, 3, 4], edges = [0, 1, 2, 3, 4]\<rparr>"
    using pent_heap_polygon by simp
  note T = input_polygon_unchanged [where polygon = 0 and h = pent_heap and sk = pent_skeleton
      and ?h1.0 = pent_heap1 and r = "Inr pent_skeleton" and n = 1 and r' = "fst ?c"
      and sk' = "fst (snd ?c)" and ?h2.0 = "snd (snd ?c)" and tr = "Inr pent_tskeleton"
      and tsk = pent_tskeleton and ?h3.0 = pent_heap2 and tsk' = pent_tskeleton
      and ?h4.0 = pent_heap2]
  from T pent_build c have k2: "keeps pent_heap pent_heap (snd (snd ?c))"
    by blast
  from T pent_T_build p have k4: "keeps pent_heap pent_heap pent_heap2"
    by blast
  from k2 have a: "polygon_store (snd (snd ?c)) 0 = polygon_store pent_heap 0"
    "vertex_store (snd (snd ?c)) 2 = vertex_store pent_heap 2"
    "edge_store (snd (snd ?c)) 4 = edge_store pent_heap 4"
    by (simp_all add: keeps_def pent_heap_counts)
  from k4 have b: "polygon_store pent_heap2 0 = polygon_store pent_heap 0"
    "vertex_store pent_heap2 2 = vertex_store pent_heap 2"
    "edge_store pent_heap2 4 = edge_store pent_heap 4"
    by (simp_all add: keeps_def pent_heap_counts)
  show ?thesis
    by (intro conjI pent_build q w g a b pent_T_build p)
qed
section \<open>Events whose application fails\<close>

lemma initialize_single:
  assumes "vertices (polygon_store h p) = [v]"
  shows "fst (Polygon_initialize p h) = Inl (Error ''Cannot normalize zero vector'')"
  using assms
  by (simp add: Polygon_initialize_def link_loop_def link_step_def edge_loop_def edge_step_def
      new_Edge_def compute_bisector_def pos_of_def normalize_v_def length_v_def Let_def)

lemma T_handle_queue:
  "T_handle ev sk h = (r, sk', h') \<Longrightarrow> T_eventQueue sk' = T_eventQueue sk"
proof (cases ev)
  case (EdgeEvent t e)
  assume "T_handle ev sk h = (r, sk', h')"
  with EdgeEvent show ?thesis
    by (auto simp: T_handleEdgeEvent_def Let_def split: if_splits prod.splits option.splits sum.splits)
next
  case (SplitEvent t v e x)
  assume "T_handle ev sk h = (r, sk', h')"
  with SplitEvent show ?thesis
    by (auto simp: T_handleSplitEvent_def Let_def split: if_splits prod.splits option.splits sum.splits)
qed

lemma T_process_body_queue:
  assumes "T_process_body ev sk h = (r, sk', h')"
  shows "T_eventQueue sk' = T_eventQueue sk"
proof -
  obtain r1 sk1 h1 where hd: "T_handle ev sk h = (r1, sk1, h1)"
    by (cases "T_handle ev sk h") auto
  from assms hd have "T_eventQueue sk' = T_eventQueue sk1"
    by (auto simp: T_process_body_def split: sum.splits option.splits prod.splits)
  with T_handle_queue [OF hd] show ?thesis by simp
qed

lemma processEvents_loop_queue:
  "T_eventQueue sk = q \<Longrightarrow> T_eventQueue (fst (processEvents_loop q sk h)) = []"
proof (induction q arbitrary: sk h)
  case Nil
  then show ?case by simp
next
  case (Cons ev q)
  obtain r sk1 h1 where b: "T_process_body ev (sk\<lparr>T_eventQueue := q\<rparr>) h = (r, sk1, h1)"
    by (cases "T_process_body ev (sk\<lparr>T_eventQueue := q\<rparr>) h") auto
  from T_process_body_queue [OF b] have "T_eventQueue sk1 = q"
    by simp
  from Cons.IH [OF this] b show ?case
    by simp
qed

lemma T_handleEdgeEvent_result:
  assumes "validateEventState h sk (EdgeEvent t e)" and "T_getCurrentPolygon sk = Some cur"
  shows "fst (T_handleEdgeEvent t e sk h) =
     (case fst (Polygon_initialize cur
          (upd_polygon cur (\<lambda>y. y\<lparr>edges := filter (\<lambda>x. x \<noteq> e) (edges y)\<rparr>)
            (upd_polygon cur (\<lambda>y. y\<lparr>vertices :=
                filter (\<lambda>v. v \<noteq> v1 (edge_store (snd (Edge_clone e h)) e) \<and>
                             v \<noteq> v2 (edge_store (snd (Edge_clone e h)) e)) (vertices y)\<rparr>)
              (snd (Edge_clone e h))))) of
        Inl err \<Rightarrow> Inl (Rethrown ''Failed to reinitialize polygon: '' err)
      | Inr u \<Rightarrow> Inr ())"
proof -
  let ?h1 = "snd (Edge_clone e h)"
  let ?a = "v1 (edge_store ?h1 e)"
  let ?b = "v2 (edge_store ?h1 e)"
  let ?h2 = "upd_polygon cur (\<lambda>y. y\<lparr>vertices := filter (\<lambda>v. v \<noteq> ?a \<and> v \<noteq> ?b) (vertices y)\<rparr>) ?h1"
  let ?h3 = "upd_polygon cur (\<lambda>y. y\<lparr>edges := filter (\<lambda>x. x \<noteq> e) (edges y)\<rparr>) ?h2"
  obtain r0 h4 where run: "Polygon_initialize cur ?h3 = (r0, h4)"
    by (cases "Polygon_initialize cur ?h3")
  from assms run show ?thesis
    by (auto simp: T_handleEdgeEvent_def Edge_clone_def new_Edge_def Let_def split: sum.splits)
qed

lemma T_process_body_error:
  "fst (T_handle ev sk h) = Inl err \<Longrightarrow> fst (T_process_body ev sk h) = Inl err"
  by (cases "T_handle ev sk h") (auto simp: T_process_body_def)

lemma tri_T_event_fails:
  "fst (T_process_body (EdgeEvent 1 0)
          \<lparr>T_eventQueue = q, wavefrontPolygons = [0], angleBisectorEdges = [], skeletonEdges = []\<rparr>
          tri_heap) =
     Inl (Rethrown ''Failed to reinitialize polygon: '' (Error ''Cannot normalize zero vector''))"
proof -
  let ?sk = "\<lparr>T_eventQueue = q, wavefrontPolygons = [0], angleBisectorEdges = [], skeletonEdges = []\<rparr>"
  have cur: "T_getCurrentPolygon ?sk = Some 0"
    by (simp add: T_getCurrentPolygon_def)
  have v: "validateEventState tri_heap ?sk (EdgeEvent 1 0)"
    by (simp add: cur tri_heap_polygon)
  let ?h3 = "upd_polygon 0 (\<lambda>y. y\<lparr>edges := filter (\<lambda>x. x \<noteq> 0) (edges y)\<rparr>)
            (upd_polygon 0 (\<lambda>y. y\<lparr>vertices :=
                filter (\<lambda>v. v \<noteq> v1 (edge_store (snd (Edge_clone 0 tri_heap)) 0) \<and>
                             v \<noteq> v2 (edge_store (snd (Edge_clone 0 tri_heap)) 0)) (vertices y)\<rparr>)
              (snd (Edge_clone 0 tri_heap)))"
  have "vertices (polygon_store ?h3 0) = [2]"
    by (simp add: Edge_clone_def new_Edge_def tri_heap_counts tri_heap_edges tri_heap_polygon)
  from initialize_single [OF this]
  have "fst (T_handleEdgeEvent 1 0 ?sk tri_heap) =
     Inl (Rethrown ''Failed to reinitialize polygon: '' (Error ''Cannot normalize zero vector''))"
    by (simp only: T_handleEdgeEvent_result [OF v cur] sum.case)
  then show ?thesis
    by (intro T_process_body_error) simp
qed

lemma cw_heap_polygon: "polygon_store cw_heap 0 = \<lparr>vertices = [0, Suc 0, 2], edges = [0, Suc 0, 2]\<rparr>"
  using Polygon_new_props(1) [OF cw_run cw_len]
  by (simp add: empty_heap_counts cw_nth upt_rec)

lemma cw_heap_edge: "edge_store cw_heap 0 = \<lparr>v1 = 0, v2 = Suc 0\<rparr>"
  using Polygon_new_props(4) [OF cw_run cw_len, of 0]
  by (simp add: empty_heap_counts cw_nth)

lemma cw_heap_links1:
  "prev (vertex_store cw_heap (Suc 0)) = Some 0" "nxt (vertex_store cw_heap (Suc 0)) = Some 2"
  using Polygon_new_props(3) [OF cw_run cw_len, of 1]
  by (simp_all add: empty_heap_counts cw_nth del: add_2_eq_Suc add_2_eq_Suc')

lemma cw_heap_isReflex1: "isReflex cw_heap (Suc 0) = Inr False"
  by (simp add: isReflex_def cw_heap_links1 cw_heap_pos cross_def)

lemma tri_wavefront_current: "getCurrentPolygon tri_wavefront = Inr 0"
  by (simp add: getCurrentPolygon_def tri_wavefront_def)

lemma cw_event_fails:
  "fst (process tri_wavefront (EdgeEvent 1 0) cw_heap) = Inl (Error ''Cannot normalize zero vector'')"
proof -
  have valid: "EdgeEvent_isStillValid cw_heap tri_wavefront 0 = Inr True"
    by (simp add: EdgeEvent_isStillValid_def tri_wavefront_current cw_heap_polygon cw_heap_edge
        hasReflexEndpoint_def cw_heap_isReflex cw_heap_isReflex1)
  let ?h2 = "upd_polygon 0 (\<lambda>x. x\<lparr>edges := splice_delete 0 1 (edges x)\<rparr>)
               (upd_polygon 0 (\<lambda>x. x\<lparr>vertices := splice_delete 0 2 (vertices x)\<rparr>) cw_heap)"
  have eq: "handleEdgeEvent tri_wavefront 0 cw_heap = Polygon_initialize 0 ?h2"
    by (simp add: handleEdgeEvent_def tri_wavefront_current cw_heap_polygon cw_heap_edge)
  have "vertices (polygon_store ?h2 0) = [2]"
    by (simp add: cw_heap_polygon splice_delete_def)
  from initialize_single [OF this] eq valid show ?thesis
    by (simp add: EdgeEvent_process_def)
qed
section \<open>Errors while an event is applied\<close>

text \<open>
  Claim C3, as amended. In the class with the debug trace, \<open>processEvents\<close> catches an
  error raised while an event is applied: the loop goes on with the events that remain,
  in the state the failed event left, and ends with an empty queue. In \<open>Skeleton.compute\<close>
  nothing catches: an error raised by \<open>event.process\<close> leaves the loop, and so does the
  error that \<open>compute\<close> itself throws when the wavefront is not valid after an event.
\<close>

theorem event_errors_caught_or_raised:
  "(fst (T_process_body ev (sk\<lparr>T_eventQueue := q\<rparr>) h) = Inl err \<longrightarrow>
      processEvents_loop (ev # q) sk h =
        processEvents_loop q (fst (snd (T_process_body ev (sk\<lparr>T_eventQueue := q\<rparr>) h)))
          (snd (snd (T_process_body ev (sk\<lparr>T_eventQueue := q\<rparr>) h)))) \<and>
   T_eventQueue (fst (processEvents sk h)) = [] \<and>
   (eventQueue s1 = e1 # q1 \<and> fst (process (wavefront s1) e1 g1) = Inl err1 \<longrightarrow>
      fst (compute (Suc n1) s1 g1) = Some (Inl err1)) \<and>
   (eventQueue s2 = e2 # q2 \<and> fst (process (wavefront s2) e2 g2) = Inr () \<and>
    validateState (snd (process (wavefront s2) e2 g2)) (wavefront s2) = Inr False \<longrightarrow>
      fst (compute (Suc n2) s2 g2) =
        Some (Inl (Error ''Invalid wavefront state after event processing'')))"
proof (intro conjI impI)
  show "processEvents_loop (ev # q) sk h =
        processEvents_loop q (fst (snd (T_process_body ev (sk\<lparr>T_eventQueue := q\<rparr>) h)))
          (snd (snd (T_process_body ev (sk\<lparr>T_eventQueue := q\<rparr>) h)))"
    by (simp add: case_prod_beta)
  show "T_eventQueue (fst (processEvents sk h)) = []"
    unfolding processEvents_def by (rule processEvents_loop_queue) simp
next
  assume a: "eventQueue s1 = e1 # q1 \<and> fst (process (wavefront s1) e1 g1) = Inl err1"
  obtain r g where p: "process (wavefront s1) e1 g1 = (r, g)"
    by (cases "process (wavefront s1) e1 g1")
  with a have "r = Inl err1" by simp
  with a p show "fst (compute (Suc n1) s1 g1) = Some (Inl err1)"
    by (simp add: isEmpty_def poll_def)
next
  assume a: "eventQueue s2 = e2 # q2 \<and> fst (process (wavefront s2) e2 g2) = Inr () \<and>
    validateState (snd (process (wavefront s2) e2 g2)) (wavefront s2) = Inr False"
  obtain r g where p: "process (wavefront s2) e2 g2 = (r, g)"
    by (cases "process (wavefront s2) e2 g2")
  with a have "r = Inr ()" "validateState g (wavefront s2) = Inr False" by simp_all
  with a p show "fst (compute (Suc n2) s2 g2) =
        Some (Inl (Error ''Invalid wavefront state after event processing''))"
    by (simp add: isEmpty_def poll_def)
qed

theorem event_errors_caught_or_raised_witness:
  "fst (T_process_body (EdgeEvent 1 0)
          \<lparr>T_eventQueue = [EdgeEvent 2 1], wavefrontPolygons = [0], angleBisectorEdges = [],
            skeletonEdges = []\<rparr> tri_heap) =
     Inl (Rethrown ''Failed to reinitialize polygon: '' (Error ''Cannot normalize zero vector'')) \<and>
   processEvents_loop [EdgeEvent 1 0, EdgeEvent 2 1]
       \<lparr>T_eventQueue = [EdgeEvent 1 0, EdgeEvent 2 1], wavefrontPolygons = [0],
         angleBisectorEdges = [], skeletonEdges = []\<rparr> tri_heap =
     processEvents_loop [EdgeEvent 2 1]
       (fst (snd (T_process_body (EdgeEvent 1 0)
          \<lparr>T_eventQueue = [EdgeEvent 2 1], wavefrontPolygons = [0], angleBisectorEdges = [],
            skeletonEdges = []\<rparr> tri_heap)))
       (snd (snd (T_process_body (EdgeEvent 1 0)
          \<lparr>T_eventQueue = [EdgeEvent 2 1], wavefrontPolygons = [0], angleBisectorEdges = [],
            skeletonEdges = []\<rparr> tri_heap))) \<and>
   fst (process tri_wavefront (EdgeEvent 1 0) cw_heap) = Inl (Error ''Cannot normalize zero vector'') \<and>
   fst (compute 1 \<lparr>wavefront = tri_wavefront, eventQueue = [EdgeEvent 1 0], skeleton_edges = [],
                    skeleton_events = []\<rparr> cw_heap) =
     Some (Inl (Error ''Cannot normalize zero vector'')) \<and>
   fst (process pent_wavefront (SplitEvent 15 7 9 (Vec 7 24)) pent_heap1) = Inr () \<and>
   validateState (snd (process pent_wavefront (SplitEvent 15 7 9 (Vec 7 24)) pent_heap1))
     pent_wavefront = Inr False \<and>
   fst (compute 1 pent_skeleton pent_heap1) =
     Some (Inl (Error ''Invalid wavefront state after event processing''))"
proof -
  let ?sk = "\<lparr>T_eventQueue = [EdgeEvent 1 0, EdgeEvent 2 1], wavefrontPolygons = [0],
         angleBisectorEdges = [], skeletonEdges = []\<rparr>"
  let ?s1 = "\<lparr>wavefront = tri_wavefront, eventQueue = [EdgeEvent 1 0], skeleton_edges = [],
                    skeleton_events = []\<rparr>"
  let ?e2 = "SplitEvent 15 7 9 (Vec 7 24)"
  note T = event_errors_caught_or_raised [where ev = "EdgeEvent 1 0" and q = "[EdgeEvent 2 1]"
      and sk = ?sk and h = tri_heap
      and err = "Rethrown ''Failed to reinitialize polygon: '' (Error ''Cannot normalize zero vector'')"
      and ?s1.0 = ?s1 and ?e1.0 = "EdgeEvent 1 0" and ?q1.0 = "[]" and ?g1.0 = cw_heap
      and ?err1.0 = "Error ''Cannot normalize zero vector''" and ?n1.0 = 0
      and ?s2.0 = pent_skeleton and ?e2.0 = ?e2 and ?q2.0 = "[]" and ?g2.0 = pent_heap1 and ?n2.0 = 0]
  have upd: "?sk\<lparr>T_eventQueue := [EdgeEvent 2 1]\<rparr> =
      \<lparr>T_eventQueue = [EdgeEvent 2 1], wavefrontPolygons = [0], angleBisectorEdges = [],
            skeletonEdges = []\<rparr>"
    by simp
  note a = tri_T_event_fails [of "[EdgeEvent 2 1]"]
  from T [THEN conjunct1, rule_format, unfolded upd, OF a]
  have b: "processEvents_loop [EdgeEvent 1 0, EdgeEvent 2 1] ?sk tri_heap =
     processEvents_loop [EdgeEvent 2 1]
       (fst (snd (T_process_body (EdgeEvent 1 0)
          \<lparr>T_eventQueue = [EdgeEvent 2 1], wavefrontPolygons = [0], angleBisectorEdges = [],
            skeletonEdges = []\<rparr> tri_heap)))
       (snd (snd (T_process_body (EdgeEvent 1 0)
          \<lparr>T_eventQueue = [EdgeEvent 2 1], wavefrontPolygons = [0], angleBisectorEdges = [],
            skeletonEdges = []\<rparr> tri_heap)))" .
  have q1: "eventQueue ?s1 = [EdgeEvent 1 0]" and w1: "wavefront ?s1 = tri_wavefront"
    by simp_all
  have c: "fst (process (wavefront ?s1) (EdgeEvent 1 0) cw_heap) = Inl (Error ''Cannot normalize zero vector'')"
    unfolding w1 by (rule cw_event_fails)
  from T [THEN conjunct2, THEN conjunct2, THEN conjunct1, rule_format, OF conjI [OF q1 c]]
  have d: "fst (compute 1 ?s1 cw_heap) = Some (Inl (Error ''Cannot normalize zero vector''))"
    by (simp only: One_nat_def)
  obtain r h' where run: "handleSplitEvent pent_wavefront 7 9 (Vec 7 24) pent_heap1 = (r, h')"
    by (cases "handleSplitEvent pent_wavefront 7 9 (Vec 7 24) pent_heap1")
  note O = pent_split_outcome [OF run]
  have p: "process pent_wavefront ?e2 pent_heap1 = (Inr (), h')"
    by (simp add: SplitEvent_process_def pent_valid run O(1))
  have q2: "eventQueue pent_skeleton = [?e2]" and w2: "wavefront pent_skeleton = pent_wavefront"
    by (simp_all add: pent_skeleton_def)
  have e: "fst (process pent_wavefront ?e2 pent_heap1) = Inr ()"
    by (simp only: p fst_conv)
  have f: "validateState (snd (process pent_wavefront ?e2 pent_heap1)) pent_wavefront = Inr False"
    by (simp only: p snd_conv O(2))
  from T [THEN conjunct2, THEN conjunct2, THEN conjunct2, rule_format, unfolded w2,
      OF conjI [OF q2 conjI [OF e f]]]
  have g: "fst (compute 1 pent_skeleton pent_heap1) =
     Some (Inl (Error ''Invalid wavefront state after event processing''))"
    by (simp only: One_nat_def)
  show ?thesis
    by (intro conjI a b cw_event_fails d e f g)
qed

text \<open>
  Claim C3 as stated fails for \<open>Skeleton.compute\<close>: on the pentagon the constructor
  queues one split event; applying it leaves a polygon that is not simple, and
  \<open>compute\<close> ends with the error instead of skipping the event.
\<close>

theorem compute_aborts_on_invalid_state:
  "build 0 pent_heap = (Inr pent_skeleton, pent_heap1) \<and>
   poll (eventQueue pent_skeleton) = (Some (SplitEvent 15 7 9 (Vec 7 24)), []) \<and>
   fst (compute 1 pent_skeleton pent_heap1) =
     Some (Inl (Error ''Invalid wavefront state after event processing''))"
proof -
  have "poll (eventQueue pent_skeleton) = (Some (SplitEvent 15 7 9 (Vec 7 24)), [])"
    by (simp add: pent_skeleton_def poll_def)
  with pent_build pent_compute show ?thesis
    by (intro conjI)
qed
section \<open>What the accessors return\<close>












section \<open>The accessors and the state of the skeleton\<close>




end
